theory Spec2Isabelle
  imports Complex_Main
begin

section \<open>Data model\<close>

text \<open>
  The simulation kernel of the game component (the most extended of the three copies of
  the component in the repository): the refs of the component become the fields of one
  record, and every function takes the record and returns the updated one.

  Numbers: grid coordinates, timers and scores are integers in every run of the source,
  so they are \<open>int\<close>; the move interval and elapsed time can be fractional
  (\<open>baseMoveInterval / 2\<close>, \<open>* 1.5\<close>, frame deltas), so they are \<open>rat\<close>.

  Line numbers in the comments are those of the source of this copy of the component.

  Randomness: \<open>rnd :: nat \<Rightarrow> rat\<close> is the sequence of values returned by the calls of
  \<open>Math.random()\<close> that the game logic makes, in call order, and the field \<open>rngUsed\<close>
  counts how many of them have been consumed. The calls made by the purely visual code
  (particle velocities, blink timing, screen shake) feed no game state and are not part
  of the sequence.
\<close>

record Point =
  px :: int
  py :: int

datatype PowerupType = FREEZE | SPEED | SLOW | GHOST | SHRINK

datatype GameMode = PVC | PVP

text \<open>A powerup is a point with a type (\<open>{ ...p, type }\<close>); the type is \<open>None\<close> when
  the index into the type table is out of range (\<open>undefined\<close> in the source).\<close>

record Powerup = Point +
  ptype :: "PowerupType option"

datatype GameStatus = Intro | Menu | Playing | GameOver | Leaderboard

datatype Sound = SndMove | SndEat | SndDie | SndPowerup | SndPacman | SndWarp | SndSelect

datatype Colour = ColP1 | ColP2 | ColPacman

datatype Effect = PlaySound Sound | SpawnParticles int int Colour nat

record Game =
  gameState :: GameStatus
  mode :: GameMode
  scoreP1 :: int
  scoreP2 :: int
  scorePacman :: int
  gameOverReason :: string
  moveTimer :: rat
  moveInterval :: rat
  baseMoveInterval :: rat
  pacmanMoveTick :: int
  speedBoostTimer :: int
  ghostTimer :: int
  snake1 :: "Point list"
  dir1 :: Point
  nextDir1 :: Point
  snake2 :: "Point list"
  dir2 :: Point
  nextDir2 :: Point
  food :: Point
  powerup :: "Powerup option"
  pacman :: "Point option"
  pacmanFrozen :: int
  flashFrame :: int
  shakeFrame :: int
  effects :: "Effect list"
  rngUsed :: nat

text \<open>What a call returns: a value, a \<open>TypeError\<close> (reading \<open>.x\<close> of \<open>snake[0]\<close> on
  an empty body), or nothing at all because a placement loop never ends.\<close>

datatype 'a Outcome = Returns 'a | Throws | Hangs

definition andThen :: "'a Outcome \<Rightarrow> ('a \<Rightarrow> 'b Outcome) \<Rightarrow> 'b Outcome" where
  "andThen m f = (case m of Returns v \<Rightarrow> f v | Throws \<Rightarrow> Throws | Hangs \<Rightarrow> Hangs)"

section \<open>Constants\<close>

definition CELL_SIZE :: int where "CELL_SIZE = 20"
definition CANVAS_WIDTH :: int where "CANVAS_WIDTH = 600"
definition CANVAS_HEIGHT :: int where "CANVAS_HEIGHT = 400"
definition COLS :: int where "COLS = CANVAS_WIDTH div CELL_SIZE"
definition ROWS :: int where "ROWS = CANVAS_HEIGHT div CELL_SIZE"
definition FREEZE_DURATION :: int where "FREEZE_DURATION = 150"
definition SPEED_BOOST_DURATION :: int where "SPEED_BOOST_DURATION = 200"
definition GHOST_DURATION :: int where "GHOST_DURATION = 200"

text \<open>Modelled from the spec: the declaration of the enum \<open>PowerupType\<close> is in a file
  that is not among the sources; \<open>Object.values(PowerupType)\<close> is taken to list the five kinds
  the spec names, in the order of the colour table of the component.\<close>

definition powerupTypes :: "PowerupType list" where
  "powerupTypes = [FREEZE, SPEED, SLOW, GHOST, SHRINK]"

section \<open>Helpers\<close>

definition playSound :: "Sound \<Rightarrow> Game \<Rightarrow> Game" where
  "playSound t g = g\<lparr>effects := effects g @ [PlaySound t]\<rparr>"

definition spawnParticles :: "int \<Rightarrow> int \<Rightarrow> Colour \<Rightarrow> nat \<Rightarrow> Game \<Rightarrow> Game" where
  "spawnParticles x y color count g = g\<lparr>effects := effects g @ [SpawnParticles x y color count]\<rparr>"

definition triggerShake :: "int \<Rightarrow> Game \<Rightarrow> Game" where
  "triggerShake amount g = g\<lparr>shakeFrame := amount\<rparr>"

definition wrap :: "int \<Rightarrow> int \<Rightarrow> int" where
  "wrap val maxv = (if val < 0 then maxv - 1 else if val \<ge> maxv then 0 else val)"

fun checkCollision :: "Point \<Rightarrow> Point list \<Rightarrow> bool" where
  "checkCollision head [] = False"
| "checkCollision head (part # body) =
     (if px head = px part \<and> py head = py part then True else checkCollision head body)"

definition samePoint :: "Point \<Rightarrow> Point \<Rightarrow> bool" where
  "samePoint a b = (px a = px b \<and> py a = py b)"

definition asPoint :: "Powerup \<Rightarrow> Point" where
  "asPoint pu = \<lparr>px = px pu, py = py pu\<rparr>"

definition randomCell :: "(nat \<Rightarrow> rat) \<Rightarrow> nat \<Rightarrow> Point" where
  "randomCell rnd n =
     \<lparr>px = \<lfloor>rnd n * of_int COLS\<rfloor>, py = \<lfloor>rnd (Suc n) * of_int ROWS\<rfloor>\<rparr>"

text \<open>\<open>placeItem\<close> (lines 226-238): draw cells until one is not in \<open>exclude\<close>. The loop has no bound, so the
  result is \<open>None\<close> when it never ends; otherwise the cell and the number of random values
  consumed so far.\<close>

partial_function (option) placeItem ::
  "(nat \<Rightarrow> rat) \<Rightarrow> Point list \<Rightarrow> nat \<Rightarrow> (Point \<times> nat) option" where
  "placeItem rnd exclude n =
     (let p = randomCell rnd n in
      if checkCollision p exclude then placeItem rnd exclude (n + 2) else Some (p, n + 2))"

declare placeItem.simps [code]

definition placeItemG :: "(nat \<Rightarrow> rat) \<Rightarrow> Point list \<Rightarrow> Game \<Rightarrow> (Point \<times> Game) Outcome" where
  "placeItemG rnd exclude g =
     (case placeItem rnd exclude (rngUsed g) of
        None \<Rightarrow> Hangs
      | Some (p, n) \<Rightarrow> Returns (p, g\<lparr>rngUsed := n\<rparr>))"

definition nextRandom :: "(nat \<Rightarrow> rat) \<Rightarrow> Game \<Rightarrow> rat \<times> Game" where
  "nextRandom rnd g = (rnd (rngUsed g), g\<lparr>rngUsed := Suc (rngUsed g)\<rparr>)"

definition arrayAt :: "'a list \<Rightarrow> int \<Rightarrow> 'a option" where
  "arrayAt xs i = (if 0 \<le> i \<and> i < int (length xs) then Some (xs ! nat i) else None)"

definition placePowerup :: "(nat \<Rightarrow> rat) \<Rightarrow> Point list \<Rightarrow> Game \<Rightarrow> (Powerup \<times> Game) Outcome" where
  "placePowerup rnd exclude g =
     andThen (placeItemG rnd exclude g) (\<lambda>(p, g1).
       let (r, g2) = nextRandom rnd g1;
           t = arrayAt powerupTypes \<lfloor>r * of_nat (length powerupTypes)\<rfloor>
       in Returns (\<lparr>px = px p, py = py p, ptype = t\<rparr>, g2))"

text \<open>The signed displacement the chaser computes along one axis (written inline in the
  source, once with \<open>COLS\<close> and once with \<open>ROWS\<close>).\<close>

definition toroidalDelta :: "int \<Rightarrow> int \<Rightarrow> int \<Rightarrow> int" where
  "toroidalDelta a b limit =
     (let d = b - a in
      if (of_int \<bar>d\<bar> :: rat) > of_int limit / 2
      then (if d > 0 then d - limit else d + limit)
      else d)"

section \<open>Round start\<close>

text \<open>\<open>resetGame\<close> (lines 249-298), with the \<open>do ... while\<close> loop that picks the chaser's start: draw cells
  until the column is at least 5 away from the player's.\<close>

partial_function (option) spawnPacman ::
  "(nat \<Rightarrow> rat) \<Rightarrow> int \<Rightarrow> nat \<Rightarrow> (Point \<times> nat) option" where
  "spawnPacman rnd startX n =
     (let p = randomCell rnd n in
      if \<bar>px p - startX\<bar> < 5 then spawnPacman rnd startX (n + 2) else Some (p, n + 2))"

declare spawnPacman.simps [code]

definition resetGame :: "(nat \<Rightarrow> rat) \<Rightarrow> GameMode \<Rightarrow> Game \<Rightarrow> Game Outcome" where
  "resetGame rnd newMode g0 =
     (let g1 = g0\<lparr>mode := newMode, gameState := Playing, gameOverReason := [],
                  scoreP1 := 0, scoreP2 := 0, scorePacman := 0,
                  moveInterval := 120, baseMoveInterval := 120,
                  pacmanMoveTick := 0, pacmanFrozen := 0,
                  speedBoostTimer := 0, ghostTimer := 0,
                  flashFrame := 0, shakeFrame := 0\<rparr>;
          startX = (if newMode = PVP then \<lfloor>(of_int COLS :: rat) * (3 / 4)\<rfloor>
                    else \<lfloor>(of_int COLS :: rat) / 2\<rfloor>);
          g2 = g1\<lparr>snake1 := [\<lparr>px = startX, py = \<lfloor>(of_int ROWS :: rat) / 2\<rfloor>\<rparr>],
                  dir1 := \<lparr>px = 0, py = - 1\<rparr>, nextDir1 := \<lparr>px = 0, py = - 1\<rparr>\<rparr>
      in andThen
           (if newMode = PVP
            then Returns (g2\<lparr>snake2 := [\<lparr>px = \<lfloor>(of_int COLS :: rat) * (1 / 4)\<rfloor>,
                                           py = \<lfloor>(of_int ROWS :: rat) / 2\<rfloor>\<rparr>],
                             dir2 := \<lparr>px = 0, py = - 1\<rparr>, nextDir2 := \<lparr>px = 0, py = - 1\<rparr>,
                             pacman := None\<rparr>)
            else (case spawnPacman rnd startX (rngUsed g2) of
                    None \<Rightarrow> Hangs
                  | Some (p, n) \<Rightarrow> Returns (g2\<lparr>snake2 := [], pacman := Some p, rngUsed := n\<rparr>)))
           (\<lambda>g3.
              let allSegments = snake1 g3 @ (case pacman g3 of None \<Rightarrow> [] | Some pm \<Rightarrow> [pm])
                                 @ snake2 g3
              in andThen (placeItemG rnd allSegments g3) (\<lambda>(p, g4).
                   Returns (g4\<lparr>food := p, powerup := None\<rparr>))))"

section \<open>Input\<close>

text \<open>\<open>handleInput\<close> (lines 307-326) on the lower-cased key \<open>k\<close>, and
  \<open>handleJoystick\<close> (lines 836-839); the four tests of a player run in
  order, each on the committed direction.\<close>

definition handleInput :: "string \<Rightarrow> Game \<Rightarrow> Game" where
  "handleInput k g =
     (if gameState g = Intro then g\<lparr>gameState := Menu\<rparr>
      else if gameState g = Playing then
        (let g1 = (if k = ''arrowup'' \<and> py (dir1 g) = 0
                   then g\<lparr>nextDir1 := \<lparr>px = 0, py = - 1\<rparr>\<rparr> else g);
             g2 = (if k = ''arrowdown'' \<and> py (dir1 g1) = 0
                   then g1\<lparr>nextDir1 := \<lparr>px = 0, py = 1\<rparr>\<rparr> else g1);
             g3 = (if k = ''arrowleft'' \<and> px (dir1 g2) = 0
                   then g2\<lparr>nextDir1 := \<lparr>px = - 1, py = 0\<rparr>\<rparr> else g2);
             g4 = (if k = ''arrowright'' \<and> px (dir1 g3) = 0
                   then g3\<lparr>nextDir1 := \<lparr>px = 1, py = 0\<rparr>\<rparr> else g3)
         in if mode g4 = PVP then
              (let g5 = (if k = ''w'' \<and> py (dir2 g4) = 0
                         then g4\<lparr>nextDir2 := \<lparr>px = 0, py = - 1\<rparr>\<rparr> else g4);
                   g6 = (if k = ''s'' \<and> py (dir2 g5) = 0
                         then g5\<lparr>nextDir2 := \<lparr>px = 0, py = 1\<rparr>\<rparr> else g5);
                   g7 = (if k = ''a'' \<and> px (dir2 g6) = 0
                         then g6\<lparr>nextDir2 := \<lparr>px = - 1, py = 0\<rparr>\<rparr> else g6)
               in if k = ''d'' \<and> px (dir2 g7) = 0
                  then g7\<lparr>nextDir2 := \<lparr>px = 1, py = 0\<rparr>\<rparr> else g7)
            else g4)
      else g)"

definition handleJoystick :: "int \<Rightarrow> int \<Rightarrow> Game \<Rightarrow> Game" where
  "handleJoystick dx dy g =
     (let g1 = (if dx \<noteq> 0 \<and> px (dir1 g) = 0 then g\<lparr>nextDir1 := \<lparr>px = dx, py = 0\<rparr>\<rparr> else g)
      in if dy \<noteq> 0 \<and> py (dir1 g1) = 0 then g1\<lparr>nextDir1 := \<lparr>px = 0, py = dy\<rparr>\<rparr> else g1)"

section \<open>The update step\<close>

text \<open>\<open>update\<close> is modelled in the order of the source: the timers, then, when the move
  timer has passed the move interval, one tick: the move of player 1, the move of
  player 2, the chaser, and the resolution of the round. The blink logic that stands
  between the timers and the tick, and the particle bookkeeping, only feed the drawing
  code; of the visual requests the model keeps the calls (\<open>effects\<close>), the shake and the
  flash counters.\<close>

definition increaseSpeed :: "Game \<Rightarrow> Game" where
  "increaseSpeed g =
     (let g1 = g\<lparr>baseMoveInterval := max 60 (baseMoveInterval g - 1)\<rparr>
      in if speedBoostTimer g1 = 0 then g1\<lparr>moveInterval := baseMoveInterval g1\<rparr> else g1)"

definition detectWrap :: "int \<Rightarrow> int \<Rightarrow> Colour \<Rightarrow> Game \<Rightarrow> Game" where
  "detectWrap rawX rawY color g =
     (let g1 = (if rawX < 0
                then spawnParticles (COLS - 1) rawY color 3 (spawnParticles 0 rawY color 3 g)
                else if rawX \<ge> COLS
                then spawnParticles 0 rawY color 3 (spawnParticles (COLS - 1) rawY color 3 g)
                else g)
      in if rawY < 0
         then spawnParticles rawX (ROWS - 1) color 3 (spawnParticles rawX 0 color 3 g1)
         else if rawY \<ge> ROWS
         then spawnParticles rawX 0 color 3 (spawnParticles rawX (ROWS - 1) color 3 g1)
         else g1)"

text \<open>The timers at the head of \<open>update\<close> (lines 335-347), run on every call (every
  frame).\<close>

definition handleTimers :: "rat \<Rightarrow> Game \<Rightarrow> Game" where
  "handleTimers dt g =
     (let g1 = g\<lparr>moveTimer := moveTimer g + dt\<rparr>;
          g2 = (if speedBoostTimer g1 > 0 then
                  (let g' = g1\<lparr>speedBoostTimer := speedBoostTimer g1 - 1\<rparr>
                   in if speedBoostTimer g' = 0
                      then g'\<lparr>moveInterval := baseMoveInterval g'\<rparr> else g')
                else g1)
      in if ghostTimer g2 > 0 then g2\<lparr>ghostTimer := ghostTimer g2 - 1\<rparr> else g2)"

text \<open>The player's encounter with the chaser ("Eat or Die", lines 399-419): returns the state, the flag
  \<open>p1Dead\<close> and the flag \<open>eatenPacman\<close>.\<close>

definition pacmanEncounter ::
  "(nat \<Rightarrow> rat) \<Rightarrow> Point \<Rightarrow> bool \<Rightarrow> Game \<Rightarrow> (Game \<times> bool \<times> bool) Outcome" where
  "pacmanEncounter rnd head1 p1Dead g =
     (case pacman g of
        None \<Rightarrow> Returns (g, p1Dead, False)
      | Some pm \<Rightarrow>
          if mode g = PVC \<and> px head1 = px pm \<and> py head1 = py pm then
            (if pacmanFrozen g > 0 then
               (let g1 = triggerShake 5
                           (spawnParticles (px head1) (py head1) ColPacman 12
                              (playSound SndEat (g\<lparr>scoreP1 := scoreP1 g + 5\<rparr>)));
                    exclude = snake1 g1 @ [food g1]
                                @ (case powerup g1 of None \<Rightarrow> [] | Some pu \<Rightarrow> [asPoint pu])
                in andThen (placeItemG rnd exclude g1) (\<lambda>(p, g2).
                     Returns (g2\<lparr>pacman := Some p, pacmanFrozen := 0\<rparr>, p1Dead, True)))
             else Returns (g, True, False))
          else Returns (g, p1Dead, False))"

definition powerupAt :: "Point \<Rightarrow> Game \<Rightarrow> Powerup option" where
  "powerupAt h g =
     (case powerup g of
        None \<Rightarrow> None
      | Some pu \<Rightarrow> if px h = px pu \<and> py h = py pu then Some pu else None)"

text \<open>The \<open>switch\<close> on the powerup's type with what follows it, for player 1
  (lines 439-466) and for player 2 (lines 500-527).\<close>

definition collectPowerup1 :: "Powerup \<Rightarrow> Game \<Rightarrow> Game" where
  "collectPowerup1 pu g0 =
     (let g = playSound SndPowerup (g0\<lparr>scoreP1 := scoreP1 g0 + 5\<rparr>);
          g1 = (case ptype pu of
                  Some FREEZE \<Rightarrow> g\<lparr>pacmanFrozen := FREEZE_DURATION\<rparr>
                | Some SPEED \<Rightarrow> g\<lparr>speedBoostTimer := SPEED_BOOST_DURATION,
                                   moveInterval := max 30 (baseMoveInterval g / 2)\<rparr>
                | Some SLOW \<Rightarrow> g\<lparr>speedBoostTimer := SPEED_BOOST_DURATION,
                                  moveInterval := min 300 (baseMoveInterval g * (3 / 2))\<rparr>
                | Some GHOST \<Rightarrow> g\<lparr>ghostTimer := GHOST_DURATION\<rparr>
                | Some SHRINK \<Rightarrow>
                    (if length (snake1 g) > 3
                     then g\<lparr>snake1 := take (max 3 (length (snake1 g) div 2)) (snake1 g)\<rparr>
                     else g)
                | None \<Rightarrow> g)
      in triggerShake 10 (g1\<lparr>powerup := None, flashFrame := 10\<rparr>))"

definition collectPowerup2 :: "Powerup \<Rightarrow> Game \<Rightarrow> Game" where
  "collectPowerup2 pu g0 =
     (let g = playSound SndPowerup (g0\<lparr>scoreP2 := scoreP2 g0 + 5\<rparr>);
          g1 = (case ptype pu of
                  Some FREEZE \<Rightarrow> g\<lparr>pacmanFrozen := FREEZE_DURATION\<rparr>
                | Some SPEED \<Rightarrow> g\<lparr>speedBoostTimer := SPEED_BOOST_DURATION,
                                   moveInterval := max 30 (baseMoveInterval g / 2)\<rparr>
                | Some SLOW \<Rightarrow> g\<lparr>speedBoostTimer := SPEED_BOOST_DURATION,
                                  moveInterval := min 300 (baseMoveInterval g * (3 / 2))\<rparr>
                | Some GHOST \<Rightarrow> g\<lparr>ghostTimer := GHOST_DURATION\<rparr>
                | Some SHRINK \<Rightarrow>
                    (if length (snake2 g) > 3
                     then g\<lparr>snake2 := take (max 3 (length (snake2 g) div 2)) (snake2 g)\<rparr>
                     else g)
                | None \<Rightarrow> g)
      in triggerShake 10 (g1\<lparr>powerup := None, flashFrame := 10\<rparr>))"

text \<open>\<open>if (!powerup.current && Math.random() < 0.2) powerup.current = placePowerup(...)\<close>,
  after player 1 has eaten: the random value is drawn only when no powerup is active.\<close>

definition maybeSpawnPowerup :: "(nat \<Rightarrow> rat) \<Rightarrow> Game \<Rightarrow> Game Outcome" where
  "maybeSpawnPowerup rnd g4 =
     (if powerup g4 = None then
        (let (r, g5) = nextRandom rnd g4 in
         if r < 1 / 5 then
           andThen (placePowerup rnd (snake1 g5 @ snake2 g5 @ [food g5]) g5)
             (\<lambda>(pu, g6). Returns (g6\<lparr>powerup := Some pu\<rparr>))
         else Returns g5)
      else Returns g4)"

text \<open>The body of \<open>if (!p1Dead)\<close> (lines 421-471): push the head, then food, powerup,
  or pop; and the same for player 2 (lines 487-532), which spawns no powerup.\<close>

definition advanceP1 :: "(nat \<Rightarrow> rat) \<Rightarrow> Point \<Rightarrow> bool \<Rightarrow> Game \<Rightarrow> Game Outcome" where
  "advanceP1 rnd head1 eatenPacman g0 =
     (let g1 = g0\<lparr>snake1 := head1 # snake1 g0\<rparr> in
      if px head1 = px (food g1) \<and> py head1 = py (food g1) then
        (let g2 = increaseSpeed (triggerShake 3
                    (spawnParticles (px head1) (py head1) ColP1 8
                       (playSound SndEat (g1\<lparr>scoreP1 := scoreP1 g1 + 1\<rparr>))));
             excludeFood = snake1 g2 @ snake2 g2
                             @ (case powerup g2 of None \<Rightarrow> [] | Some pu \<Rightarrow> [asPoint pu])
         in andThen (placeItemG rnd excludeFood g2) (\<lambda>(p, g3).
              maybeSpawnPowerup rnd (g3\<lparr>food := p\<rparr>)))
      else
        (case powerupAt head1 g1 of
           Some pu \<Rightarrow> Returns (collectPowerup1 pu g1)
         | None \<Rightarrow>
             if \<not> eatenPacman then Returns (g1\<lparr>snake1 := butlast (snake1 g1)\<rparr>)
             else Returns g1))"

definition advanceP2 :: "(nat \<Rightarrow> rat) \<Rightarrow> Point \<Rightarrow> Game \<Rightarrow> Game Outcome" where
  "advanceP2 rnd head2 g0 =
     (let g1 = g0\<lparr>snake2 := head2 # snake2 g0\<rparr> in
      if px head2 = px (food g1) \<and> py head2 = py (food g1) then
        (let g2 = increaseSpeed (triggerShake 3
                    (spawnParticles (px head2) (py head2) ColP2 8
                       (playSound SndEat (g1\<lparr>scoreP2 := scoreP2 g1 + 1\<rparr>))));
             excludeFood = snake1 g2 @ snake2 g2
                             @ (case powerup g2 of None \<Rightarrow> [] | Some pu \<Rightarrow> [asPoint pu])
         in andThen (placeItemG rnd excludeFood g2) (\<lambda>(p, g3). Returns (g3\<lparr>food := p\<rparr>)))
      else
        (case powerupAt head2 g1 of
           Some pu \<Rightarrow> Returns (collectPowerup2 pu g1)
         | None \<Rightarrow> Returns (g1\<lparr>snake2 := butlast (snake2 g1)\<rparr>)))"

text \<open>"Move P1" (lines 387-471): next head, collision checks under the ghost guard, the encounter with the
  chaser, and the advance. Returns the state with \<open>head1\<close> and \<open>p1Dead\<close>, which the rest
  of the tick reads.\<close>

definition nextHead :: "Point \<Rightarrow> Point \<Rightarrow> Point" where
  "nextHead h d = \<lparr>px = wrap (px h + px d) COLS, py = wrap (py h + py d) ROWS\<rparr>"

definition moveP1 :: "(nat \<Rightarrow> rat) \<Rightarrow> Game \<Rightarrow> (Game \<times> Point \<times> bool) Outcome" where
  "moveP1 rnd g0 =
     (case snake1 g0 of
        [] \<Rightarrow> Throws
      | h # _ \<Rightarrow>
          (let nextX1 = px h + px (dir1 g0);
               nextY1 = py h + py (dir1 g0);
               g1 = detectWrap nextX1 nextY1 ColP1 g0;
               head1 = nextHead h (dir1 g0);
               p1Dead = (ghostTimer g1 = 0 \<and>
                          (checkCollision head1 (snake1 g1) \<or> checkCollision head1 (snake2 g1)))
           in andThen (pacmanEncounter rnd head1 p1Dead g1) (\<lambda>(g2, p1Dead2, eatenPacman).
                andThen (if \<not> p1Dead2 then advanceP1 rnd head1 eatenPacman g2 else Returns g2)
                  (\<lambda>g3. Returns (g3, head1, p1Dead2)))))"

text \<open>"Move P2" (lines 473-533, two-player mode only). Returns the state with \<open>p1Dead\<close> and \<open>p2Dead\<close>.\<close>

definition moveP2 ::
  "(nat \<Rightarrow> rat) \<Rightarrow> Point \<Rightarrow> bool \<Rightarrow> Game \<Rightarrow> (Game \<times> bool \<times> bool) Outcome" where
  "moveP2 rnd head1 p1Dead g0 =
     (if mode g0 = PVP then
        (case snake2 g0 of
           [] \<Rightarrow> Throws
         | h # _ \<Rightarrow>
             (let nextX2 = px h + px (dir2 g0);
                  nextY2 = py h + py (dir2 g0);
                  g1 = detectWrap nextX2 nextY2 ColP2 g0;
                  head2 = nextHead h (dir2 g0);
                  guard = (ghostTimer g1 = 0);
                  headToHead = (guard \<and> px head1 = px head2 \<and> py head1 = py head2);
                  p2Dead = ((guard \<and> (checkCollision head2 (snake2 g1)
                                        \<or> checkCollision head2 (snake1 g1))) \<or> headToHead);
                  p1Dead2 = (p1Dead \<or> headToHead)
              in andThen (if \<not> p2Dead then advanceP2 rnd head2 g1 else Returns g1)
                   (\<lambda>g2. Returns (g2, p1Dead2, p2Dead))))
      else Returns (g0, p1Dead, False))"

text \<open>"AI" (lines 535-597): the chaser's step on every second tick on which it is not frozen.
  \<open>pacmanTarget\<close> is the choice of the target cell (primary axis, then the other axis if
  the first target is on the player's body); \<open>pacmanStep\<close> is the move and what follows it.\<close>

definition pacmanTarget :: "(nat \<Rightarrow> rat) \<Rightarrow> Point \<Rightarrow> Game \<Rightarrow> Point \<times> Game" where
  "pacmanTarget rnd pm g0 =
     (let dx = toroidalDelta (px pm) (px (food g0)) COLS;
          dy = toroidalDelta (py pm) (py (food g0)) ROWS;
          primaryX = (\<bar>dx\<bar> > \<bar>dy\<bar>);
          pDirX = (if primaryX then (if dx > 0 then 1 else - 1) else 0);
          pDirY = (if primaryX then 0 else (if dy > 0 then 1 else - 1));
          target = \<lparr>px = wrap (px pm + pDirX) COLS, py = wrap (py pm + pDirY) ROWS\<rparr>
      in if checkCollision target (snake1 g0) then
           (if primaryX then
              (if dy \<noteq> 0
               then (\<lparr>px = wrap (px pm) COLS,
                      py = wrap (py pm + (if dy > 0 then 1 else - 1)) ROWS\<rparr>, g0)
               else (let (r, g') = nextRandom rnd g0
                     in (\<lparr>px = wrap (px pm) COLS,
                          py = wrap (py pm + (if r > 1 / 2 then 1 else - 1)) ROWS\<rparr>, g')))
            else
              (if dx \<noteq> 0
               then (\<lparr>px = wrap (px pm + (if dx > 0 then 1 else - 1)) COLS,
                      py = wrap (py pm) ROWS\<rparr>, g0)
               else (let (r, g') = nextRandom rnd g0
                     in (\<lparr>px = wrap (px pm + (if r > 1 / 2 then 1 else - 1)) COLS,
                          py = wrap (py pm) ROWS\<rparr>, g'))))
         else (target, g0))"

definition pacmanStep ::
  "(nat \<Rightarrow> rat) \<Rightarrow> Point \<Rightarrow> bool \<Rightarrow> Game \<Rightarrow> (Game \<times> bool) Outcome" where
  "pacmanStep rnd pm p1Dead g0 =
     (let (target2, g1) = pacmanTarget rnd pm g0;
          pm2 = (if \<not> checkCollision target2 (snake1 g1) then target2 else pm);
          g2 = g1\<lparr>pacman := Some pm2\<rparr>
      in andThen
           (if px pm2 = px (food g2) \<and> py pm2 = py (food g2)
            then andThen
                   (placeItemG rnd (snake1 g2)
                      (playSound SndPacman (g2\<lparr>scorePacman := scorePacman g2 + 1\<rparr>)))
                   (\<lambda>(p, g3). Returns (g3\<lparr>food := p\<rparr>))
            else Returns g2)
           (\<lambda>g4.
              case snake1 g4 of
                [] \<Rightarrow> Throws
              | h # _ \<Rightarrow>
                  (let p1Dead2 = (p1Dead \<or> (px pm2 = px h \<and> py pm2 = py h));
                       g5 = (case powerupAt pm2 g4 of
                               Some pu \<Rightarrow>
                                 spawnParticles (px pm2) (py pm2) ColPacman 8 (g4\<lparr>powerup := None\<rparr>)
                             | None \<Rightarrow> g4)
                   in Returns (g5, p1Dead2))))"

definition pacmanAI :: "(nat \<Rightarrow> rat) \<Rightarrow> bool \<Rightarrow> Game \<Rightarrow> (Game \<times> bool) Outcome" where
  "pacmanAI rnd p1Dead g =
     (case pacman g of
        None \<Rightarrow> Returns (g, p1Dead)
      | Some pm \<Rightarrow>
          if mode g = PVC then
            (if pacmanFrozen g > 0 then Returns (g\<lparr>pacmanFrozen := pacmanFrozen g - 1\<rparr>, p1Dead)
             else
               (let g1 = g\<lparr>pacmanMoveTick := pacmanMoveTick g + 1\<rparr>
                in if pacmanMoveTick g1 mod 2 = 0 then pacmanStep rnd pm p1Dead g1
                   else Returns (g1, p1Dead)))
          else Returns (g, p1Dead))"

text \<open>"Resolve Game Over" (lines 599-627). The high-score prompt that follows it in the source belongs to
  the leaderboard and changes nothing of the round.\<close>

definition resolveGameOver :: "bool \<Rightarrow> bool \<Rightarrow> Game \<Rightarrow> Game" where
  "resolveGameOver p1Dead p2Dead g =
     (if p1Dead \<or> p2Dead then
        (let g1 = (triggerShake 20 (playSound SndDie g))\<lparr>gameState := GameOver\<rparr>;
             reason = (if mode g1 = PVP then
                         (if p1Dead \<and> p2Dead then ''DRAW!''
                          else if p1Dead then ''PINK WINS!''
                          else ''GREEN WINS!'')
                       else ''GAME OVER'')
         in g1\<lparr>gameOverReason := reason\<rparr>)
      else g)"

text \<open>The body of \<open>if (moveTimer > moveInterval)\<close> (lines 364-628): one tick. It starts by resetting the
  move timer and committing the pending directions (\<open>commitDirs\<close>).\<close>

definition commitDirs :: "Game \<Rightarrow> Game" where
  "commitDirs g0 =
     (let g1 = g0\<lparr>moveTimer := 0, dir1 := nextDir1 g0\<rparr>
      in if mode g1 = PVP then g1\<lparr>dir2 := nextDir2 g1\<rparr> else g1)"

definition tick :: "(nat \<Rightarrow> rat) \<Rightarrow> Game \<Rightarrow> Game Outcome" where
  "tick rnd g0 =
     andThen (moveP1 rnd (commitDirs g0)) (\<lambda>(g3, head1, p1Dead).
       andThen (moveP2 rnd head1 p1Dead g3) (\<lambda>(g4, p1Dead4, p2Dead).
         andThen (pacmanAI rnd p1Dead4 g4) (\<lambda>(g5, p1Dead5).
           Returns (resolveGameOver p1Dead5 p2Dead g5))))"

definition update :: "(nat \<Rightarrow> rat) \<Rightarrow> rat \<Rightarrow> Game \<Rightarrow> Game Outcome" where
  "update rnd dt g =
     (let g1 = handleTimers dt g
      in if moveTimer g1 > moveInterval g1 then tick rnd g1 else Returns g1)"

section \<open>Predicates and concrete inputs used in the statements\<close>

text \<open>The chaser exists (single-player mode) and stands on cell \<open>c\<close>.\<close>

definition chaserAt :: "Point \<Rightarrow> Game \<Rightarrow> bool" where
  "chaserAt c g =
     (mode g = PVC \<and> (case pacman g of None \<Rightarrow> False | Some pm \<Rightarrow> px c = px pm \<and> py c = py pm))"

text \<open>The active powerup is a Ghost and lies on cell \<open>c\<close>.\<close>

definition ghostPowerupAt :: "Point \<Rightarrow> Game \<Rightarrow> bool" where
  "ghostPowerupAt c g = (case powerupAt c g of Some pu \<Rightarrow> ptype pu = Some GHOST | None \<Rightarrow> False)"

text \<open>The exact opposite of a direction.\<close>

definition opposite :: "Point \<Rightarrow> Point" where
  "opposite d = \<lparr>px = - px d, py = - py d\<rparr>"

text \<open>An intent comes from a key or from the joystick; \<open>fold applyInput\<close> submits a
  sequence of them in order.\<close>

datatype Input = Key string | Joystick int int

fun applyInput :: "Input \<Rightarrow> Game \<Rightarrow> Game" where
  "applyInput (Key k) g = handleInput k g"
| "applyInput (Joystick dx dy) g = handleJoystick dx dy g"

text \<open>The local flags \<open>p1Dead\<close> and \<open>p2Dead\<close> of a tick are read off the state it leaves:
  a dead player 1 ends the round with any reason but \<open>GREEN WINS!\<close>, a dead player 2
  with any reason but \<open>PINK WINS!\<close>.\<close>

definition p1Survived :: "Game \<Rightarrow> bool" where
  "p1Survived g' = (gameState g' \<noteq> GameOver \<or> gameOverReason g' = ''GREEN WINS!'')"

definition p2Survived :: "Game \<Rightarrow> bool" where
  "p2Survived g' = (gameState g' \<noteq> GameOver \<or> gameOverReason g' = ''PINK WINS!'')"

text \<open>Moving onto cell \<open>c\<close> consumes the chaser: it stands there and is frozen.\<close>

definition eatsChaser :: "Point \<Rightarrow> Game \<Rightarrow> bool" where
  "eatsChaser c g = (chaserAt c g \<and> pacmanFrozen g > 0)"

text \<open>The length of a body after a powerup of type \<open>t\<close> has been collected with the head
  already pushed (\<open>n\<close> segments).\<close>

definition lengthAfterPowerup :: "PowerupType option \<Rightarrow> nat \<Rightarrow> nat" where
  "lengthAfterPowerup t n = (if t = Some SHRINK \<and> n > 3 then max 3 (n div 2) else n)"

text \<open>The call of \<open>update\<close> with elapsed time \<open>dt\<close> runs a tick.\<close>

definition tickDue :: "rat \<Rightarrow> Game \<Rightarrow> bool" where
  "tickDue dt g = (moveTimer (handleTimers dt g) > moveInterval (handleTimers dt g))"

definition inGrid :: "Point \<Rightarrow> bool" where
  "inGrid c = (0 \<le> px c \<and> px c < COLS \<and> 0 \<le> py c \<and> py c < ROWS)"

text \<open>The \<open>k\<close>-th cell drawn from position \<open>n\<close> of the random sequence is the first one
  that is not excluded.\<close>

definition firstFreeAt :: "(nat \<Rightarrow> rat) \<Rightarrow> Point list \<Rightarrow> nat \<Rightarrow> nat \<Rightarrow> bool" where
  "firstFreeAt rnd exclude n k =
     (\<not> checkCollision (randomCell rnd (n + 2 * k)) exclude
      \<and> (\<forall>j<k. checkCollision (randomCell rnd (n + 2 * j)) exclude))"

definition fullGrid :: "Point list" where
  "fullGrid = concat (map (\<lambda>i. map (\<lambda>j. \<lparr>px = i, py = j\<rparr>) [0..ROWS - 1]) [0..COLS - 1])"

text \<open>Every cell of the grid is excluded.\<close>

definition saturated :: "Point list \<Rightarrow> bool" where
  "saturated exclude = list_all (\<lambda>c. checkCollision c exclude) fullGrid"

definition rndHalf :: "nat \<Rightarrow> rat" where
  "rndHalf n = 1 / 2"

definition rndA :: "nat \<Rightarrow> rat" where
  "rndA n = (if n = 0 then 1 / 5 else if n = 1 then 1 / 4 else 3 / 4)"

definition baseGame :: Game where
  "baseGame =
     \<lparr>gameState = Playing, mode = PVC, scoreP1 = 0, scoreP2 = 0, scorePacman = 0,
      gameOverReason = [], moveTimer = 0, moveInterval = 120, baseMoveInterval = 120,
      pacmanMoveTick = 0, speedBoostTimer = 0, ghostTimer = 0,
      snake1 = [\<lparr>px = 15, py = 10\<rparr>],
      dir1 = \<lparr>px = 0, py = - 1\<rparr>, nextDir1 = \<lparr>px = 0, py = - 1\<rparr>,
      snake2 = [], dir2 = \<lparr>px = 0, py = - 1\<rparr>, nextDir2 = \<lparr>px = 0, py = - 1\<rparr>,
      food = \<lparr>px = 2, py = 5\<rparr>, powerup = None, pacman = Some \<lparr>px = 25, py = 3\<rparr>,
      pacmanFrozen = 0, flashFrame = 0, shakeFrame = 0, effects = [], rngUsed = 0\<rparr>"

text \<open>Concrete game states and random sequences for the examples. \<open>rndA\<close>, \<open>rndB\<close>,
  \<open>rndC\<close> are the values that \<open>Math.random()\<close> returns in the run.\<close>

definition tailChase :: Game where
  "tailChase =
     baseGame\<lparr>snake1 := [\<lparr>px = 5, py = 5\<rparr>, \<lparr>px = 5, py = 6\<rparr>, \<lparr>px = 6, py = 6\<rparr>, \<lparr>px = 6, py = 5\<rparr>],
              nextDir1 := \<lparr>px = 1, py = 0\<rparr>\<rparr>"

definition tailChaseGhost :: Game where
  "tailChaseGhost = tailChase\<lparr>ghostTimer := 50\<rparr>"

definition headOn :: Game where
  "headOn =
     baseGame\<lparr>mode := PVP, pacman := None, ghostTimer := 100,
              snake1 := [\<lparr>px = 12, py = 5\<rparr>],
              dir1 := \<lparr>px = - 1, py = 0\<rparr>, nextDir1 := \<lparr>px = - 1, py = 0\<rparr>,
              snake2 := [\<lparr>px = 10, py = 5\<rparr>],
              dir2 := \<lparr>px = 1, py = 0\<rparr>, nextDir2 := \<lparr>px = 1, py = 0\<rparr>\<rparr>"

definition headOnNoGhost :: Game where
  "headOnNoGhost = headOn\<lparr>ghostTimer := 0\<rparr>"

definition ghostAhead :: Game where
  "ghostAhead = baseGame\<lparr>powerup := Some \<lparr>px = 15, py = 9, ptype = Some GHOST\<rparr>\<rparr>"

definition foodAhead :: Game where
  "foodAhead = baseGame\<lparr>food := \<lparr>px = 15, py = 9\<rparr>\<rparr>"

definition turningLeft :: Game where
  "turningLeft = baseGame\<lparr>nextDir1 := \<lparr>px = - 1, py = 0\<rparr>\<rparr>"

definition pvpFood :: Game where
  "pvpFood =
     baseGame\<lparr>mode := PVP, pacman := None,
              snake1 := [\<lparr>px = 22, py = 10\<rparr>], snake2 := [\<lparr>px = 7, py = 10\<rparr>],
              food := \<lparr>px = 7, py = 9\<rparr>\<rparr>"

definition pvpGhost :: Game where
  "pvpGhost =
     baseGame\<lparr>mode := PVP, pacman := None,
              snake1 := [\<lparr>px = 12, py = 5\<rparr>, \<lparr>px = 12, py = 6\<rparr>, \<lparr>px = 12, py = 7\<rparr>],
              snake2 := [\<lparr>px = 11, py = 6\<rparr>],
              dir2 := \<lparr>px = 1, py = 0\<rparr>, nextDir2 := \<lparr>px = 1, py = 0\<rparr>,
              powerup := Some \<lparr>px = 12, py = 4, ptype = Some GHOST\<rparr>\<rparr>"

definition pvpGhost2 :: Game where
  "pvpGhost2 =
     baseGame\<lparr>mode := PVP, pacman := None,
              snake1 := [\<lparr>px = 22, py = 10\<rparr>], snake2 := [\<lparr>px = 7, py = 10\<rparr>],
              powerup := Some \<lparr>px = 7, py = 9, ptype = Some GHOST\<rparr>\<rparr>"

definition pvpTailChase :: Game where
  "pvpTailChase =
     baseGame\<lparr>mode := PVP, pacman := None,
              snake1 := [\<lparr>px = 22, py = 10\<rparr>],
              snake2 := [\<lparr>px = 5, py = 5\<rparr>, \<lparr>px = 5, py = 6\<rparr>, \<lparr>px = 6, py = 6\<rparr>, \<lparr>px = 6, py = 5\<rparr>],
              nextDir2 := \<lparr>px = 1, py = 0\<rparr>\<rparr>"

definition pvpTailChaseGhost :: Game where
  "pvpTailChaseGhost = pvpTailChase\<lparr>ghostTimer := 50\<rparr>"

definition frozenChaserAhead :: Game where
  "frozenChaserAhead =
     baseGame\<lparr>snake1 := [\<lparr>px = 5, py = 5\<rparr>, \<lparr>px = 5, py = 6\<rparr>, \<lparr>px = 6, py = 6\<rparr>, \<lparr>px = 7, py = 6\<rparr>],
              nextDir1 := \<lparr>px = 1, py = 0\<rparr>,
              pacman := Some \<lparr>px = 6, py = 5\<rparr>, pacmanFrozen := 10, pacmanMoveTick := 1\<rparr>"

definition chaserNextToFood :: Game where
  "chaserNextToFood = baseGame\<lparr>pacman := Some \<lparr>px = 3, py = 5\<rparr>, pacmanMoveTick := 1\<rparr>"

definition rndB :: "nat \<Rightarrow> rat" where
  "rndB n = (if n = 0 then 1 / 12 else 1 / 4)"

definition rndC :: "nat \<Rightarrow> rat" where
  "rndC n = (if n = 0 then 5 / 6 else if n = 1 then 3 / 20 else 1 / 2)"

section \<open>Grid arithmetic\<close>

lemma COLS_eq: "COLS = 30"
  by (simp add: COLS_def CANVAS_WIDTH_def CELL_SIZE_def)

lemma ROWS_eq: "ROWS = 20"
  by (simp add: ROWS_def CANVAS_HEIGHT_def CELL_SIZE_def)

lemma checkCollision_iff:
  "checkCollision h body = (\<exists>p\<in>set body. px h = px p \<and> py h = py p)"
  by (induction body) auto

lemma checkCollision_mem: "checkCollision h body = (h \<in> set body)"
  by (induction body) auto




lemma toroidalDelta_int:
  "toroidalDelta a b N =
     (let d = b - a in if 2 * \<bar>d\<bar> > N then (if d > 0 then d - N else d + N) else d)"
proof -
  have "((of_int \<bar>b - a\<bar> :: rat) > of_int N / 2) = (2 * \<bar>b - a\<bar> > N)"
  proof -
    have "((of_int \<bar>b - a\<bar> :: rat) > of_int N / 2)
            = ((of_int N :: rat) < of_int (2 * \<bar>b - a\<bar>))"
      by (simp add: field_simps)
    also have "\<dots> = (N < 2 * \<bar>b - a\<bar>)" by (rule of_int_less_iff)
    finally show ?thesis .
  qed
  then show ?thesis by (simp add: toroidalDelta_def Let_def)
qed

lemma toroidalDelta_antisym: "0 \<le> N \<Longrightarrow> toroidalDelta a b N = - toroidalDelta b a N"
  unfolding toroidalDelta_int Let_def by (simp split: if_splits)

lemma toroidalDelta_bound:
  "0 \<le> a \<Longrightarrow> a < N \<Longrightarrow> 0 \<le> b \<Longrightarrow> b < N \<Longrightarrow> 2 * \<bar>toroidalDelta a b N\<bar> \<le> N"
  unfolding toroidalDelta_int Let_def by (simp split: if_splits)

lemma toroidalDelta_sgn:
  "0 \<le> N \<Longrightarrow>
   toroidalDelta a b N =
     (let d = b - a in if (of_int \<bar>d\<bar> :: rat) > of_int N / 2 then d - sgn d * N else d)"
  unfolding toroidalDelta_def Let_def by (cases "b - a = 0") (simp_all add: sgn_if)

lemma half_bound_rat: "2 * \<bar>d :: int\<bar> \<le> N \<Longrightarrow> (of_int \<bar>d\<bar> :: rat) \<le> of_int N / 2"
proof -
  assume "2 * \<bar>d\<bar> \<le> N"
  then have "(of_int (2 * \<bar>d\<bar>) :: rat) \<le> of_int N" by (simp only: of_int_le_iff)
  then show ?thesis by (simp add: field_simps)
qed

text \<open>
  C8. For grid coordinates \<open>a\<close>, \<open>b\<close> on an axis of size \<open>N\<close>, the displacement the chaser
  computes is \<open>d = b - a\<close> less \<open>sign(d) * N\<close> when \<open>|d| > N/2\<close>; it is antisymmetric,
  and its absolute value is at most \<open>N/2\<close>.
\<close>

theorem toroidalDelta_antisymmetric_bounded:
  assumes "0 \<le> a" "a < N" "0 \<le> b" "b < N"
  shows "toroidalDelta a b N = - toroidalDelta b a N
         \<and> (of_int \<bar>toroidalDelta a b N\<bar> :: rat) \<le> of_int N / 2
         \<and> toroidalDelta a b N =
             (let d = b - a in if (of_int \<bar>d\<bar> :: rat) > of_int N / 2 then d - sgn d * N else d)"
proof -
  from assms have N: "0 \<le> N" by linarith
  show ?thesis
    using toroidalDelta_antisym [OF N, of a b]
      half_bound_rat [OF toroidalDelta_bound [OF assms]]
      toroidalDelta_sgn [OF N, of a b]
    by blast
qed

theorem toroidalDelta_antisymmetric_bounded_witness:
  "(0::int) \<le> 1 \<and> (1::int) < COLS \<and> (0::int) \<le> 28 \<and> (28::int) < COLS
   \<and> toroidalDelta 1 28 COLS = - 3 \<and> toroidalDelta 28 1 COLS = 3
   \<and> toroidalDelta 1 28 COLS = - toroidalDelta 28 1 COLS
   \<and> (of_int \<bar>toroidalDelta 1 28 COLS\<bar> :: rat) \<le> of_int COLS / 2"
proof -
  have h: "(0::int) \<le> 1" "(1::int) < COLS" "(0::int) \<le> 28" "(28::int) < COLS"
    by (simp_all add: COLS_eq)
  have v: "toroidalDelta 1 28 COLS = - 3" "toroidalDelta 28 1 COLS = 3"
    by (simp_all add: toroidalDelta_int COLS_eq)
  from toroidalDelta_antisymmetric_bounded [OF h] h v show ?thesis by simp
qed

section \<open>Placement\<close>

lemma shift_index: "n + 2 * Suc j = (n + 2) + 2 * j"
  by simp

lemma firstFreeAt_0: "\<not> checkCollision (randomCell rnd n) ex \<Longrightarrow> firstFreeAt rnd ex n 0"
  by (simp add: firstFreeAt_def)

lemma firstFreeAt_Suc:
  "checkCollision (randomCell rnd n) ex \<Longrightarrow>
   firstFreeAt rnd ex n (Suc k) = firstFreeAt rnd ex (n + 2) k"
proof -
  assume c: "checkCollision (randomCell rnd n) ex"
  have "(\<forall>j<Suc k. checkCollision (randomCell rnd (n + 2 * j)) ex)
        = (\<forall>j<k. checkCollision (randomCell rnd (n + 2 + 2 * j)) ex)"
  proof
    assume a: "\<forall>j<Suc k. checkCollision (randomCell rnd (n + 2 * j)) ex"
    show "\<forall>j<k. checkCollision (randomCell rnd (n + 2 + 2 * j)) ex"
    proof (intro allI impI)
      fix j assume "j < k"
      then have "Suc j < Suc k" by simp
      with a have "checkCollision (randomCell rnd (n + 2 * Suc j)) ex" by blast
      then show "checkCollision (randomCell rnd (n + 2 + 2 * j)) ex" unfolding shift_index .
    qed
  next
    assume a: "\<forall>j<k. checkCollision (randomCell rnd (n + 2 + 2 * j)) ex"
    show "\<forall>j<Suc k. checkCollision (randomCell rnd (n + 2 * j)) ex"
    proof (intro allI impI)
      fix j assume jk: "j < Suc k"
      show "checkCollision (randomCell rnd (n + 2 * j)) ex"
      proof (cases j)
        case 0 with c show ?thesis by simp
      next
        case (Suc i)
        with jk a have "checkCollision (randomCell rnd (n + 2 + 2 * i)) ex" by simp
        then show ?thesis unfolding Suc shift_index .
      qed
    qed
  qed
  then show ?thesis unfolding firstFreeAt_def shift_index by simp
qed

text \<open>If \<open>placeItem\<close> returns, it returns the first drawn cell that is not excluded.\<close>

lemma placeItem_SomeD:
  assumes "placeItem rnd ex n = Some r"
  shows "\<exists>k. r = (randomCell rnd (n + 2 * k), n + 2 * k + 2) \<and> firstFreeAt rnd ex n k"
proof (rule placeItem.raw_induct
    [where P = "\<lambda>rnd ex n r. \<exists>k. r = (randomCell rnd (n + 2 * k), n + 2 * k + 2)
                                  \<and> firstFreeAt rnd ex n k", OF _ assms], goal_cases)
  case (1 f rnd ex n r)
  note IH = 1(1) and eq = 1(2)
  show ?case
  proof (cases "checkCollision (randomCell rnd n) ex")
    case False
    with eq have "r = (randomCell rnd n, n + 2)" by (simp add: Let_def)
    with firstFreeAt_0 [OF False] show ?thesis by (intro exI[of _ 0]) simp
  next
    case True
    with eq have "f rnd ex (n + 2) = Some r" by (simp add: Let_def)
    from IH [OF this] obtain k where
      k: "r = (randomCell rnd (n + 2 + 2 * k), n + 2 + 2 * k + 2)" "firstFreeAt rnd ex (n + 2) k"
      by blast
    from k(1) have "r = (randomCell rnd (n + 2 * Suc k), n + 2 * Suc k + 2)"
      unfolding shift_index .
    moreover from k(2) have "firstFreeAt rnd ex n (Suc k)"
      by (simp only: firstFreeAt_Suc [OF True])
    ultimately show ?thesis by blast
  qed
qed

lemma placeItem_first:
  "firstFreeAt rnd ex n k \<Longrightarrow>
   placeItem rnd ex n = Some (randomCell rnd (n + 2 * k), n + 2 * k + 2)"
proof (induction k arbitrary: n)
  case 0
  then show ?case by (subst placeItem.simps) (simp add: Let_def firstFreeAt_def)
next
  case (Suc k)
  from Suc.prems have "checkCollision (randomCell rnd (n + 2 * 0)) ex"
    unfolding firstFreeAt_def by blast
  then have c0: "checkCollision (randomCell rnd n) ex" by simp
  from Suc.prems have "firstFreeAt rnd ex (n + 2) k"
    by (simp only: firstFreeAt_Suc [OF c0])
  then have "placeItem rnd ex (n + 2) = Some (randomCell rnd (n + 2 + 2 * k), n + 2 + 2 * k + 2)"
    by (rule Suc.IH)
  then have "placeItem rnd ex (n + 2) = Some (randomCell rnd (n + 2 * Suc k), n + 2 * Suc k + 2)"
    unfolding shift_index .
  moreover have "placeItem rnd ex n = placeItem rnd ex (n + 2)"
    using c0 by (subst placeItem.simps) (simp add: Let_def)
  ultimately show ?case by simp
qed

lemma placeItem_None:
  "(\<forall>k. checkCollision (randomCell rnd (n + 2 * k)) ex) \<Longrightarrow> placeItem rnd ex n = None"
proof (rule ccontr)
  assume a: "\<forall>k. checkCollision (randomCell rnd (n + 2 * k)) ex" and "placeItem rnd ex n \<noteq> None"
  then obtain r where "placeItem rnd ex n = Some r" by auto
  from placeItem_SomeD[OF this] a show False unfolding firstFreeAt_def by blast
qed

lemma placeItem_not_excluded:
  "placeItem rnd ex n = Some (p, m) \<Longrightarrow> \<not> checkCollision p ex"
  using placeItem_SomeD [of rnd ex n "(p, m)"] unfolding firstFreeAt_def by auto

lemma floor_scaled_range:
  assumes "0 \<le> (r::rat)" "r < 1" "0 < (n::int)"
  shows "0 \<le> \<lfloor>r * of_int n\<rfloor> \<and> \<lfloor>r * of_int n\<rfloor> < n"
proof -
  from assms(3) have n: "(0::rat) < of_int n" by (simp only: of_int_0_less_iff)
  with assms(1) have "0 \<le> r * of_int n" by (intro mult_nonneg_nonneg) simp_all
  then have a: "0 \<le> \<lfloor>r * of_int n\<rfloor>" by (simp only: zero_le_floor)
  from assms(2) n have "r * of_int n < 1 * of_int n" by (rule mult_strict_right_mono)
  then have "r * of_int n < of_int n" by (simp only: mult_1)
  then have b: "\<lfloor>r * of_int n\<rfloor> < n" by (simp only: floor_less_iff)
  from a b show ?thesis ..
qed

lemma randomCell_inGrid:
  assumes "0 \<le> rnd n" "rnd n < 1" "0 \<le> rnd (Suc n)" "rnd (Suc n) < 1"
  shows "inGrid (randomCell rnd n)"
proof -
  have c: "0 < COLS" and r: "0 < ROWS" by (simp_all add: COLS_eq ROWS_eq)
  from floor_scaled_range [OF assms(1,2) c] floor_scaled_range [OF assms(3,4) r]
  show ?thesis unfolding inGrid_def randomCell_def by simp
qed

lemma fullGrid_mem:
  assumes "0 \<le> i" "i < COLS" "0 \<le> j" "j < ROWS"
  shows "\<lparr>px = i, py = j\<rparr> \<in> set fullGrid"
proof -
  from assms(3,4) have "\<lparr>px = i, py = j\<rparr> \<in> set (map (\<lambda>j. \<lparr>px = i, py = j\<rparr>) [0..ROWS - 1])"
    by simp
  moreover from assms(1,2)
  have "map (\<lambda>j. \<lparr>px = i, py = j\<rparr>) [0..ROWS - 1]
          \<in> set (map (\<lambda>i. map (\<lambda>j. \<lparr>px = i, py = j\<rparr>) [0..ROWS - 1]) [0..COLS - 1])"
    unfolding set_map by (intro imageI) simp
  ultimately show ?thesis
    unfolding fullGrid_def set_concat by (rule UN_I [rotated])
qed

lemma fullGrid_covers: "inGrid c \<Longrightarrow> checkCollision c fullGrid"
proof -
  assume g: "inGrid c"
  then have "\<lparr>px = px c, py = py c\<rparr> \<in> set fullGrid"
    unfolding inGrid_def by (intro fullGrid_mem) simp_all
  then show ?thesis
    unfolding checkCollision_iff by (rule bexI [rotated]) simp
qed

lemma saturated_fullGrid: "saturated fullGrid"
  by (simp add: saturated_def list_all_iff checkCollision_mem)

lemma saturatedD: "saturated ex \<Longrightarrow> inGrid c \<Longrightarrow> checkCollision c ex"
proof -
  assume s: "saturated ex" and g: "inGrid c"
  from g have "\<lparr>px = px c, py = py c\<rparr> \<in> set fullGrid"
    unfolding inGrid_def by (intro fullGrid_mem) simp_all
  with s have "checkCollision \<lparr>px = px c, py = py c\<rparr> ex"
    unfolding saturated_def list_all_iff by blast
  then show ?thesis unfolding checkCollision_iff by simp
qed

lemma saturated_never_free:
  assumes "\<forall>i. 0 \<le> rnd i \<and> rnd i < 1" "saturated ex"
  shows "checkCollision (randomCell rnd m) ex"
  using assms by (intro saturatedD randomCell_inGrid) simp_all

lemma rndHalf_unit: "0 \<le> rndHalf i \<and> rndHalf i < 1"
  by (simp add: rndHalf_def)

text \<open>
  C9 (as stated, refuted). The claim says that \<open>placeItem\<close> terminates on every input and
  raises a fatal error when no cell is free. With every cell of the grid excluded the call
  neither returns nor raises: the loop never ends.
\<close>

theorem placeItem_saturated_counterexample: "placeItemG rndHalf fullGrid baseGame = Hangs"
proof -
  have "\<forall>k. checkCollision (randomCell rndHalf (rngUsed baseGame + 2 * k)) fullGrid"
    using saturated_never_free [OF _ saturated_fullGrid, of rndHalf] rndHalf_unit by blast
  then have "placeItem rndHalf fullGrid (rngUsed baseGame) = None"
    by (rule placeItem_None)
  then show ?thesis by (simp add: placeItemG_def)
qed

text \<open>
  C9 (amended). \<open>placeItem\<close> draws random cells until one is not in the exclude list and
  returns the first such draw; it makes no exhaustive search and raises no error. When
  every draw is excluded it never returns; in particular, when every cell of the grid is
  excluded, it never returns whatever the random source gives.
\<close>

theorem placeItem_first_free_or_never:
  "(firstFreeAt rnd exclude n k \<longrightarrow>
      placeItem rnd exclude n = Some (randomCell rnd (n + 2 * k), n + 2 * k + 2))
   \<and> ((\<forall>k. checkCollision (randomCell rnd (n + 2 * k)) exclude) \<longrightarrow>
        placeItem rnd exclude n = None)
   \<and> ((\<forall>i. 0 \<le> rnd i \<and> rnd i < 1) \<and> saturated exclude \<longrightarrow>
        placeItemG rnd exclude g = Hangs)"
proof (intro conjI impI)
  assume "firstFreeAt rnd exclude n k"
  then show "placeItem rnd exclude n = Some (randomCell rnd (n + 2 * k), n + 2 * k + 2)"
    by (rule placeItem_first)
next
  assume "\<forall>k. checkCollision (randomCell rnd (n + 2 * k)) exclude"
  then show "placeItem rnd exclude n = None" by (rule placeItem_None)
next
  assume a: "(\<forall>i. 0 \<le> rnd i \<and> rnd i < 1) \<and> saturated exclude"
  then have "\<forall>k. checkCollision (randomCell rnd (rngUsed g + 2 * k)) exclude"
    using saturated_never_free [of rnd exclude] by blast
  then have "placeItem rnd exclude (rngUsed g) = None" by (rule placeItem_None)
  then show "placeItemG rnd exclude g = Hangs" by (simp add: placeItemG_def)
qed

theorem placeItem_first_free_or_never_witness:
  "firstFreeAt rndA [\<lparr>px = 6, py = 5\<rparr>] 0 1
   \<and> placeItem rndA [\<lparr>px = 6, py = 5\<rparr>] 0 = Some (\<lparr>px = 22, py = 15\<rparr>, 4)
   \<and> (\<forall>i. 0 \<le> rndHalf i \<and> rndHalf i < 1) \<and> saturated fullGrid
   \<and> (\<forall>k. checkCollision (randomCell rndHalf (0 + 2 * k)) fullGrid)
   \<and> placeItem rndHalf fullGrid 0 = None
   \<and> placeItemG rndHalf fullGrid baseGame = Hangs"
proof -
  have c0: "randomCell rndA 0 = \<lparr>px = 6, py = 5\<rparr>" by code_simp
  have c: "randomCell rndA (0 + 2 * 1) = \<lparr>px = 22, py = 15\<rparr>" by code_simp
  from c0 c have f: "firstFreeAt rndA [\<lparr>px = 6, py = 5\<rparr>] 0 1"
    by (simp add: firstFreeAt_def)
  have u: "\<forall>i. 0 \<le> rndHalf i \<and> rndHalf i < 1" using rndHalf_unit by blast
  have n: "\<forall>k. checkCollision (randomCell rndHalf (0 + 2 * k)) fullGrid"
    using saturated_never_free [OF u saturated_fullGrid] by blast
  from placeItem_first_free_or_never [of rndA "[\<lparr>px = 6, py = 5\<rparr>]" 0 1] f c
  have 1: "placeItem rndA [\<lparr>px = 6, py = 5\<rparr>] 0 = Some (\<lparr>px = 22, py = 15\<rparr>, 4)" by simp
  from placeItem_first_free_or_never [of rndHalf fullGrid 0 0 baseGame] n u saturated_fullGrid
  have 2: "placeItem rndHalf fullGrid 0 = None" "placeItemG rndHalf fullGrid baseGame = Hangs"
    by blast+
  from f 1 u saturated_fullGrid n 2 show ?thesis by blast
qed

section \<open>The phases of a tick\<close>

lemma andThen_Returns_iff:
  "(andThen m f = Returns r) = (\<exists>v. m = Returns v \<and> f v = Returns r)"
  by (cases m) (simp_all add: andThen_def)

lemma placeItemG_ReturnsD:
  "placeItemG rnd ex g = Returns (p, g') \<Longrightarrow>
     \<not> checkCollision p ex \<and> (\<exists>n. g' = g\<lparr>rngUsed := n\<rparr>)"
  by (auto simp: placeItemG_def split: option.splits dest: placeItem_not_excluded)

lemma placePowerup_ReturnsD:
  "placePowerup rnd ex g = Returns (pu, g') \<Longrightarrow>
     \<not> checkCollision (asPoint pu) ex \<and> (\<exists>n. g' = g\<lparr>rngUsed := n\<rparr>)"
  by (auto simp: placePowerup_def andThen_Returns_iff nextRandom_def asPoint_def Let_def
      checkCollision_iff dest!: placeItemG_ReturnsD)

lemma tick_ReturnsD:
  assumes "tick rnd g0 = Returns g'"
  shows "\<exists>g3 head1 d1 g4 d4 d2 g5 d5.
           moveP1 rnd (commitDirs g0) = Returns (g3, head1, d1)
           \<and> moveP2 rnd head1 d1 g3 = Returns (g4, d4, d2)
           \<and> pacmanAI rnd d4 g4 = Returns (g5, d5)
           \<and> g' = resolveGameOver d5 d2 g5"
  using assms unfolding tick_def
  by (auto simp: andThen_Returns_iff)

lemma update_due: "tickDue dt g \<Longrightarrow> update rnd dt g = tick rnd (handleTimers dt g)"
  by (simp add: update_def tickDue_def Let_def)

lemma update_not_due: "\<not> tickDue dt g \<Longrightarrow> update rnd dt g = Returns (handleTimers dt g)"
  by (simp add: update_def tickDue_def Let_def)

lemma handleTimers_fields [simp]:
  "gameState (handleTimers dt g) = gameState g \<and> mode (handleTimers dt g) = mode g
   \<and> scoreP1 (handleTimers dt g) = scoreP1 g \<and> scoreP2 (handleTimers dt g) = scoreP2 g
   \<and> snake1 (handleTimers dt g) = snake1 g \<and> snake2 (handleTimers dt g) = snake2 g
   \<and> dir1 (handleTimers dt g) = dir1 g \<and> nextDir1 (handleTimers dt g) = nextDir1 g
   \<and> dir2 (handleTimers dt g) = dir2 g \<and> nextDir2 (handleTimers dt g) = nextDir2 g
   \<and> food (handleTimers dt g) = food g \<and> powerup (handleTimers dt g) = powerup g
   \<and> pacman (handleTimers dt g) = pacman g \<and> pacmanFrozen (handleTimers dt g) = pacmanFrozen g
   \<and> gameOverReason (handleTimers dt g) = gameOverReason g
   \<and> ghostTimer (handleTimers dt g) = (if ghostTimer g > 0 then ghostTimer g - 1 else ghostTimer g)"
  by (simp add: handleTimers_def Let_def)

lemma commitDirs_fields [simp]:
  "gameState (commitDirs g) = gameState g \<and> mode (commitDirs g) = mode g
   \<and> scoreP1 (commitDirs g) = scoreP1 g \<and> scoreP2 (commitDirs g) = scoreP2 g
   \<and> snake1 (commitDirs g) = snake1 g \<and> snake2 (commitDirs g) = snake2 g
   \<and> dir1 (commitDirs g) = nextDir1 g \<and> nextDir1 (commitDirs g) = nextDir1 g
   \<and> dir2 (commitDirs g) = (if mode g = PVP then nextDir2 g else dir2 g)
   \<and> nextDir2 (commitDirs g) = nextDir2 g
   \<and> food (commitDirs g) = food g \<and> powerup (commitDirs g) = powerup g
   \<and> pacman (commitDirs g) = pacman g \<and> pacmanFrozen (commitDirs g) = pacmanFrozen g
   \<and> gameOverReason (commitDirs g) = gameOverReason g
   \<and> ghostTimer (commitDirs g) = ghostTimer g"
  by (simp add: commitDirs_def Let_def)

lemma detectWrap_effects: "detectWrap x y c g = g\<lparr>effects := effects (detectWrap x y c g)\<rparr>"
  by (simp add: detectWrap_def spawnParticles_def Let_def)

lemma detectWrap_fields [simp]:
  "gameState (detectWrap x y c g) = gameState g \<and> mode (detectWrap x y c g) = mode g
   \<and> scoreP1 (detectWrap x y c g) = scoreP1 g \<and> scoreP2 (detectWrap x y c g) = scoreP2 g
   \<and> snake1 (detectWrap x y c g) = snake1 g \<and> snake2 (detectWrap x y c g) = snake2 g
   \<and> dir1 (detectWrap x y c g) = dir1 g \<and> nextDir1 (detectWrap x y c g) = nextDir1 g
   \<and> dir2 (detectWrap x y c g) = dir2 g \<and> nextDir2 (detectWrap x y c g) = nextDir2 g
   \<and> food (detectWrap x y c g) = food g \<and> powerup (detectWrap x y c g) = powerup g
   \<and> pacman (detectWrap x y c g) = pacman g \<and> pacmanFrozen (detectWrap x y c g) = pacmanFrozen g
   \<and> gameOverReason (detectWrap x y c g) = gameOverReason g
   \<and> ghostTimer (detectWrap x y c g) = ghostTimer g"
  by (simp add: detectWrap_def spawnParticles_def Let_def)

lemma chaserAt_detectWrap [simp]: "chaserAt h (detectWrap x y c g) = chaserAt h g"
  by (simp add: chaserAt_def)

lemma powerupAt_detectWrap [simp]: "powerupAt h (detectWrap x y c g) = powerupAt h g"
  by (simp add: powerupAt_def)

subsection \<open>The encounter with the chaser\<close>

lemma pacmanEncounter_flags:
  "pacmanEncounter rnd h d g = Returns (g', d', e) \<Longrightarrow>
     e = (chaserAt h g \<and> pacmanFrozen g > 0) \<and> d' = (d \<or> (chaserAt h g \<and> \<not> pacmanFrozen g > 0))"
  by (auto simp: pacmanEncounter_def chaserAt_def andThen_Returns_iff Let_def
      split: option.splits if_splits)

lemma pacmanEncounter_fields:
  "pacmanEncounter rnd h d g = Returns (g', d', e) \<Longrightarrow>
     gameState g' = gameState g \<and> mode g' = mode g
   \<and> scoreP1 g' = scoreP1 g + (if e then 5 else 0) \<and> scoreP2 g' = scoreP2 g
   \<and> snake1 g' = snake1 g \<and> snake2 g' = snake2 g
   \<and> dir1 g' = dir1 g \<and> nextDir1 g' = nextDir1 g
   \<and> dir2 g' = dir2 g \<and> nextDir2 g' = nextDir2 g
   \<and> food g' = food g \<and> powerup g' = powerup g
   \<and> gameOverReason g' = gameOverReason g
   \<and> ghostTimer g' = ghostTimer g"
  by (auto simp: pacmanEncounter_def andThen_Returns_iff Let_def playSound_def
      spawnParticles_def triggerShake_def
      split: option.splits if_splits dest!: placeItemG_ReturnsD)


subsection \<open>Collecting a powerup\<close>

lemma collectPowerup1_fields:
  "gameState (collectPowerup1 pu g) = gameState g \<and> mode (collectPowerup1 pu g) = mode g
   \<and> scoreP1 (collectPowerup1 pu g) = scoreP1 g + 5 \<and> scoreP2 (collectPowerup1 pu g) = scoreP2 g
   \<and> snake2 (collectPowerup1 pu g) = snake2 g
   \<and> dir1 (collectPowerup1 pu g) = dir1 g \<and> nextDir1 (collectPowerup1 pu g) = nextDir1 g
   \<and> dir2 (collectPowerup1 pu g) = dir2 g \<and> nextDir2 (collectPowerup1 pu g) = nextDir2 g
   \<and> food (collectPowerup1 pu g) = food g \<and> powerup (collectPowerup1 pu g) = None
   \<and> pacman (collectPowerup1 pu g) = pacman g
   \<and> gameOverReason (collectPowerup1 pu g) = gameOverReason g
   \<and> ghostTimer (collectPowerup1 pu g) = (if ptype pu = Some GHOST then GHOST_DURATION else ghostTimer g)
   \<and> snake1 (collectPowerup1 pu g) =
        (if ptype pu = Some SHRINK \<and> length (snake1 g) > 3
         then take (max 3 (length (snake1 g) div 2)) (snake1 g) else snake1 g)"
  by (simp add: collectPowerup1_def Let_def playSound_def triggerShake_def
      split: option.splits PowerupType.splits)

lemma collectPowerup2_fields:
  "gameState (collectPowerup2 pu g) = gameState g \<and> mode (collectPowerup2 pu g) = mode g
   \<and> scoreP2 (collectPowerup2 pu g) = scoreP2 g + 5 \<and> scoreP1 (collectPowerup2 pu g) = scoreP1 g
   \<and> snake1 (collectPowerup2 pu g) = snake1 g
   \<and> dir1 (collectPowerup2 pu g) = dir1 g \<and> nextDir1 (collectPowerup2 pu g) = nextDir1 g
   \<and> dir2 (collectPowerup2 pu g) = dir2 g \<and> nextDir2 (collectPowerup2 pu g) = nextDir2 g
   \<and> food (collectPowerup2 pu g) = food g \<and> powerup (collectPowerup2 pu g) = None
   \<and> pacman (collectPowerup2 pu g) = pacman g
   \<and> gameOverReason (collectPowerup2 pu g) = gameOverReason g
   \<and> ghostTimer (collectPowerup2 pu g) = (if ptype pu = Some GHOST then GHOST_DURATION else ghostTimer g)
   \<and> snake2 (collectPowerup2 pu g) =
        (if ptype pu = Some SHRINK \<and> length (snake2 g) > 3
         then take (max 3 (length (snake2 g) div 2)) (snake2 g) else snake2 g)"
  by (simp add: collectPowerup2_def Let_def playSound_def triggerShake_def
      split: option.splits PowerupType.splits)

lemma increaseSpeed_fields:
  "gameState (increaseSpeed g) = gameState g \<and> mode (increaseSpeed g) = mode g
   \<and> scoreP1 (increaseSpeed g) = scoreP1 g \<and> scoreP2 (increaseSpeed g) = scoreP2 g
   \<and> snake1 (increaseSpeed g) = snake1 g \<and> snake2 (increaseSpeed g) = snake2 g
   \<and> dir1 (increaseSpeed g) = dir1 g \<and> nextDir1 (increaseSpeed g) = nextDir1 g
   \<and> dir2 (increaseSpeed g) = dir2 g \<and> nextDir2 (increaseSpeed g) = nextDir2 g
   \<and> food (increaseSpeed g) = food g \<and> powerup (increaseSpeed g) = powerup g
   \<and> pacman (increaseSpeed g) = pacman g \<and> pacmanFrozen (increaseSpeed g) = pacmanFrozen g
   \<and> gameOverReason (increaseSpeed g) = gameOverReason g
   \<and> ghostTimer (increaseSpeed g) = ghostTimer g"
  by (simp add: increaseSpeed_def Let_def)


lemma maybeSpawnPowerup_ReturnsD:
  "maybeSpawnPowerup rnd g = Returns g' \<Longrightarrow> \<exists>n pw. g' = g\<lparr>rngUsed := n, powerup := pw\<rparr>"
proof -
  assume a: "maybeSpawnPowerup rnd g = Returns g'"
  show ?thesis
  proof (cases "powerup g = None")
    case False
    with a have "g' = g" by (simp add: maybeSpawnPowerup_def)
    then have "g' = g\<lparr>rngUsed := rngUsed g, powerup := powerup g\<rparr>" by simp
    then show ?thesis by blast
  next
    case True
    show ?thesis
    proof (cases "rnd (rngUsed g) < 1 / 5")
      case False
      with True a have "g' = g\<lparr>rngUsed := Suc (rngUsed g)\<rparr>"
        by (simp add: maybeSpawnPowerup_def nextRandom_def)
      then have "g' = g\<lparr>rngUsed := Suc (rngUsed g), powerup := powerup g\<rparr>" by simp
      then show ?thesis by blast
    next
      case r: True
      let ?g5 = "g\<lparr>rngUsed := Suc (rngUsed g)\<rparr>"
      from True r a obtain pu g6 where
        pp: "placePowerup rnd (snake1 ?g5 @ snake2 ?g5 @ [food ?g5]) ?g5 = Returns (pu, g6)"
        and g': "g' = g6\<lparr>powerup := Some pu\<rparr>"
        by (auto simp: maybeSpawnPowerup_def nextRandom_def andThen_Returns_iff)
      from placePowerup_ReturnsD [OF pp] obtain n where "g6 = ?g5\<lparr>rngUsed := n\<rparr>" by blast
      with g' have "g' = g\<lparr>rngUsed := n, powerup := Some pu\<rparr>" by simp
      then show ?thesis by blast
    qed
  qed
qed

lemma advanceP1_food:
  assumes "advanceP1 rnd h e g = Returns g'" "px h = px (food g)" "py h = py (food g)"
  shows "snake1 g' = h # snake1 g \<and> scoreP1 g' = scoreP1 g + 1 \<and> ghostTimer g' = ghostTimer g
     \<and> gameState g' = gameState g \<and> mode g' = mode g \<and> scoreP2 g' = scoreP2 g
     \<and> snake2 g' = snake2 g
     \<and> dir1 g' = dir1 g \<and> nextDir1 g' = nextDir1 g
     \<and> dir2 g' = dir2 g \<and> nextDir2 g' = nextDir2 g
     \<and> pacman g' = pacman g
     \<and> gameOverReason g' = gameOverReason g"
proof -
  let ?g2 = "increaseSpeed (triggerShake 3
                    (spawnParticles (px h) (py h) ColP1 8
                       (playSound SndEat (g\<lparr>snake1 := h # snake1 g, scoreP1 := scoreP1 g + 1\<rparr>))))"
  from assms obtain ex p g3 where
    pl: "placeItemG rnd ex ?g2 = Returns (p, g3)"
    and sp: "maybeSpawnPowerup rnd (g3\<lparr>food := p\<rparr>) = Returns g'"
    by (auto simp: advanceP1_def Let_def andThen_Returns_iff)
  from placeItemG_ReturnsD [OF pl] obtain n where g3: "g3 = ?g2\<lparr>rngUsed := n\<rparr>" by blast
  from maybeSpawnPowerup_ReturnsD [OF sp] obtain m pw
    where g': "g' = g3\<lparr>food := p, rngUsed := m, powerup := pw\<rparr>" by blast
  show ?thesis unfolding g' g3
    by (simp add: increaseSpeed_fields playSound_def spawnParticles_def triggerShake_def)
qed

lemma advanceP1_nofood:
  assumes "advanceP1 rnd h e g = Returns g'" "\<not> (px h = px (food g) \<and> py h = py (food g))"
  shows "g' = (case powerupAt h g of
                 Some pu \<Rightarrow> collectPowerup1 pu (g\<lparr>snake1 := h # snake1 g\<rparr>)
               | None \<Rightarrow> if \<not> e then g\<lparr>snake1 := butlast (h # snake1 g)\<rparr>
                         else g\<lparr>snake1 := h # snake1 g\<rparr>)"
  using assms
  by (auto simp: advanceP1_def Let_def powerupAt_def split: option.splits if_splits)

lemma advanceP1_fields:
  assumes "advanceP1 rnd h e g = Returns g'"
  shows "gameState g' = gameState g \<and> mode g' = mode g \<and> scoreP2 g' = scoreP2 g
   \<and> snake2 g' = snake2 g
   \<and> dir1 g' = dir1 g \<and> nextDir1 g' = nextDir1 g
   \<and> dir2 g' = dir2 g \<and> nextDir2 g' = nextDir2 g
   \<and> pacman g' = pacman g
   \<and> gameOverReason g' = gameOverReason g
   \<and> (ghostTimer g' = ghostTimer g \<or> ghostTimer g' = GHOST_DURATION)"
proof (cases "px h = px (food g) \<and> py h = py (food g)")
  case True
  with advanceP1_food [OF assms] show ?thesis by simp
next
  case False
  from advanceP1_nofood [OF assms False] show ?thesis
    by (simp add: collectPowerup1_fields split: option.splits)
qed

subsection \<open>The move of player 1\<close>

lemma moveP1_ReturnsD:
  assumes "moveP1 rnd g = Returns (g3, head1, d1)" "snake1 g = h # body"
  shows "head1 = nextHead h (dir1 g)
    \<and> d1 = ((ghostTimer g = 0 \<and> (checkCollision head1 (snake1 g) \<or> checkCollision head1 (snake2 g)))
            \<or> (chaserAt head1 g \<and> \<not> pacmanFrozen g > 0))
    \<and> (\<exists>g2. pacmanEncounter rnd head1
                 (ghostTimer g = 0 \<and> (checkCollision head1 (snake1 g) \<or> checkCollision head1 (snake2 g)))
                 (detectWrap (px h + px (dir1 g)) (py h + py (dir1 g)) ColP1 g)
                = Returns (g2, d1, chaserAt head1 g \<and> pacmanFrozen g > 0)
             \<and> (if d1 then g3 = g2
                 else advanceP1 rnd head1 (chaserAt head1 g \<and> pacmanFrozen g > 0) g2 = Returns g3))"
proof -
  let ?g1 = "detectWrap (px h + px (dir1 g)) (py h + py (dir1 g)) ColP1 g"
  let ?h = "nextHead h (dir1 g)"
  let ?c = "ghostTimer g = 0 \<and> (checkCollision ?h (snake1 g) \<or> checkCollision ?h (snake2 g))"
  from assms obtain g2 d2 e where
    enc: "pacmanEncounter rnd ?h ?c ?g1 = Returns (g2, d2, e)"
    and adv: "(if \<not> d2 then advanceP1 rnd ?h e g2 else Returns g2) = Returns g3"
    and hd: "head1 = ?h" and d: "d1 = d2"
    by (auto simp: moveP1_def Let_def andThen_Returns_iff)
  from pacmanEncounter_flags [OF enc]
  have e: "e = (chaserAt ?h g \<and> pacmanFrozen g > 0)"
    and d2: "d2 = (?c \<or> (chaserAt ?h g \<and> \<not> pacmanFrozen g > 0))" by simp_all
  from enc adv hd d e d2 show ?thesis by (auto split: if_splits)
qed


subsection \<open>The move of player 2\<close>

lemma advanceP2_food:
  assumes "advanceP2 rnd h g = Returns g'" "px h = px (food g)" "py h = py (food g)"
  shows "snake2 g' = h # snake2 g \<and> scoreP2 g' = scoreP2 g + 1 \<and> ghostTimer g' = ghostTimer g
     \<and> gameState g' = gameState g \<and> mode g' = mode g \<and> scoreP1 g' = scoreP1 g
     \<and> snake1 g' = snake1 g
     \<and> dir1 g' = dir1 g \<and> nextDir1 g' = nextDir1 g
     \<and> dir2 g' = dir2 g \<and> nextDir2 g' = nextDir2 g
     \<and> pacman g' = pacman g
     \<and> gameOverReason g' = gameOverReason g"
proof -
  let ?g2 = "increaseSpeed (triggerShake 3
                    (spawnParticles (px h) (py h) ColP2 8
                       (playSound SndEat (g\<lparr>snake2 := h # snake2 g, scoreP2 := scoreP2 g + 1\<rparr>))))"
  from assms obtain ex p g3 where
    pl: "placeItemG rnd ex ?g2 = Returns (p, g3)"
    and g': "g' = g3\<lparr>food := p\<rparr>"
    by (auto simp: advanceP2_def Let_def andThen_Returns_iff)
  from placeItemG_ReturnsD [OF pl] obtain n where g3: "g3 = ?g2\<lparr>rngUsed := n\<rparr>" by blast
  show ?thesis unfolding g' g3
    by (simp add: increaseSpeed_fields playSound_def spawnParticles_def triggerShake_def)
qed

lemma advanceP2_nofood:
  assumes "advanceP2 rnd h g = Returns g'" "\<not> (px h = px (food g) \<and> py h = py (food g))"
  shows "g' = (case powerupAt h g of
                 Some pu \<Rightarrow> collectPowerup2 pu (g\<lparr>snake2 := h # snake2 g\<rparr>)
               | None \<Rightarrow> g\<lparr>snake2 := butlast (h # snake2 g)\<rparr>)"
  using assms
  by (auto simp: advanceP2_def Let_def powerupAt_def split: option.splits if_splits)

lemma advanceP2_fields:
  assumes "advanceP2 rnd h g = Returns g'"
  shows "gameState g' = gameState g \<and> mode g' = mode g \<and> scoreP1 g' = scoreP1 g
   \<and> snake1 g' = snake1 g
   \<and> dir1 g' = dir1 g \<and> nextDir1 g' = nextDir1 g
   \<and> dir2 g' = dir2 g \<and> nextDir2 g' = nextDir2 g
   \<and> pacman g' = pacman g
   \<and> gameOverReason g' = gameOverReason g
   \<and> (ghostTimer g' = ghostTimer g \<or> ghostTimer g' = GHOST_DURATION)"
proof (cases "px h = px (food g) \<and> py h = py (food g)")
  case True
  with advanceP2_food [OF assms] show ?thesis by simp
next
  case False
  from advanceP2_nofood [OF assms False] show ?thesis
    by (simp add: collectPowerup2_fields split: option.splits)
qed

lemma moveP2_not_PVP: "mode g \<noteq> PVP \<Longrightarrow> moveP2 rnd head1 d1 g = Returns (g, d1, False)"
  by (simp add: moveP2_def)

lemma moveP2_ReturnsD:
  assumes "moveP2 rnd head1 d1 g = Returns (g4, d4, d2)" "mode g = PVP" "snake2 g = h # body"
  shows "d4 = (d1 \<or> (ghostTimer g = 0 \<and> px head1 = px (nextHead h (dir2 g))
                                     \<and> py head1 = py (nextHead h (dir2 g))))
    \<and> d2 = ((ghostTimer g = 0 \<and> (checkCollision (nextHead h (dir2 g)) (snake2 g)
                                   \<or> checkCollision (nextHead h (dir2 g)) (snake1 g)))
            \<or> (ghostTimer g = 0 \<and> px head1 = px (nextHead h (dir2 g))
                                 \<and> py head1 = py (nextHead h (dir2 g))))
    \<and> (if d2 then g4 = detectWrap (px h + px (dir2 g)) (py h + py (dir2 g)) ColP2 g
        else advanceP2 rnd (nextHead h (dir2 g))
               (detectWrap (px h + px (dir2 g)) (py h + py (dir2 g)) ColP2 g) = Returns g4)"
  using assms
  by (auto simp: moveP2_def Let_def andThen_Returns_iff split: if_splits)

lemma moveP2_fields:
  assumes "moveP2 rnd head1 d1 g = Returns (g4, d4, d2)"
  shows "gameState g4 = gameState g \<and> mode g4 = mode g \<and> scoreP1 g4 = scoreP1 g
   \<and> snake1 g4 = snake1 g
   \<and> dir1 g4 = dir1 g \<and> nextDir1 g4 = nextDir1 g
   \<and> dir2 g4 = dir2 g \<and> nextDir2 g4 = nextDir2 g
   \<and> pacman g4 = pacman g
   \<and> gameOverReason g4 = gameOverReason g
   \<and> (ghostTimer g4 = ghostTimer g \<or> ghostTimer g4 = GHOST_DURATION)
   \<and> (d1 \<longrightarrow> d4)"
proof (cases "mode g = PVP")
  case False
  with assms show ?thesis by (simp add: moveP2_not_PVP)
next
  case True
  show ?thesis
  proof (cases "snake2 g")
    case Nil
    with True assms show ?thesis by (simp add: moveP2_def)
  next
    case (Cons h body)
    note D = moveP2_ReturnsD [OF assms True Cons]
    from D have d: "d1 \<longrightarrow> d4" by simp
    show ?thesis
    proof (cases d2)
      case True
      with D have "g4 = detectWrap (px h + px (dir2 g)) (py h + py (dir2 g)) ColP2 g" by simp
      with d show ?thesis by simp
    next
      case False
      with D have "advanceP2 rnd (nextHead h (dir2 g))
               (detectWrap (px h + px (dir2 g)) (py h + py (dir2 g)) ColP2 g) = Returns g4"
        by simp
      from advanceP2_fields [OF this] d show ?thesis by simp
    qed
  qed
qed

subsection \<open>Resolving the round\<close>

lemma resolveGameOver_fields:
  "mode (resolveGameOver a b g) = mode g
   \<and> scoreP1 (resolveGameOver a b g) = scoreP1 g \<and> scoreP2 (resolveGameOver a b g) = scoreP2 g
   \<and> snake1 (resolveGameOver a b g) = snake1 g \<and> snake2 (resolveGameOver a b g) = snake2 g
   \<and> dir1 (resolveGameOver a b g) = dir1 g \<and> nextDir1 (resolveGameOver a b g) = nextDir1 g
   \<and> dir2 (resolveGameOver a b g) = dir2 g \<and> nextDir2 (resolveGameOver a b g) = nextDir2 g
   \<and> food (resolveGameOver a b g) = food g \<and> powerup (resolveGameOver a b g) = powerup g
   \<and> pacman (resolveGameOver a b g) = pacman g
   \<and> pacmanFrozen (resolveGameOver a b g) = pacmanFrozen g
   \<and> ghostTimer (resolveGameOver a b g) = ghostTimer g
   \<and> gameState (resolveGameOver a b g) = (if a \<or> b then GameOver else gameState g)
   \<and> gameOverReason (resolveGameOver a b g) =
        (if a \<or> b then
           (if mode g = PVP then
              (if a \<and> b then ''DRAW!'' else if a then ''PINK WINS!'' else ''GREEN WINS!'')
            else ''GAME OVER'')
         else gameOverReason g)"
  by (simp add: resolveGameOver_def Let_def playSound_def triggerShake_def)

subsection \<open>The chaser\<close>

lemma pacmanTarget_onlyRng:
  "pacmanTarget rnd pm g = (t, g') \<Longrightarrow> g' = g\<lparr>rngUsed := rngUsed g'\<rparr>"
  by (auto simp: pacmanTarget_def Let_def nextRandom_def split: if_splits)

lemma pacmanTarget_state: "pacmanTarget rnd pm g = (t, g') \<Longrightarrow> \<exists>n. g' = g\<lparr>rngUsed := n\<rparr>"
  using pacmanTarget_onlyRng by blast

lemma pacmanStep_fields:
  assumes "pacmanStep rnd pm d g = Returns (g', d')"
  shows "gameState g' = gameState g \<and> mode g' = mode g
   \<and> scoreP1 g' = scoreP1 g \<and> scoreP2 g' = scoreP2 g
   \<and> snake1 g' = snake1 g \<and> snake2 g' = snake2 g
   \<and> dir1 g' = dir1 g \<and> nextDir1 g' = nextDir1 g
   \<and> dir2 g' = dir2 g \<and> nextDir2 g' = nextDir2 g
   \<and> gameOverReason g' = gameOverReason g
   \<and> ghostTimer g' = ghostTimer g
   \<and> (d \<longrightarrow> d')"
proof -
  obtain t g1 where pt: "pacmanTarget rnd pm g = (t, g1)" by (cases "pacmanTarget rnd pm g")
  from pacmanTarget_state [OF pt] obtain n where g1: "g1 = g\<lparr>rngUsed := n\<rparr>" by blast
  define pm2 where "pm2 = (if \<not> checkCollision t (snake1 g1) then t else pm)"
  define g2 where "g2 = g1\<lparr>pacman := Some pm2\<rparr>"
  from assms pt obtain g4 where
    fd: "(if px pm2 = px (food g2) \<and> py pm2 = py (food g2)
            then andThen
                   (placeItemG rnd (snake1 g2)
                      (playSound SndPacman (g2\<lparr>scorePacman := scorePacman g2 + 1\<rparr>)))
                   (\<lambda>(p, g3). Returns (g3\<lparr>food := p\<rparr>))
            else Returns g2) = Returns g4"
    and rest: "(case snake1 g4 of
                [] \<Rightarrow> Throws
              | h # _ \<Rightarrow>
                  (let p1Dead2 = (d \<or> (px pm2 = px h \<and> py pm2 = py h));
                       g5 = (case powerupAt pm2 g4 of
                               Some pu \<Rightarrow>
                                 spawnParticles (px pm2) (py pm2) ColPacman 8 (g4\<lparr>powerup := None\<rparr>)
                             | None \<Rightarrow> g4)
                   in Returns (g5, p1Dead2))) = Returns (g', d')"
    unfolding pacmanStep_def pm2_def g2_def
    by (auto simp: Let_def andThen_Returns_iff)
  have g4: "\<exists>f m sc ef. g4 = g2\<lparr>food := f, rngUsed := m, scorePacman := sc, effects := ef\<rparr>"
  proof (cases "px pm2 = px (food g2) \<and> py pm2 = py (food g2)")
    case False
    with fd have "g4 = g2" by simp
    then have "g4 = g2\<lparr>food := food g2, rngUsed := rngUsed g2, scorePacman := scorePacman g2,
                       effects := effects g2\<rparr>" by simp
    then show ?thesis by blast
  next
    case True
    with fd obtain p g3 where
      pl: "placeItemG rnd (snake1 g2)
             (playSound SndPacman (g2\<lparr>scorePacman := scorePacman g2 + 1\<rparr>)) = Returns (p, g3)"
      and e: "g4 = g3\<lparr>food := p\<rparr>"
      by (auto simp: andThen_Returns_iff)
    from placeItemG_ReturnsD [OF pl] obtain m where
      "g3 = (playSound SndPacman (g2\<lparr>scorePacman := scorePacman g2 + 1\<rparr>))\<lparr>rngUsed := m\<rparr>"
      by blast
    with e have "g4 = g2\<lparr>food := p, rngUsed := m, scorePacman := scorePacman g2 + 1,
                       effects := effects g2 @ [PlaySound SndPacman]\<rparr>"
      by (simp add: playSound_def)
    then show ?thesis by blast
  qed
  then obtain f m sc ef where g4e: "g4 = g2\<lparr>food := f, rngUsed := m, scorePacman := sc, effects := ef\<rparr>"
    by blast
  from rest obtain h tl where sn: "snake1 g4 = h # tl" by (cases "snake1 g4") simp_all
  with rest have d': "d' = (d \<or> (px pm2 = px h \<and> py pm2 = py h))"
    and g': "g' = (case powerupAt pm2 g4 of
                               Some pu \<Rightarrow>
                                 spawnParticles (px pm2) (py pm2) ColPacman 8 (g4\<lparr>powerup := None\<rparr>)
                             | None \<Rightarrow> g4)"
    by (simp_all add: Let_def)
  from g' d' show ?thesis unfolding g4e g2_def g1
    by (simp add: spawnParticles_def split: option.splits)
qed

lemma pacmanAI_not_PVC: "mode g \<noteq> PVC \<Longrightarrow> pacmanAI rnd d g = Returns (g, d)"
  by (simp add: pacmanAI_def split: option.splits)

lemma pacmanAI_fields:
  assumes "pacmanAI rnd d g = Returns (g', d')"
  shows "gameState g' = gameState g \<and> mode g' = mode g
   \<and> scoreP1 g' = scoreP1 g \<and> scoreP2 g' = scoreP2 g
   \<and> snake1 g' = snake1 g \<and> snake2 g' = snake2 g
   \<and> dir1 g' = dir1 g \<and> nextDir1 g' = nextDir1 g
   \<and> dir2 g' = dir2 g \<and> nextDir2 g' = nextDir2 g
   \<and> gameOverReason g' = gameOverReason g
   \<and> ghostTimer g' = ghostTimer g
   \<and> (d \<longrightarrow> d')"
proof (cases "pacman g")
  case None
  with assms show ?thesis by (simp add: pacmanAI_def)
next
  case (Some pm)
  show ?thesis
  proof (cases "mode g = PVC \<and> \<not> pacmanFrozen g > 0 \<and> (pacmanMoveTick g + 1) mod 2 = 0")
    case False
    with assms Some show ?thesis by (auto simp: pacmanAI_def Let_def split: if_splits)
  next
    case True
    with assms Some have "pacmanStep rnd pm d (g\<lparr>pacmanMoveTick := pacmanMoveTick g + 1\<rparr>) = Returns (g', d')"
      by (simp add: pacmanAI_def Let_def)
    from pacmanStep_fields [OF this] show ?thesis by simp
  qed
qed

lemma pacmanStep_dead:
  assumes "pacmanStep rnd pm d g = Returns (g', d')" "snake1 g = h # bd" "d'"
  shows "d \<or> (px pm = px h \<and> py pm = py h)"
proof -
  obtain t g1 where pt: "pacmanTarget rnd pm g = (t, g1)" by (cases "pacmanTarget rnd pm g")
  from pacmanTarget_state [OF pt] obtain n where g1: "g1 = g\<lparr>rngUsed := n\<rparr>" by blast
  define pm2 where "pm2 = (if \<not> checkCollision t (snake1 g1) then t else pm)"
  from pacmanStep_fields [OF assms(1)] have s': "snake1 g' = snake1 g" by simp
  from assms(1) pt obtain g4 where
    rest: "(case snake1 g4 of
                [] \<Rightarrow> Throws
              | h # _ \<Rightarrow>
                  (let p1Dead2 = (d \<or> (px pm2 = px h \<and> py pm2 = py h));
                       g5 = (case powerupAt pm2 g4 of
                               Some pu \<Rightarrow>
                                 spawnParticles (px pm2) (py pm2) ColPacman 8 (g4\<lparr>powerup := None\<rparr>)
                             | None \<Rightarrow> g4)
                   in Returns (g5, p1Dead2))) = Returns (g', d')"
    unfolding pacmanStep_def pm2_def
    by (auto simp: Let_def andThen_Returns_iff)
  from rest obtain h4 tl4 where sn: "snake1 g4 = h4 # tl4" by (cases "snake1 g4") simp_all
  with rest have d': "d' = (d \<or> (px pm2 = px h4 \<and> py pm2 = py h4))"
    and g': "g' = (case powerupAt pm2 g4 of
                               Some pu \<Rightarrow>
                                 spawnParticles (px pm2) (py pm2) ColPacman 8 (g4\<lparr>powerup := None\<rparr>)
                             | None \<Rightarrow> g4)"
    by (simp_all add: Let_def)
  from g' have "snake1 g' = snake1 g4" by (simp add: spawnParticles_def split: option.splits)
  with s' sn assms(2) have h4: "h4 = h" by simp
  show ?thesis
  proof (cases "checkCollision t (snake1 g1)")
    case True
    then have "pm2 = pm" by (simp add: pm2_def)
    with d' h4 assms(3) show ?thesis by simp
  next
    case False
    then have "pm2 = t" by (simp add: pm2_def)
    moreover from False g1 assms(2) have "\<not> (px t = px h \<and> py t = py h)"
      by (auto simp: checkCollision_iff)
    ultimately show ?thesis using d' h4 assms(3) by blast
  qed
qed

lemma pacmanAI_dead:
  assumes "pacmanAI rnd d g = Returns (g', d')" "snake1 g = h # bd" "d'"
  shows "d \<or> chaserAt h g"
proof (cases "pacman g")
  case None
  with assms show ?thesis by (simp add: pacmanAI_def)
next
  case (Some pm)
  show ?thesis
  proof (cases "mode g = PVC \<and> \<not> pacmanFrozen g > 0 \<and> (pacmanMoveTick g + 1) mod 2 = 0")
    case False
    with assms Some show ?thesis by (auto simp: pacmanAI_def Let_def split: if_splits)
  next
    case True
    with assms Some have "pacmanStep rnd pm d (g\<lparr>pacmanMoveTick := pacmanMoveTick g + 1\<rparr>) = Returns (g', d')"
      by (simp add: pacmanAI_def Let_def)
    from pacmanStep_dead [OF this _ assms(3), of h bd] assms(2) True Some show ?thesis
      by (auto simp: chaserAt_def)
  qed
qed

lemma chaserAt_cong:
  "mode g' = mode g \<Longrightarrow> pacman g' = pacman g \<Longrightarrow> chaserAt c g' = chaserAt c g"
  by (simp add: chaserAt_def)

lemma advanceP1_hd:
  assumes "advanceP1 rnd h e g = Returns g'" "snake1 g \<noteq> []"
  shows "\<exists>bd. snake1 g' = h # bd"
proof (cases "px h = px (food g) \<and> py h = py (food g)")
  case True
  then have "px h = px (food g)" "py h = py (food g)" by simp_all
  from advanceP1_food [OF assms(1) this] show ?thesis by blast
next
  case False
  have t: "take (max 3 n) (h # xs) = h # take (max 3 n - 1) xs" for n :: nat and xs
    by (cases "max 3 n") simp_all
  from advanceP1_nofood [OF assms(1) False] assms(2) show ?thesis
    by (cases "snake1 g") (auto simp: collectPowerup1_fields t split: option.splits if_splits)
qed

lemma update_due_ReturnsD:
  assumes "tickDue dt g" "update rnd dt g = Returns g'"
  shows "\<exists>g3 head1 d1 g4 d4 d2 g5 d5.
           moveP1 rnd (commitDirs (handleTimers dt g)) = Returns (g3, head1, d1)
           \<and> moveP2 rnd head1 d1 g3 = Returns (g4, d4, d2)
           \<and> pacmanAI rnd d4 g4 = Returns (g5, d5)
           \<and> g' = resolveGameOver d5 d2 g5"
  using assms tick_ReturnsD by (simp add: update_due)

lemma self_collision_dead:
  assumes due: "tickDue dt g" and sn: "snake1 g = h # body"
    and gt: "ghostTimer g = 0 \<or> ghostTimer g = 1"
    and hit: "checkCollision (nextHead h (nextDir1 g)) (snake1 g)"
    and up: "update rnd dt g = Returns g'"
  shows "gameState g' = GameOver \<and> snake1 g' = snake1 g"
proof -
  let ?g0 = "commitDirs (handleTimers dt g)"
  from update_due_ReturnsD [OF due up] obtain g3 head1 d1 g4 d4 d2 g5 d5 where
    m1: "moveP1 rnd ?g0 = Returns (g3, head1, d1)"
    and m2: "moveP2 rnd head1 d1 g3 = Returns (g4, d4, d2)"
    and ai: "pacmanAI rnd d4 g4 = Returns (g5, d5)"
    and g': "g' = resolveGameOver d5 d2 g5" by blast
  have sn0: "snake1 ?g0 = h # body" using sn by simp
  from gt have gt0: "ghostTimer ?g0 = 0" by auto
  note D = moveP1_ReturnsD [OF m1 sn0]
  from D have hd: "head1 = nextHead h (nextDir1 g)" by simp
  from D hd gt0 hit have d1: d1 by simp
  from D d1 obtain g2 where
    enc: "pacmanEncounter rnd head1
                 (ghostTimer ?g0 = 0 \<and> (checkCollision head1 (snake1 ?g0) \<or> checkCollision head1 (snake2 ?g0)))
                 (detectWrap (px h + px (dir1 ?g0)) (py h + py (dir1 ?g0)) ColP1 ?g0)
                = Returns (g2, d1, chaserAt head1 ?g0 \<and> pacmanFrozen ?g0 > 0)"
    and g3: "g3 = g2" by auto
  from pacmanEncounter_fields [OF enc] g3 have s3: "snake1 g3 = snake1 g" by simp
  from moveP2_fields [OF m2] d1 s3 have d4: d4 and s4: "snake1 g4 = snake1 g" by simp_all
  from pacmanAI_fields [OF ai] d4 s4 have d5: d5 and s5: "snake1 g5 = snake1 g" by simp_all
  from g' d5 s5 show ?thesis by (simp add: resolveGameOver_fields)
qed

lemma ghost_no_death:
  assumes due: "tickDue dt g" and sn: "snake1 g = h # body"
    and gt: "1 < ghostTimer g"
    and nc: "\<not> chaserAt (nextHead h (nextDir1 g)) g"
    and up: "update rnd dt g = Returns g'"
  shows "gameState g' = gameState g \<and> (\<exists>bd. snake1 g' = nextHead h (nextDir1 g) # bd)
         \<and> (ghostTimer g' = ghostTimer g - 1 \<or> ghostTimer g' = GHOST_DURATION)"
proof -
  let ?g0 = "commitDirs (handleTimers dt g)"
  from update_due_ReturnsD [OF due up] obtain g3 head1 d1 g4 d4 d2 g5 d5 where
    m1: "moveP1 rnd ?g0 = Returns (g3, head1, d1)"
    and m2: "moveP2 rnd head1 d1 g3 = Returns (g4, d4, d2)"
    and ai: "pacmanAI rnd d4 g4 = Returns (g5, d5)"
    and g': "g' = resolveGameOver d5 d2 g5" by blast
  have sn0: "snake1 ?g0 = h # body" using sn by simp
  from gt have gt0: "ghostTimer ?g0 = ghostTimer g - 1" by simp
  have ca0: "chaserAt c ?g0 = chaserAt c g" for c by (simp add: chaserAt_def)
  note D = moveP1_ReturnsD [OF m1 sn0]
  from D have hd: "head1 = nextHead h (nextDir1 g)" by simp
  from D hd gt0 gt nc ca0 have d1: "\<not> d1" by simp
  from D d1 hd nc ca0 obtain g2 where
    enc: "pacmanEncounter rnd head1
                 (ghostTimer ?g0 = 0 \<and> (checkCollision head1 (snake1 ?g0) \<or> checkCollision head1 (snake2 ?g0)))
                 (detectWrap (px h + px (dir1 ?g0)) (py h + py (dir1 ?g0)) ColP1 ?g0)
                = Returns (g2, d1, False)"
    and adv: "advanceP1 rnd head1 False g2 = Returns g3" by auto
  note E = pacmanEncounter_fields [OF enc]
  from enc nc ca0 hd have p2: "pacman g2 = pacman g"
    by (auto simp: pacmanEncounter_def chaserAt_def split: option.splits if_splits)
  from E sn have sn2: "snake1 g2 \<noteq> []" by simp
  from advanceP1_hd [OF adv sn2] obtain bd where s3: "snake1 g3 = head1 # bd" by blast
  note A = advanceP1_fields [OF adv]
  from A E gt0 have gt3: "ghostTimer g3 = ghostTimer g - 1 \<or> ghostTimer g3 = GHOST_DURATION" by auto
  with gt have gt3n: "ghostTimer g3 \<noteq> 0" by (auto simp: GHOST_DURATION_def)
  have d2: "\<not> d2" and d4: "\<not> d4"
  proof -
    show "\<not> d2"
    proof (cases "mode g3 = PVP")
      case False with m2 show ?thesis by (simp add: moveP2_not_PVP)
    next
      case True
      show ?thesis
      proof (cases "snake2 g3")
        case Nil with True m2 show ?thesis by (simp add: moveP2_def)
      next
        case (Cons h2 b2)
        from moveP2_ReturnsD [OF m2 True Cons] gt3n show ?thesis by simp
      qed
    qed
    show "\<not> d4"
    proof (cases "mode g3 = PVP")
      case False with m2 d1 show ?thesis by (simp add: moveP2_not_PVP)
    next
      case True
      show ?thesis
      proof (cases "snake2 g3")
        case Nil with True m2 show ?thesis by (simp add: moveP2_def)
      next
        case (Cons h2 b2)
        from moveP2_ReturnsD [OF m2 True Cons] gt3n d1 show ?thesis by simp
      qed
    qed
  qed
  note M = moveP2_fields [OF m2]
  from M s3 have s4: "snake1 g4 = head1 # bd" by simp
  from M A E p2 have "mode g4 = mode g" "pacman g4 = pacman g" by simp_all
  then have "chaserAt head1 g4 = chaserAt head1 g" by (rule chaserAt_cong)
  with nc hd have nc4: "\<not> chaserAt head1 g4" by simp
  have d5: "\<not> d5"
  proof
    assume d5
    from pacmanAI_dead [OF ai s4 this] d4 nc4 show False by simp
  qed
  note P = pacmanAI_fields [OF ai]
  from M gt3 have gt4: "ghostTimer g4 = ghostTimer g - 1 \<or> ghostTimer g4 = GHOST_DURATION" by auto
  from P M A E have gs5: "gameState g5 = gameState g" by simp
  from P s4 hd have s5: "snake1 g5 = nextHead h (nextDir1 g) # bd" by simp
  from P gt4 have gt5: "ghostTimer g5 = ghostTimer g - 1 \<or> ghostTimer g5 = GHOST_DURATION"
    by simp
  from d5 d2 g' have "gameState g' = gameState g5" "snake1 g' = snake1 g5"
    "ghostTimer g' = ghostTimer g5" by (simp_all add: resolveGameOver_fields)
  with gs5 s5 gt5 show ?thesis by simp
qed

lemma advanceP1_ghost:
  assumes "advanceP1 rnd h e g = Returns g'" "\<not> ghostPowerupAt h g"
  shows "ghostTimer g' = ghostTimer g"
proof (cases "px h = px (food g) \<and> py h = py (food g)")
  case True
  then have "px h = px (food g)" "py h = py (food g)" by simp_all
  from advanceP1_food [OF assms(1) this] show ?thesis by simp
next
  case False
  from advanceP1_nofood [OF assms(1) False] assms(2) show ?thesis
    by (auto simp: collectPowerup1_fields ghostPowerupAt_def split: option.splits)
qed

lemma moveP1_fields:
  assumes "moveP1 rnd g = Returns (g3, head1, d1)"
  shows "gameState g3 = gameState g \<and> mode g3 = mode g \<and> scoreP2 g3 = scoreP2 g
   \<and> snake2 g3 = snake2 g
   \<and> dir1 g3 = dir1 g \<and> nextDir1 g3 = nextDir1 g
   \<and> dir2 g3 = dir2 g \<and> nextDir2 g3 = nextDir2 g
   \<and> gameOverReason g3 = gameOverReason g
   \<and> (ghostTimer g3 = ghostTimer g \<or> ghostTimer g3 = GHOST_DURATION)
   \<and> (ghostTimer g3 = ghostTimer g \<or> (\<not> d1 \<and> ghostPowerupAt head1 g))"
proof (cases "snake1 g")
  case Nil
  with assms show ?thesis by (simp add: moveP1_def)
next
  case (Cons h body)
  note D = moveP1_ReturnsD [OF assms Cons]
  then obtain g2 where
    enc: "pacmanEncounter rnd head1
                 (ghostTimer g = 0 \<and> (checkCollision head1 (snake1 g) \<or> checkCollision head1 (snake2 g)))
                 (detectWrap (px h + px (dir1 g)) (py h + py (dir1 g)) ColP1 g)
                = Returns (g2, d1, chaserAt head1 g \<and> pacmanFrozen g > 0)"
    and r: "if d1 then g3 = g2
            else advanceP1 rnd head1 (chaserAt head1 g \<and> pacmanFrozen g > 0) g2 = Returns g3"
    by blast
  note E = pacmanEncounter_fields [OF enc]
  show ?thesis
  proof (cases d1)
    case True
    with r have "g3 = g2" by simp
    with E show ?thesis by simp
  next
    case False
    with r have adv: "advanceP1 rnd head1 (chaserAt head1 g \<and> pacmanFrozen g > 0) g2 = Returns g3"
      by simp
    note A = advanceP1_fields [OF adv]
    from E have "powerupAt head1 g2 = powerupAt head1 g" by (simp add: powerupAt_def)
    then have gp: "ghostPowerupAt head1 g2 = ghostPowerupAt head1 g" by (simp add: ghostPowerupAt_def)
    have "ghostTimer g3 = ghostTimer g \<or> (\<not> d1 \<and> ghostPowerupAt head1 g)"
    proof (cases "ghostPowerupAt head1 g")
      case True with False show ?thesis by simp
    next
      case ng: False
      with gp advanceP1_ghost [OF adv] E show ?thesis by simp
    qed
    with A E show ?thesis by auto
  qed
qed

lemma head_to_head_draw:
  assumes due: "tickDue dt g" and pvp: "mode g = PVP"
    and sn1: "snake1 g = h1 # b1" and sn2: "snake2 g = h2 # b2"
    and gt: "ghostTimer g = 0 \<or> ghostTimer g = 1"
    and heads: "nextHead h1 (nextDir1 g) = nextHead h2 (nextDir2 g)"
    and ng: "\<not> ghostPowerupAt (nextHead h1 (nextDir1 g)) g"
    and up: "update rnd dt g = Returns g'"
  shows "gameState g' = GameOver \<and> gameOverReason g' = ''DRAW!''"
proof -
  let ?g0 = "commitDirs (handleTimers dt g)"
  from update_due_ReturnsD [OF due up] obtain g3 head1 d1 g4 d4 d2 g5 d5 where
    m1: "moveP1 rnd ?g0 = Returns (g3, head1, d1)"
    and m2: "moveP2 rnd head1 d1 g3 = Returns (g4, d4, d2)"
    and ai: "pacmanAI rnd d4 g4 = Returns (g5, d5)"
    and g': "g' = resolveGameOver d5 d2 g5" by blast
  have sn0: "snake1 ?g0 = h1 # b1" using sn1 by simp
  from gt have gt0: "ghostTimer ?g0 = 0" by auto
  from moveP1_ReturnsD [OF m1 sn0] have hd: "head1 = nextHead h1 (nextDir1 g)" by simp
  have "ghostPowerupAt head1 ?g0 = ghostPowerupAt head1 g"
    by (simp add: ghostPowerupAt_def powerupAt_def)
  with ng hd have ng0: "\<not> ghostPowerupAt head1 ?g0" by simp
  note F = moveP1_fields [OF m1]
  from F ng0 gt0 have gt3: "ghostTimer g3 = 0" by auto
  from F pvp have pvp3: "mode g3 = PVP" by simp
  from F sn2 have sn3: "snake2 g3 = h2 # b2" by simp
  from F pvp have d3: "dir2 g3 = nextDir2 g" by simp
  from moveP2_ReturnsD [OF m2 pvp3 sn3] gt3 d3 hd heads have d4: d4 and d2: d2 by simp_all
  from pacmanAI_fields [OF ai] d4 have d5: d5 and "mode g5 = mode g4" by simp_all
  with moveP2_fields [OF m2] pvp3 have "mode g5 = PVP" by simp
  with g' d5 d2 show ?thesis by (simp add: resolveGameOver_fields)
qed

lemma update_Returns_snake1:
  assumes "tickDue dt g" "update rnd dt g = Returns g'"
  shows "\<exists>h body. snake1 g = h # body"
proof (cases "snake1 g")
  case Nil
  then have "moveP1 rnd (commitDirs (handleTimers dt g)) = Throws" by (simp add: moveP1_def)
  with update_due_ReturnsD [OF assms] show ?thesis by auto
next
  case (Cons h body) then show ?thesis by blast
qed

lemma pvp_ghost_no_death:
  assumes pvp: "mode g = PVP" and gt: "1 < ghostTimer g" and up: "update rnd dt g = Returns g'"
  shows "gameState g' = gameState g
         \<and> (ghostTimer g' = ghostTimer g - 1 \<or> ghostTimer g' = GHOST_DURATION)"
proof (cases "tickDue dt g")
  case False
  with up have "g' = handleTimers dt g" by (simp add: update_not_due)
  with gt show ?thesis by simp
next
  case True
  from update_Returns_snake1 [OF True up] obtain h body where sn: "snake1 g = h # body" by blast
  from pvp have "\<not> chaserAt (nextHead h (nextDir1 g)) g" by (simp add: chaserAt_def)
  from ghost_no_death [OF True sn gt this up] show ?thesis by simp
qed

lemma advanceP2_hd:
  assumes "advanceP2 rnd h g = Returns g'" "snake2 g \<noteq> []"
  shows "\<exists>bd. snake2 g' = h # bd"
proof (cases "px h = px (food g) \<and> py h = py (food g)")
  case True
  then have "px h = px (food g)" "py h = py (food g)" by simp_all
  from advanceP2_food [OF assms(1) this] show ?thesis by blast
next
  case False
  have t: "take (max 3 n) (h # xs) = h # take (max 3 n - 1) xs" for n :: nat and xs
    by (cases "max 3 n") simp_all
  from advanceP2_nofood [OF assms(1) False] assms(2) show ?thesis
    by (cases "snake2 g") (auto simp: collectPowerup2_fields t split: option.splits if_splits)
qed

lemma self_collision_dead_flag:
  assumes due: "tickDue dt g" and sn: "snake1 g = h # body"
    and gt: "ghostTimer g = 0 \<or> ghostTimer g = 1"
    and hit: "checkCollision (nextHead h (nextDir1 g)) (snake1 g)"
    and up: "update rnd dt g = Returns g'"
  shows "\<not> p1Survived g'"
proof -
  let ?g0 = "commitDirs (handleTimers dt g)"
  from update_due_ReturnsD [OF due up] obtain g3 head1 d1 g4 d4 d2 g5 d5 where
    m1: "moveP1 rnd ?g0 = Returns (g3, head1, d1)"
    and m2: "moveP2 rnd head1 d1 g3 = Returns (g4, d4, d2)"
    and ai: "pacmanAI rnd d4 g4 = Returns (g5, d5)"
    and g': "g' = resolveGameOver d5 d2 g5" by blast
  have sn0: "snake1 ?g0 = h # body" using sn by simp
  from gt have gt0: "ghostTimer ?g0 = 0" by auto
  note D = moveP1_ReturnsD [OF m1 sn0]
  from D have hd: "head1 = nextHead h (nextDir1 g)" by simp
  from D hd gt0 hit have d1: d1 by simp
  from moveP2_fields [OF m2] d1 have d4: d4 by simp
  from pacmanAI_fields [OF ai] d4 have d5: d5 by simp
  from g' d5 show ?thesis by (simp add: p1Survived_def resolveGameOver_fields)
qed

lemma self_collision_dead_P2:
  assumes due: "tickDue dt g" and pvp: "mode g = PVP" and sn2: "snake2 g = h2 # b2"
    and gt: "ghostTimer g = 0 \<or> ghostTimer g = 1"
    and ng: "\<not> ghostPowerupAt (nextHead (hd (snake1 g)) (nextDir1 g)) g"
    and hit: "checkCollision (nextHead h2 (nextDir2 g)) (snake2 g)"
    and up: "update rnd dt g = Returns g'"
  shows "gameState g' = GameOver \<and> snake2 g' = snake2 g \<and> \<not> p2Survived g'"
proof -
  let ?g0 = "commitDirs (handleTimers dt g)"
  from update_due_ReturnsD [OF due up] obtain g3 head1 d1 g4 d4 d2 g5 d5 where
    m1: "moveP1 rnd ?g0 = Returns (g3, head1, d1)"
    and m2: "moveP2 rnd head1 d1 g3 = Returns (g4, d4, d2)"
    and ai: "pacmanAI rnd d4 g4 = Returns (g5, d5)"
    and g': "g' = resolveGameOver d5 d2 g5" by blast
  from update_Returns_snake1 [OF due up] obtain h1 b1 where sn1: "snake1 g = h1 # b1" by blast
  have sn0: "snake1 ?g0 = h1 # b1" using sn1 by simp
  from gt have gt0: "ghostTimer ?g0 = 0" by auto
  from moveP1_ReturnsD [OF m1 sn0] have hd: "head1 = nextHead h1 (nextDir1 g)" by simp
  have "ghostPowerupAt head1 ?g0 = ghostPowerupAt head1 g"
    by (simp add: ghostPowerupAt_def powerupAt_def)
  with ng hd sn1 have ng0: "\<not> ghostPowerupAt head1 ?g0" by simp
  note F = moveP1_fields [OF m1]
  from F ng0 gt0 have gt3: "ghostTimer g3 = 0" by auto
  from F pvp have pvp3: "mode g3 = PVP" by simp
  from F sn2 have sn3: "snake2 g3 = h2 # b2" by simp
  from F pvp have d3: "dir2 g3 = nextDir2 g" by simp
  note D2 = moveP2_ReturnsD [OF m2 pvp3 sn3]
  from D2 gt3 d3 hit sn3 sn2 have d2: d2 by simp
  with D2 have g4: "g4 = detectWrap (px h2 + px (dir2 g3)) (py h2 + py (dir2 g3)) ColP2 g3" by simp
  from g4 sn3 sn2 have s4: "snake2 g4 = snake2 g" by simp
  from g4 pvp3 have pvp4: "mode g4 = PVP" by simp
  from pacmanAI_fields [OF ai] s4 pvp4 have s5: "snake2 g5 = snake2 g" and pvp5: "mode g5 = PVP"
    by simp_all
  from g' d2 s5 pvp5 show ?thesis by (simp add: p2Survived_def resolveGameOver_fields)
qed

lemma ghost_no_death_P2:
  assumes due: "tickDue dt g" and pvp: "mode g = PVP" and sn2: "snake2 g = h2 # b2"
    and gt: "1 < ghostTimer g"
    and up: "update rnd dt g = Returns g'"
  shows "gameState g' = gameState g \<and> (\<exists>bd. snake2 g' = nextHead h2 (nextDir2 g) # bd)"
proof -
  let ?g0 = "commitDirs (handleTimers dt g)"
  from update_due_ReturnsD [OF due up] obtain g3 head1 d1 g4 d4 d2 g5 d5 where
    m1: "moveP1 rnd ?g0 = Returns (g3, head1, d1)"
    and m2: "moveP2 rnd head1 d1 g3 = Returns (g4, d4, d2)"
    and ai: "pacmanAI rnd d4 g4 = Returns (g5, d5)"
    and g': "g' = resolveGameOver d5 d2 g5" by blast
  from gt have gt0: "ghostTimer ?g0 = ghostTimer g - 1" by simp
  note F = moveP1_fields [OF m1]
  from F gt0 gt have gt3: "ghostTimer g3 \<noteq> 0" by (auto simp: GHOST_DURATION_def)
  from F pvp have pvp3: "mode g3 = PVP" by simp
  from F sn2 have sn3: "snake2 g3 = h2 # b2" by simp
  from F pvp have d3: "dir2 g3 = nextDir2 g" by simp
  note D2 = moveP2_ReturnsD [OF m2 pvp3 sn3]
  from D2 gt3 have d2: "\<not> d2" by simp
  with D2 d3 have adv: "advanceP2 rnd (nextHead h2 (nextDir2 g))
        (detectWrap (px h2 + px (dir2 g3)) (py h2 + py (dir2 g3)) ColP2 g3) = Returns g4" by simp
  from sn3 have "snake2 (detectWrap (px h2 + px (dir2 g3)) (py h2 + py (dir2 g3)) ColP2 g3) \<noteq> []"
    by simp
  from advanceP2_hd [OF adv this] obtain bd where s4: "snake2 g4 = nextHead h2 (nextDir2 g) # bd"
    by blast
  from pacmanAI_fields [OF ai] s4 have s5: "snake2 g5 = nextHead h2 (nextDir2 g) # bd" by simp
  with g' have "snake2 g' = nextHead h2 (nextDir2 g) # bd" by (simp add: resolveGameOver_fields)
  with pvp_ghost_no_death [OF pvp gt up] show ?thesis by blast
qed

lemma handleInput_keys:
  assumes "gameState g = Playing"
  shows "nextDir1 (handleInput ''arrowup'' g) = (if py (dir1 g) = 0 then \<lparr>px = 0, py = - 1\<rparr> else nextDir1 g)"
    and "nextDir1 (handleInput ''arrowdown'' g) = (if py (dir1 g) = 0 then \<lparr>px = 0, py = 1\<rparr> else nextDir1 g)"
    and "nextDir1 (handleInput ''arrowleft'' g) = (if px (dir1 g) = 0 then \<lparr>px = - 1, py = 0\<rparr> else nextDir1 g)"
    and "nextDir1 (handleInput ''arrowright'' g) = (if px (dir1 g) = 0 then \<lparr>px = 1, py = 0\<rparr> else nextDir1 g)"
  using assms by (simp_all add: handleInput_def Let_def)

lemma handleInput_dirs:
  "dir1 (handleInput k g) = dir1 g \<and> dir2 (handleInput k g) = dir2 g \<and> mode (handleInput k g) = mode g"
  by (simp add: handleInput_def Let_def)

lemma handleJoystick_dirs:
  "dir1 (handleJoystick dx dy g) = dir1 g \<and> dir2 (handleJoystick dx dy g) = dir2 g
   \<and> mode (handleJoystick dx dy g) = mode g \<and> nextDir2 (handleJoystick dx dy g) = nextDir2 g"
  by (simp add: handleJoystick_def Let_def)

lemma handleInput_next1:
  "nextDir1 (handleInput k g) = nextDir1 g
   \<or> (px (dir1 g) = 0 \<and> px (nextDir1 (handleInput k g)) \<noteq> 0)
   \<or> (py (dir1 g) = 0 \<and> py (nextDir1 (handleInput k g)) \<noteq> 0)"
  by (simp add: handleInput_def Let_def)

lemma handleInput_next2:
  "nextDir2 (handleInput k g) = nextDir2 g
   \<or> (px (dir2 g) = 0 \<and> px (nextDir2 (handleInput k g)) \<noteq> 0)
   \<or> (py (dir2 g) = 0 \<and> py (nextDir2 (handleInput k g)) \<noteq> 0)"
  by (simp add: handleInput_def Let_def)

lemma handleJoystick_next1:
  "nextDir1 (handleJoystick dx dy g) = nextDir1 g
   \<or> (px (dir1 g) = 0 \<and> px (nextDir1 (handleJoystick dx dy g)) \<noteq> 0)
   \<or> (py (dir1 g) = 0 \<and> py (nextDir1 (handleJoystick dx dy g)) \<noteq> 0)"
  by (simp add: handleJoystick_def Let_def)

lemma applyInput_dirs:
  "dir1 (applyInput i g) = dir1 g \<and> dir2 (applyInput i g) = dir2 g \<and> mode (applyInput i g) = mode g"
  by (cases i) (simp_all add: handleInput_dirs handleJoystick_dirs)

lemma not_opposite_perp:
  "(px d = 0 \<and> px n \<noteq> 0) \<or> (py d = 0 \<and> py n \<noteq> 0) \<Longrightarrow> n \<noteq> opposite d"
  by (auto simp: opposite_def)

lemma applyInput_next1:
  "nextDir1 g \<noteq> opposite (dir1 g) \<Longrightarrow> nextDir1 (applyInput i g) \<noteq> opposite (dir1 g)"
proof (cases i)
  case (Key k)
  assume a: "nextDir1 g \<noteq> opposite (dir1 g)"
  from handleInput_next1 [of k g] a not_opposite_perp [of "dir1 g" "nextDir1 (handleInput k g)"]
  show ?thesis unfolding Key by auto
next
  case (Joystick dx dy)
  assume a: "nextDir1 g \<noteq> opposite (dir1 g)"
  from handleJoystick_next1 [of dx dy g] a
    not_opposite_perp [of "dir1 g" "nextDir1 (handleJoystick dx dy g)"]
  show ?thesis unfolding Joystick by auto
qed

lemma applyInput_next2:
  "nextDir2 g \<noteq> opposite (dir2 g) \<Longrightarrow> nextDir2 (applyInput i g) \<noteq> opposite (dir2 g)"
proof (cases i)
  case (Key k)
  assume a: "nextDir2 g \<noteq> opposite (dir2 g)"
  from handleInput_next2 [of k g] a not_opposite_perp [of "dir2 g" "nextDir2 (handleInput k g)"]
  show ?thesis unfolding Key by auto
next
  case (Joystick dx dy)
  assume a: "nextDir2 g \<noteq> opposite (dir2 g)"
  then show ?thesis unfolding Joystick by (simp add: handleJoystick_dirs)
qed

lemma fold_applyInput_dirs:
  "dir1 (fold applyInput ins g) = dir1 g \<and> dir2 (fold applyInput ins g) = dir2 g
   \<and> mode (fold applyInput ins g) = mode g"
  by (induction ins arbitrary: g) (simp_all add: applyInput_dirs)

lemma fold_applyInput_next1:
  "nextDir1 g \<noteq> opposite (dir1 g) \<Longrightarrow> nextDir1 (fold applyInput ins g) \<noteq> opposite (dir1 g)"
proof (induction ins arbitrary: g)
  case Nil then show ?case by simp
next
  case (Cons i ins)
  from applyInput_next1 [OF Cons.prems, of i]
  have "nextDir1 (applyInput i g) \<noteq> opposite (dir1 (applyInput i g))" by (simp add: applyInput_dirs)
  from Cons.IH [OF this] show ?case by (simp add: applyInput_dirs)
qed

lemma fold_applyInput_next2:
  "nextDir2 g \<noteq> opposite (dir2 g) \<Longrightarrow> nextDir2 (fold applyInput ins g) \<noteq> opposite (dir2 g)"
proof (induction ins arbitrary: g)
  case Nil then show ?case by simp
next
  case (Cons i ins)
  from applyInput_next2 [OF Cons.prems, of i]
  have "nextDir2 (applyInput i g) \<noteq> opposite (dir2 (applyInput i g))" by (simp add: applyInput_dirs)
  from Cons.IH [OF this] show ?case by (simp add: applyInput_dirs)
qed

lemma update_due_dirs:
  assumes "tickDue dt g" "update rnd dt g = Returns g'"
  shows "dir1 g' = nextDir1 g \<and> nextDir1 g' = nextDir1 g
         \<and> dir2 g' = (if mode g = PVP then nextDir2 g else dir2 g) \<and> nextDir2 g' = nextDir2 g"
proof -
  let ?g0 = "commitDirs (handleTimers dt g)"
  from update_due_ReturnsD [OF assms] obtain g3 head1 d1 g4 d4 d2 g5 d5 where
    m1: "moveP1 rnd ?g0 = Returns (g3, head1, d1)"
    and m2: "moveP2 rnd head1 d1 g3 = Returns (g4, d4, d2)"
    and ai: "pacmanAI rnd d4 g4 = Returns (g5, d5)"
    and g': "g' = resolveGameOver d5 d2 g5" by blast
  from moveP1_fields [OF m1] have
    "dir1 g3 = nextDir1 g" "nextDir1 g3 = nextDir1 g"
    "dir2 g3 = (if mode g = PVP then nextDir2 g else dir2 g)" "nextDir2 g3 = nextDir2 g" by simp_all
  with moveP2_fields [OF m2] have
    "dir1 g4 = nextDir1 g" "nextDir1 g4 = nextDir1 g"
    "dir2 g4 = (if mode g = PVP then nextDir2 g else dir2 g)" "nextDir2 g4 = nextDir2 g" by simp_all
  with pacmanAI_fields [OF ai] have
    "dir1 g5 = nextDir1 g" "nextDir1 g5 = nextDir1 g"
    "dir2 g5 = (if mode g = PVP then nextDir2 g else dir2 g)" "nextDir2 g5 = nextDir2 g" by simp_all
  with g' show ?thesis by (simp add: resolveGameOver_fields)
qed

lemma no_reversal:
  assumes "tickDue dt (fold applyInput ins g)"
    "update rnd dt (fold applyInput ins g) = Returns g'"
  shows "(nextDir1 g \<noteq> opposite (dir1 g) \<longrightarrow> dir1 g' \<noteq> opposite (dir1 g))
       \<and> (mode g = PVP \<and> nextDir2 g \<noteq> opposite (dir2 g) \<longrightarrow> dir2 g' \<noteq> opposite (dir2 g))
       \<and> nextDir1 g' = dir1 g' \<and> (mode g = PVP \<longrightarrow> nextDir2 g' = dir2 g')"
  using update_due_dirs [OF assms] fold_applyInput_next1 [of g ins] fold_applyInput_next2 [of g ins]
    fold_applyInput_dirs [of ins g]
  by auto

lemma collectPowerup1_length:
  "length (snake1 (collectPowerup1 pu g)) = lengthAfterPowerup (ptype pu) (length (snake1 g))"
  by (simp add: collectPowerup1_fields lengthAfterPowerup_def)

lemma collectPowerup2_length:
  "length (snake2 (collectPowerup2 pu g)) = lengthAfterPowerup (ptype pu) (length (snake2 g))"
  by (simp add: collectPowerup2_fields lengthAfterPowerup_def)

lemma advanceP1_growth:
  assumes adv: "advanceP1 rnd h e g = Returns g'" and ne: "snake1 g \<noteq> []"
  shows "(samePoint h (food g) \<longrightarrow>
            length (snake1 g') = length (snake1 g) + 1 \<and> scoreP1 g' = scoreP1 g + 1)
       \<and> (\<not> samePoint h (food g) \<and> powerupAt h g = None \<longrightarrow>
            length (snake1 g') = length (snake1 g) + (if e then 1 else 0) \<and> scoreP1 g' = scoreP1 g)
       \<and> (\<forall>pu. \<not> samePoint h (food g) \<and> powerupAt h g = Some pu \<longrightarrow>
            length (snake1 g') = lengthAfterPowerup (ptype pu) (length (snake1 g) + 1)
            \<and> scoreP1 g' = scoreP1 g + 5)"
proof (cases "px h = px (food g) \<and> py h = py (food g)")
  case True
  then have "px h = px (food g)" "py h = py (food g)" by simp_all
  from advanceP1_food [OF adv this] True show ?thesis by (simp add: samePoint_def)
next
  case False
  note N = advanceP1_nofood [OF adv False]
  from False have nf: "\<not> samePoint h (food g)" by (simp add: samePoint_def)
  show ?thesis
  proof (cases "powerupAt h g")
    case None
    with N ne nf show ?thesis by simp
  next
    case (Some pu)
    with N have g': "g' = collectPowerup1 pu (g\<lparr>snake1 := h # snake1 g\<rparr>)" by simp
    have "length (snake1 g') = lengthAfterPowerup (ptype pu) (length (snake1 g) + 1)"
      unfolding g' collectPowerup1_length by simp
    moreover have "scoreP1 g' = scoreP1 g + 5"
      unfolding g' by (simp add: collectPowerup1_fields)
    ultimately show ?thesis using Some nf by simp
  qed
qed

lemma advanceP2_growth:
  assumes adv: "advanceP2 rnd h g = Returns g'" and ne: "snake2 g \<noteq> []"
  shows "(samePoint h (food g) \<longrightarrow>
            length (snake2 g') = length (snake2 g) + 1 \<and> scoreP2 g' = scoreP2 g + 1)
       \<and> (\<not> samePoint h (food g) \<and> powerupAt h g = None \<longrightarrow>
            length (snake2 g') = length (snake2 g) \<and> scoreP2 g' = scoreP2 g)
       \<and> (\<forall>pu. \<not> samePoint h (food g) \<and> powerupAt h g = Some pu \<longrightarrow>
            length (snake2 g') = lengthAfterPowerup (ptype pu) (length (snake2 g) + 1)
            \<and> scoreP2 g' = scoreP2 g + 5)"
proof (cases "px h = px (food g) \<and> py h = py (food g)")
  case True
  then have "px h = px (food g)" "py h = py (food g)" by simp_all
  from advanceP2_food [OF adv this] True show ?thesis by (simp add: samePoint_def)
next
  case False
  note N = advanceP2_nofood [OF adv False]
  from False have nf: "\<not> samePoint h (food g)" by (simp add: samePoint_def)
  show ?thesis
  proof (cases "powerupAt h g")
    case None
    with N ne nf show ?thesis by simp
  next
    case (Some pu)
    with N have g': "g' = collectPowerup2 pu (g\<lparr>snake2 := h # snake2 g\<rparr>)" by simp
    have "length (snake2 g') = lengthAfterPowerup (ptype pu) (length (snake2 g) + 1)"
      unfolding g' collectPowerup2_length by simp
    moreover have "scoreP2 g' = scoreP2 g + 5"
      unfolding g' by (simp add: collectPowerup2_fields)
    ultimately show ?thesis using Some nf by simp
  qed
qed

lemma survived_flags:
  assumes "g' = resolveGameOver d5 d2 g5"
  shows "p1Survived g' \<Longrightarrow> \<not> d5" and "p2Survived g' \<Longrightarrow> \<not> d2"
  using assms by (auto simp: p1Survived_def p2Survived_def resolveGameOver_fields split: if_splits)

lemma growth_P1:
  assumes due: "tickDue dt g" and up: "update rnd dt g = Returns g'"
    and sn: "snake1 g = h # body" and alive: "p1Survived g'"
  shows "(samePoint (nextHead h (nextDir1 g)) (food g) \<longrightarrow>
            length (snake1 g') = length (snake1 g) + 1
            \<and> scoreP1 g' = scoreP1 g + 1 + (if eatsChaser (nextHead h (nextDir1 g)) g then 5 else 0))
       \<and> (\<not> samePoint (nextHead h (nextDir1 g)) (food g) \<and> powerupAt (nextHead h (nextDir1 g)) g = None \<longrightarrow>
            length (snake1 g') = length (snake1 g) + (if eatsChaser (nextHead h (nextDir1 g)) g then 1 else 0)
            \<and> scoreP1 g' = scoreP1 g + (if eatsChaser (nextHead h (nextDir1 g)) g then 5 else 0))
       \<and> (\<forall>pu. \<not> samePoint (nextHead h (nextDir1 g)) (food g)
              \<and> powerupAt (nextHead h (nextDir1 g)) g = Some pu \<longrightarrow>
            length (snake1 g') = lengthAfterPowerup (ptype pu) (length (snake1 g) + 1)
            \<and> scoreP1 g' = scoreP1 g + 5 + (if eatsChaser (nextHead h (nextDir1 g)) g then 5 else 0))"
proof -
  let ?g0 = "commitDirs (handleTimers dt g)"
  let ?h = "nextHead h (nextDir1 g)"
  from update_due_ReturnsD [OF due up] obtain g3 head1 d1 g4 d4 d2 g5 d5 where
    m1: "moveP1 rnd ?g0 = Returns (g3, head1, d1)"
    and m2: "moveP2 rnd head1 d1 g3 = Returns (g4, d4, d2)"
    and ai: "pacmanAI rnd d4 g4 = Returns (g5, d5)"
    and g': "g' = resolveGameOver d5 d2 g5" by blast
  from survived_flags(1) [OF g' alive] have d5: "\<not> d5" .
  with pacmanAI_fields [OF ai] have d4: "\<not> d4" by blast
  with moveP2_fields [OF m2] have d1: "\<not> d1" by blast
  have sn0: "snake1 ?g0 = h # body" using sn by simp
  have ec: "(chaserAt ?h ?g0 \<and> pacmanFrozen ?g0 > 0) = eatsChaser ?h g"
    by (simp add: eatsChaser_def chaserAt_def)
  note D = moveP1_ReturnsD [OF m1 sn0]
  from D have hd: "head1 = ?h" by simp
  from D d1 hd ec obtain g2 where
    enc: "pacmanEncounter rnd ?h
                 (ghostTimer ?g0 = 0 \<and> (checkCollision ?h (snake1 ?g0) \<or> checkCollision ?h (snake2 ?g0)))
                 (detectWrap (px h + px (dir1 ?g0)) (py h + py (dir1 ?g0)) ColP1 ?g0)
                = Returns (g2, d1, eatsChaser ?h g)"
    and adv: "advanceP1 rnd ?h (eatsChaser ?h g) g2 = Returns g3" by auto
  note E = pacmanEncounter_fields [OF enc]
  from E sn have s2: "snake1 g2 = snake1 g" "snake1 g2 \<noteq> []" by simp_all
  from E have f2: "food g2 = food g" "powerupAt ?h g2 = powerupAt ?h g"
    and sc2: "scoreP1 g2 = scoreP1 g + (if eatsChaser ?h g then 5 else 0)"
    by (simp_all add: powerupAt_def)
  from f2 have sp: "samePoint ?h (food g2) = samePoint ?h (food g)" by simp
  note A = advanceP1_growth [OF adv s2(2), unfolded sp f2(2) s2(1) sc2]
  from moveP2_fields [OF m2] pacmanAI_fields [OF ai] g'
  have "snake1 g' = snake1 g3" "scoreP1 g' = scoreP1 g3" by (simp_all add: resolveGameOver_fields)
  with A show ?thesis by simp
qed

lemma p2_advance:
  assumes due: "tickDue dt g" and up: "update rnd dt g = Returns g'"
    and pvp: "mode g = PVP" and alive: "p2Survived g'"
  shows "\<exists>g3 head1 d1 h2 b2 g3' g4.
           moveP1 rnd (commitDirs (handleTimers dt g)) = Returns (g3, head1, d1)
         \<and> snake2 g = h2 # b2
         \<and> advanceP2 rnd (nextHead h2 (nextDir2 g)) g3' = Returns g4
         \<and> food g3' = food g3 \<and> powerup g3' = powerup g3
         \<and> snake2 g3' = snake2 g \<and> scoreP2 g3' = scoreP2 g \<and> ghostTimer g3' = ghostTimer g3
         \<and> snake2 g' = snake2 g4 \<and> scoreP2 g' = scoreP2 g4 \<and> ghostTimer g' = ghostTimer g4"
proof -
  let ?g0 = "commitDirs (handleTimers dt g)"
  from update_due_ReturnsD [OF due up] obtain g3 head1 d1 g4 d4 d2 g5 d5 where
    m1: "moveP1 rnd ?g0 = Returns (g3, head1, d1)"
    and m2: "moveP2 rnd head1 d1 g3 = Returns (g4, d4, d2)"
    and ai: "pacmanAI rnd d4 g4 = Returns (g5, d5)"
    and g': "g' = resolveGameOver d5 d2 g5" by blast
  from survived_flags(2) [OF g' alive] have d2: "\<not> d2" .
  note F = moveP1_fields [OF m1]
  from F pvp have pvp3: "mode g3 = PVP" and s3: "snake2 g3 = snake2 g"
    and sc3: "scoreP2 g3 = scoreP2 g" and dr3: "dir2 g3 = nextDir2 g" by simp_all
  obtain h2 b2 where sn2: "snake2 g = h2 # b2"
  proof (cases "snake2 g")
    case Nil
    with s3 pvp3 m2 show ?thesis by (simp add: moveP2_def)
  next
    case (Cons a list) then show ?thesis by (rule that)
  qed
  let ?g3' = "detectWrap (px h2 + px (dir2 g3)) (py h2 + py (dir2 g3)) ColP2 g3"
  from sn2 s3 have sn3: "snake2 g3 = h2 # b2" by simp
  from moveP2_ReturnsD [OF m2 pvp3 sn3] d2 dr3
  have adv: "advanceP2 rnd (nextHead h2 (nextDir2 g)) ?g3' = Returns g4" by simp
  from pacmanAI_fields [OF ai] g'
  have e: "snake2 g' = snake2 g4" "scoreP2 g' = scoreP2 g4" "ghostTimer g' = ghostTimer g4"
    by (simp_all add: resolveGameOver_fields)
  have "food ?g3' = food g3" "powerup ?g3' = powerup g3" "snake2 ?g3' = snake2 g"
    "scoreP2 ?g3' = scoreP2 g" "ghostTimer ?g3' = ghostTimer g3"
    using s3 sc3 by simp_all
  with m1 sn2 adv e show ?thesis by blast
qed

lemma powerupAt_cong: "powerup a = powerup b \<Longrightarrow> powerupAt c a = powerupAt c b"
  by (simp add: powerupAt_def)

lemma growth_P2:
  assumes due: "tickDue dt g" and up: "update rnd dt g = Returns g'"
    and pvp: "mode g = PVP" and alive: "p2Survived g'"
  shows "\<exists>g3 head1 d1 h2 b2.
           moveP1 rnd (commitDirs (handleTimers dt g)) = Returns (g3, head1, d1)
         \<and> snake2 g = h2 # b2
         \<and> (samePoint (nextHead h2 (nextDir2 g)) (food g3) \<longrightarrow>
               length (snake2 g') = length (snake2 g) + 1 \<and> scoreP2 g' = scoreP2 g + 1)
         \<and> (\<not> samePoint (nextHead h2 (nextDir2 g)) (food g3)
              \<and> powerupAt (nextHead h2 (nextDir2 g)) g3 = None \<longrightarrow>
               length (snake2 g') = length (snake2 g) \<and> scoreP2 g' = scoreP2 g)
         \<and> (\<forall>pu. \<not> samePoint (nextHead h2 (nextDir2 g)) (food g3)
                \<and> powerupAt (nextHead h2 (nextDir2 g)) g3 = Some pu \<longrightarrow>
               length (snake2 g') = lengthAfterPowerup (ptype pu) (length (snake2 g) + 1)
               \<and> scoreP2 g' = scoreP2 g + 5)"
proof -
  from p2_advance [OF assms] obtain g3 head1 d1 h2 b2 g3' g4 where
    m1: "moveP1 rnd (commitDirs (handleTimers dt g)) = Returns (g3, head1, d1)"
    and sn2: "snake2 g = h2 # b2"
    and adv: "advanceP2 rnd (nextHead h2 (nextDir2 g)) g3' = Returns g4"
    and f: "food g3' = food g3" and p: "powerup g3' = powerup g3"
    and s: "snake2 g3' = snake2 g" and sc: "scoreP2 g3' = scoreP2 g"
    and e: "snake2 g' = snake2 g4" "scoreP2 g' = scoreP2 g4" by blast
  from s sn2 have ne: "snake2 g3' \<noteq> []" by simp
  note A = advanceP2_growth [OF adv ne, unfolded f powerupAt_cong [OF p] s sc, folded e]
  from m1 sn2 A show ?thesis by blast
qed

lemma advanceP2_ghost_pickup:
  assumes "advanceP2 rnd h g = Returns g'" "\<not> samePoint h (food g)" "ghostPowerupAt h g"
  shows "ghostTimer g' = GHOST_DURATION"
proof -
  from assms(2) have nf: "\<not> (px h = px (food g) \<and> py h = py (food g))" by (simp add: samePoint_def)
  from advanceP2_nofood [OF assms(1) nf] assms(3) show ?thesis
    by (auto simp: ghostPowerupAt_def collectPowerup2_fields split: option.splits)
qed

lemma advanceP1_ghost_pickup:
  assumes "advanceP1 rnd h e g = Returns g'" "\<not> samePoint h (food g)" "ghostPowerupAt h g"
  shows "ghostTimer g' = GHOST_DURATION"
proof -
  from assms(2) have nf: "\<not> (px h = px (food g) \<and> py h = py (food g))" by (simp add: samePoint_def)
  from advanceP1_nofood [OF assms(1) nf] assms(3) show ?thesis
    by (auto simp: ghostPowerupAt_def collectPowerup1_fields split: option.splits)
qed

lemma ghost_pickup_P2:
  assumes due: "tickDue dt g" and up: "update rnd dt g = Returns g'"
    and pvp: "mode g = PVP" and alive: "p2Survived g'"
  shows "\<exists>g3 head1 d1 h2 b2.
           moveP1 rnd (commitDirs (handleTimers dt g)) = Returns (g3, head1, d1)
         \<and> snake2 g = h2 # b2
         \<and> (\<not> samePoint (nextHead h2 (nextDir2 g)) (food g3)
              \<and> ghostPowerupAt (nextHead h2 (nextDir2 g)) g3 \<longrightarrow>
               ghostTimer g' = GHOST_DURATION)"
proof -
  from p2_advance [OF assms] obtain g3 head1 d1 h2 b2 g3' g4 where
    m1: "moveP1 rnd (commitDirs (handleTimers dt g)) = Returns (g3, head1, d1)"
    and sn2: "snake2 g = h2 # b2"
    and adv: "advanceP2 rnd (nextHead h2 (nextDir2 g)) g3' = Returns g4"
    and f: "food g3' = food g3" and p: "powerup g3' = powerup g3"
    and e: "ghostTimer g' = ghostTimer g4" by blast
  have gp: "ghostPowerupAt c g3' = ghostPowerupAt c g3" for c
    by (simp add: ghostPowerupAt_def powerupAt_cong [OF p])
  have "\<not> samePoint (nextHead h2 (nextDir2 g)) (food g3)
              \<and> ghostPowerupAt (nextHead h2 (nextDir2 g)) g3 \<longrightarrow>
               ghostTimer g' = GHOST_DURATION"
    using advanceP2_ghost_pickup [OF adv] f gp e by simp
  with m1 sn2 show ?thesis by blast
qed

lemma ghost_pickup_P1:
  assumes due: "tickDue dt g" and up: "update rnd dt g = Returns g'"
    and sn: "snake1 g = h # body" and alive: "p1Survived g'"
    and nf: "\<not> samePoint (nextHead h (nextDir1 g)) (food g)"
    and gp: "ghostPowerupAt (nextHead h (nextDir1 g)) g"
  shows "ghostTimer g' = GHOST_DURATION"
proof -
  let ?g0 = "commitDirs (handleTimers dt g)"
  let ?h = "nextHead h (nextDir1 g)"
  from update_due_ReturnsD [OF due up] obtain g3 head1 d1 g4 d4 d2 g5 d5 where
    m1: "moveP1 rnd ?g0 = Returns (g3, head1, d1)"
    and m2: "moveP2 rnd head1 d1 g3 = Returns (g4, d4, d2)"
    and ai: "pacmanAI rnd d4 g4 = Returns (g5, d5)"
    and g': "g' = resolveGameOver d5 d2 g5" by blast
  from survived_flags(1) [OF g' alive] have d5: "\<not> d5" .
  with pacmanAI_fields [OF ai] have d4: "\<not> d4" by blast
  with moveP2_fields [OF m2] have d1: "\<not> d1" by blast
  have sn0: "snake1 ?g0 = h # body" using sn by simp
  note D = moveP1_ReturnsD [OF m1 sn0]
  from D have hd: "head1 = ?h" by simp
  from D d1 hd obtain g2 e where
    enc: "pacmanEncounter rnd ?h
                 (ghostTimer ?g0 = 0 \<and> (checkCollision ?h (snake1 ?g0) \<or> checkCollision ?h (snake2 ?g0)))
                 (detectWrap (px h + px (dir1 ?g0)) (py h + py (dir1 ?g0)) ColP1 ?g0)
                = Returns (g2, d1, e)"
    and adv: "advanceP1 rnd ?h e g2 = Returns g3" by auto
  note E = pacmanEncounter_fields [OF enc]
  from E have "food g2 = food g" "powerup g2 = powerup g" by simp_all
  with nf gp have "\<not> samePoint ?h (food g2)" "ghostPowerupAt ?h g2"
    by (simp_all add: ghostPowerupAt_def powerupAt_def)
  from advanceP1_ghost_pickup [OF adv this] have "ghostTimer g3 = GHOST_DURATION" .
  with moveP2_fields [OF m2] have "ghostTimer g4 = GHOST_DURATION" by auto
  with pacmanAI_fields [OF ai] g' show ?thesis by (simp add: resolveGameOver_fields)
qed

section \<open>Concrete runs\<close>

lemma tailChase_run:
  "update rndA 121 tailChase =
     Returns (tailChase\<lparr>moveTimer := 0, dir1 := \<lparr>px = 1, py = 0\<rparr>, pacmanMoveTick := 1,
                        gameState := GameOver, gameOverReason := ''GAME OVER'',
                        shakeFrame := 20, effects := [PlaySound SndDie]\<rparr>)"
  by code_simp

lemma tailChaseGhost_run:
  "update rndA 121 tailChaseGhost =
     Returns (tailChaseGhost\<lparr>moveTimer := 0, dir1 := \<lparr>px = 1, py = 0\<rparr>, pacmanMoveTick := 1,
                ghostTimer := 49,
                snake1 := [\<lparr>px = 6, py = 5\<rparr>, \<lparr>px = 5, py = 5\<rparr>, \<lparr>px = 5, py = 6\<rparr>, \<lparr>px = 6, py = 6\<rparr>]\<rparr>)"
  by code_simp

lemma headOn_run:
  "update rndA 121 headOn =
     Returns (headOn\<lparr>moveTimer := 0, ghostTimer := 99,
                     snake1 := [\<lparr>px = 11, py = 5\<rparr>], snake2 := [\<lparr>px = 11, py = 5\<rparr>]\<rparr>)"
  by code_simp

lemma headOnNoGhost_run:
  "update rndA 121 headOnNoGhost =
     Returns (headOnNoGhost\<lparr>moveTimer := 0, snake1 := [\<lparr>px = 11, py = 5\<rparr>],
                            gameState := GameOver, gameOverReason := ''DRAW!'',
                            shakeFrame := 20, effects := [PlaySound SndDie]\<rparr>)"
  by code_simp

lemma ghostAhead_run:
  "update rndA 121 ghostAhead =
     Returns (ghostAhead\<lparr>moveTimer := 0, pacmanMoveTick := 1, scoreP1 := 5, ghostTimer := 200,
                         snake1 := [\<lparr>px = 15, py = 9\<rparr>, \<lparr>px = 15, py = 10\<rparr>],
                         powerup := None, flashFrame := 10, shakeFrame := 10,
                         effects := [PlaySound SndPowerup]\<rparr>)"
  by code_simp

lemma foodAhead_run:
  "update rndC 121 foodAhead =
     Returns (foodAhead\<lparr>moveTimer := 0, pacmanMoveTick := 1, scoreP1 := 1,
                        moveInterval := 119, baseMoveInterval := 119,
                        snake1 := [\<lparr>px = 15, py = 9\<rparr>, \<lparr>px = 15, py = 10\<rparr>],
                        food := \<lparr>px = 25, py = 3\<rparr>, shakeFrame := 3,
                        effects := [PlaySound SndEat, SpawnParticles 15 9 ColP1 8],
                        rngUsed := 3\<rparr>)"
  by code_simp

lemma baseGame_run:
  "update rndA 121 baseGame =
     Returns (baseGame\<lparr>moveTimer := 0, pacmanMoveTick := 1, snake1 := [\<lparr>px = 15, py = 9\<rparr>]\<rparr>)"
  by code_simp

lemma pvpFood_run:
  "update rndC 121 pvpFood =
     Returns (pvpFood\<lparr>moveTimer := 0, scoreP2 := 1, moveInterval := 119, baseMoveInterval := 119,
                      snake1 := [\<lparr>px = 22, py = 9\<rparr>],
                      snake2 := [\<lparr>px = 7, py = 9\<rparr>, \<lparr>px = 7, py = 10\<rparr>],
                      food := \<lparr>px = 25, py = 3\<rparr>, shakeFrame := 3,
                      effects := [PlaySound SndEat, SpawnParticles 7 9 ColP2 8], rngUsed := 2\<rparr>)"
  by code_simp

lemma pvpFood_moveP1:
  "moveP1 rndC (commitDirs (handleTimers 121 pvpFood)) =
     Returns (pvpFood\<lparr>moveTimer := 0, snake1 := [\<lparr>px = 22, py = 9\<rparr>]\<rparr>, \<lparr>px = 22, py = 9\<rparr>, False)"
  by code_simp

lemma pvpGhost_run:
  "update rndA 121 pvpGhost =
     Returns (pvpGhost\<lparr>moveTimer := 0, scoreP1 := 5, ghostTimer := 200,
                snake1 := [\<lparr>px = 12, py = 4\<rparr>, \<lparr>px = 12, py = 5\<rparr>, \<lparr>px = 12, py = 6\<rparr>, \<lparr>px = 12, py = 7\<rparr>],
                snake2 := [\<lparr>px = 12, py = 6\<rparr>],
                powerup := None, flashFrame := 10, shakeFrame := 10,
                effects := [PlaySound SndPowerup]\<rparr>)"
  by code_simp

lemma pvpGhost2_run:
  "update rndA 121 pvpGhost2 =
     Returns (pvpGhost2\<lparr>moveTimer := 0, scoreP2 := 5, ghostTimer := 200,
                snake1 := [\<lparr>px = 22, py = 9\<rparr>],
                snake2 := [\<lparr>px = 7, py = 9\<rparr>, \<lparr>px = 7, py = 10\<rparr>],
                powerup := None, flashFrame := 10, shakeFrame := 10,
                effects := [PlaySound SndPowerup]\<rparr>)"
  by code_simp

lemma pvpGhost2_moveP1:
  "moveP1 rndA (commitDirs (handleTimers 121 pvpGhost2)) =
     Returns (pvpGhost2\<lparr>moveTimer := 0, snake1 := [\<lparr>px = 22, py = 9\<rparr>]\<rparr>, \<lparr>px = 22, py = 9\<rparr>, False)"
  by code_simp

lemma pvpTailChase_run:
  "update rndA 121 pvpTailChase =
     Returns (pvpTailChase\<lparr>moveTimer := 0, snake1 := [\<lparr>px = 22, py = 9\<rparr>],
                           dir2 := \<lparr>px = 1, py = 0\<rparr>,
                           gameState := GameOver, gameOverReason := ''GREEN WINS!'',
                           shakeFrame := 20, effects := [PlaySound SndDie]\<rparr>)"
  by code_simp

lemma pvpTailChaseGhost_run:
  "update rndA 121 pvpTailChaseGhost =
     Returns (pvpTailChaseGhost\<lparr>moveTimer := 0, ghostTimer := 49,
                snake1 := [\<lparr>px = 22, py = 9\<rparr>], dir2 := \<lparr>px = 1, py = 0\<rparr>,
                snake2 := [\<lparr>px = 6, py = 5\<rparr>, \<lparr>px = 5, py = 5\<rparr>, \<lparr>px = 5, py = 6\<rparr>, \<lparr>px = 6, py = 6\<rparr>]\<rparr>)"
  by code_simp

lemma frozenChaserAhead_run:
  "update rndA 121 frozenChaserAhead =
     Returns (frozenChaserAhead\<lparr>moveTimer := 0, dir1 := \<lparr>px = 1, py = 0\<rparr>, scoreP1 := 5,
                snake1 := [\<lparr>px = 6, py = 5\<rparr>, \<lparr>px = 5, py = 5\<rparr>, \<lparr>px = 5, py = 6\<rparr>,
                           \<lparr>px = 6, py = 6\<rparr>, \<lparr>px = 7, py = 6\<rparr>],
                pacman := Some \<lparr>px = 6, py = 5\<rparr>, pacmanFrozen := 0, pacmanMoveTick := 2,
                rngUsed := 3, gameState := GameOver, gameOverReason := ''GAME OVER'',
                shakeFrame := 20,
                effects := [PlaySound SndEat, SpawnParticles 6 5 ColPacman 12, PlaySound SndDie]\<rparr>)"
  by code_simp

lemma chaserNextToFood_run:
  "update rndB 121 chaserNextToFood =
     Returns (chaserNextToFood\<lparr>moveTimer := 0, snake1 := [\<lparr>px = 15, py = 9\<rparr>],
                pacman := Some \<lparr>px = 2, py = 5\<rparr>, food := \<lparr>px = 2, py = 5\<rparr>,
                scorePacman := 1, pacmanMoveTick := 2, rngUsed := 2,
                effects := [PlaySound SndPacman]\<rparr>)"
  by code_simp

lemma inputs_run:
  "update rndA 121 (fold applyInput [Key ''arrowleft'', Key ''arrowdown'', Joystick 0 (- 1)] baseGame) =
     Returns (baseGame\<lparr>moveTimer := 0, pacmanMoveTick := 1, snake1 := [\<lparr>px = 14, py = 10\<rparr>],
                       dir1 := \<lparr>px = - 1, py = 0\<rparr>, nextDir1 := \<lparr>px = - 1, py = 0\<rparr>\<rparr>)"
  by code_simp

lemma pvp_inputs_run:
  "update rndC 121 (fold applyInput [Key ''a'', Key ''s'', Key ''arrowright''] pvpFood) =
     Returns (pvpFood\<lparr>moveTimer := 0,
                      snake1 := [\<lparr>px = 23, py = 10\<rparr>],
                      dir1 := \<lparr>px = 1, py = 0\<rparr>, nextDir1 := \<lparr>px = 1, py = 0\<rparr>,
                      snake2 := [\<lparr>px = 6, py = 10\<rparr>],
                      dir2 := \<lparr>px = - 1, py = 0\<rparr>, nextDir2 := \<lparr>px = - 1, py = 0\<rparr>\<rparr>)"
  by code_simp

section \<open>Self-collision and the tail cell\<close>

lemma tail_is_own_segment: "s \<noteq> [] \<Longrightarrow> checkCollision (last s) s"
  by (simp add: checkCollision_mem)

text \<open>
  C1 (as stated, refuted). The claim says that a snake whose next head lands on its own
  tail cell survives when it is not growing. Here the head at (5,5) turns right onto the
  tail cell (6,5); there is no food, powerup or chaser on that cell and the ghost timer
  is 0. The round ends and the snake has not moved.
\<close>

theorem tail_chase_dies_counterexample:
  "nextHead \<lparr>px = 5, py = 5\<rparr> (nextDir1 tailChase) = last (snake1 tailChase)
   \<and> hd (snake1 tailChase) = \<lparr>px = 5, py = 5\<rparr>
   \<and> \<not> samePoint (last (snake1 tailChase)) (food tailChase)
   \<and> powerupAt (last (snake1 tailChase)) tailChase = None
   \<and> \<not> eatsChaser (last (snake1 tailChase)) tailChase
   \<and> update rndA 121 tailChase =
       Returns (tailChase\<lparr>moveTimer := 0, dir1 := \<lparr>px = 1, py = 0\<rparr>, pacmanMoveTick := 1,
                          gameState := GameOver, gameOverReason := ''GAME OVER'',
                          shakeFrame := 20, effects := [PlaySound SndDie]\<rparr>)"
proof -
  have "nextHead \<lparr>px = 5, py = 5\<rparr> (nextDir1 tailChase) = last (snake1 tailChase)" by code_simp
  moreover have "hd (snake1 tailChase) = \<lparr>px = 5, py = 5\<rparr>" by code_simp
  moreover have "\<not> samePoint (last (snake1 tailChase)) (food tailChase)" by code_simp
  moreover have "powerupAt (last (snake1 tailChase)) tailChase = None" by code_simp
  moreover have "\<not> eatsChaser (last (snake1 tailChase)) tailChase" by code_simp
  ultimately show ?thesis using tailChase_run by blast
qed

text \<open>
  C1 (amended). There is no tail exemption, for either snake. On a tick with the ghost
  timer at zero when the snake's check runs, a snake whose next head lands on any cell of
  its own body, the tail cell included, is dead whether or not it is growing: the round is
  over, the snake has lost it and its body is left unmoved. The timer is zero at player 1's
  check when it was 0 or 1 at the call, and at player 2's check when moreover player 1 has
  not just moved onto a Ghost powerup. The self-collision check is skipped only while the
  ghost timer is running: then the round goes on and the head is pushed onto the body
  (for player 1, unless the chaser stands on that cell).
\<close>

theorem self_collision_no_tail_exemption:
  assumes "tickDue dt g" and "update rnd dt g = Returns g'"
  shows "(snake1 g = h # body \<and> checkCollision (nextHead h (nextDir1 g)) (snake1 g) \<longrightarrow>
            (ghostTimer g = 0 \<or> ghostTimer g = 1 \<longrightarrow>
               gameState g' = GameOver \<and> snake1 g' = snake1 g \<and> \<not> p1Survived g')
          \<and> (1 < ghostTimer g \<and> \<not> chaserAt (nextHead h (nextDir1 g)) g \<longrightarrow>
               gameState g' = gameState g \<and> (\<exists>bd. snake1 g' = nextHead h (nextDir1 g) # bd)))
       \<and> (mode g = PVP \<and> snake2 g = h' # body'
            \<and> checkCollision (nextHead h' (nextDir2 g)) (snake2 g) \<longrightarrow>
            ((ghostTimer g = 0 \<or> ghostTimer g = 1)
               \<and> \<not> ghostPowerupAt (nextHead (hd (snake1 g)) (nextDir1 g)) g \<longrightarrow>
               gameState g' = GameOver \<and> snake2 g' = snake2 g \<and> \<not> p2Survived g')
          \<and> (1 < ghostTimer g \<longrightarrow>
               gameState g' = gameState g \<and> (\<exists>bd. snake2 g' = nextHead h' (nextDir2 g) # bd)))"
proof (intro conjI impI; (elim conjE)?)
  assume sn: "snake1 g = h # body" and hit: "checkCollision (nextHead h (nextDir1 g)) (snake1 g)"
    and gt: "ghostTimer g = 0 \<or> ghostTimer g = 1"
  from self_collision_dead [OF assms(1) sn gt hit assms(2)]
  show "gameState g' = GameOver" and "snake1 g' = snake1 g" by simp_all
  from self_collision_dead_flag [OF assms(1) sn gt hit assms(2)]
  show "\<not> p1Survived g'" .
next
  assume sn: "snake1 g = h # body" and gt: "1 < ghostTimer g"
    and nc: "\<not> chaserAt (nextHead h (nextDir1 g)) g"
  from ghost_no_death [OF assms(1) sn gt nc assms(2)]
  show "gameState g' = gameState g" and "\<exists>bd. snake1 g' = nextHead h (nextDir1 g) # bd"
    by simp_all
next
  assume pvp: "mode g = PVP" and sn2: "snake2 g = h' # body'"
    and hit: "checkCollision (nextHead h' (nextDir2 g)) (snake2 g)"
    and gt: "ghostTimer g = 0 \<or> ghostTimer g = 1"
    and ng: "\<not> ghostPowerupAt (nextHead (hd (snake1 g)) (nextDir1 g)) g"
  from self_collision_dead_P2 [OF assms(1) pvp sn2 gt ng hit assms(2)]
  show "gameState g' = GameOver" and "snake2 g' = snake2 g" and "\<not> p2Survived g'" by simp_all
next
  assume pvp: "mode g = PVP" and sn2: "snake2 g = h' # body'" and gt: "1 < ghostTimer g"
  from ghost_no_death_P2 [OF assms(1) pvp sn2 gt assms(2)]
  show "gameState g' = gameState g" and "\<exists>bd. snake2 g' = nextHead h' (nextDir2 g) # bd"
    by simp_all
qed

theorem self_collision_no_tail_exemption_witness:
  "tickDue 121 tailChase
   \<and> snake1 tailChase = \<lparr>px = 5, py = 5\<rparr> # [\<lparr>px = 5, py = 6\<rparr>, \<lparr>px = 6, py = 6\<rparr>, \<lparr>px = 6, py = 5\<rparr>]
   \<and> nextHead \<lparr>px = 5, py = 5\<rparr> (nextDir1 tailChase) = last (snake1 tailChase)
   \<and> checkCollision (nextHead \<lparr>px = 5, py = 5\<rparr> (nextDir1 tailChase)) (snake1 tailChase)
   \<and> ghostTimer tailChase = 0
   \<and> (\<exists>g'. update rndA 121 tailChase = Returns g'
            \<and> gameState g' = GameOver \<and> snake1 g' = snake1 tailChase \<and> \<not> p1Survived g')
   \<and> tickDue 121 tailChaseGhost
   \<and> snake1 tailChaseGhost = \<lparr>px = 5, py = 5\<rparr> # [\<lparr>px = 5, py = 6\<rparr>, \<lparr>px = 6, py = 6\<rparr>, \<lparr>px = 6, py = 5\<rparr>]
   \<and> checkCollision (nextHead \<lparr>px = 5, py = 5\<rparr> (nextDir1 tailChaseGhost)) (snake1 tailChaseGhost)
   \<and> 1 < ghostTimer tailChaseGhost
   \<and> \<not> chaserAt (nextHead \<lparr>px = 5, py = 5\<rparr> (nextDir1 tailChaseGhost)) tailChaseGhost
   \<and> (\<exists>g'. update rndA 121 tailChaseGhost = Returns g'
            \<and> gameState g' = Playing
            \<and> (\<exists>bd. snake1 g' = nextHead \<lparr>px = 5, py = 5\<rparr> (nextDir1 tailChaseGhost) # bd))
   \<and> tickDue 121 pvpTailChase \<and> mode pvpTailChase = PVP
   \<and> snake2 pvpTailChase = \<lparr>px = 5, py = 5\<rparr> # [\<lparr>px = 5, py = 6\<rparr>, \<lparr>px = 6, py = 6\<rparr>, \<lparr>px = 6, py = 5\<rparr>]
   \<and> nextHead \<lparr>px = 5, py = 5\<rparr> (nextDir2 pvpTailChase) = last (snake2 pvpTailChase)
   \<and> checkCollision (nextHead \<lparr>px = 5, py = 5\<rparr> (nextDir2 pvpTailChase)) (snake2 pvpTailChase)
   \<and> ghostTimer pvpTailChase = 0
   \<and> \<not> ghostPowerupAt (nextHead (hd (snake1 pvpTailChase)) (nextDir1 pvpTailChase)) pvpTailChase
   \<and> (\<exists>g'. update rndA 121 pvpTailChase = Returns g'
            \<and> gameState g' = GameOver \<and> snake2 g' = snake2 pvpTailChase \<and> \<not> p2Survived g')
   \<and> tickDue 121 pvpTailChaseGhost \<and> mode pvpTailChaseGhost = PVP
   \<and> snake2 pvpTailChaseGhost = \<lparr>px = 5, py = 5\<rparr> # [\<lparr>px = 5, py = 6\<rparr>, \<lparr>px = 6, py = 6\<rparr>, \<lparr>px = 6, py = 5\<rparr>]
   \<and> checkCollision (nextHead \<lparr>px = 5, py = 5\<rparr> (nextDir2 pvpTailChaseGhost)) (snake2 pvpTailChaseGhost)
   \<and> 1 < ghostTimer pvpTailChaseGhost
   \<and> (\<exists>g'. update rndA 121 pvpTailChaseGhost = Returns g'
            \<and> gameState g' = Playing
            \<and> (\<exists>bd. snake2 g' = nextHead \<lparr>px = 5, py = 5\<rparr> (nextDir2 pvpTailChaseGhost) # bd))"
proof -
  have a1: "tickDue 121 tailChase" by code_simp
  have a2: "snake1 tailChase = \<lparr>px = 5, py = 5\<rparr> # [\<lparr>px = 5, py = 6\<rparr>, \<lparr>px = 6, py = 6\<rparr>, \<lparr>px = 6, py = 5\<rparr>]"
    by code_simp
  have a3: "nextHead \<lparr>px = 5, py = 5\<rparr> (nextDir1 tailChase) = last (snake1 tailChase)" by code_simp
  have a4: "checkCollision (nextHead \<lparr>px = 5, py = 5\<rparr> (nextDir1 tailChase)) (snake1 tailChase)"
    by code_simp
  have a5: "ghostTimer tailChase = 0" by code_simp
  have b1: "tickDue 121 tailChaseGhost" by code_simp
  have b2: "snake1 tailChaseGhost = \<lparr>px = 5, py = 5\<rparr> # [\<lparr>px = 5, py = 6\<rparr>, \<lparr>px = 6, py = 6\<rparr>, \<lparr>px = 6, py = 5\<rparr>]"
    by code_simp
  have b4: "checkCollision (nextHead \<lparr>px = 5, py = 5\<rparr> (nextDir1 tailChaseGhost)) (snake1 tailChaseGhost)"
    by code_simp
  have b5: "1 < ghostTimer tailChaseGhost" by code_simp
  have b6: "\<not> chaserAt (nextHead \<lparr>px = 5, py = 5\<rparr> (nextDir1 tailChaseGhost)) tailChaseGhost"
    by code_simp
  have b7: "gameState tailChaseGhost = Playing" by code_simp
  have c1: "tickDue 121 pvpTailChase" by code_simp
  have c2: "mode pvpTailChase = PVP" by code_simp
  have c3: "snake2 pvpTailChase = \<lparr>px = 5, py = 5\<rparr> # [\<lparr>px = 5, py = 6\<rparr>, \<lparr>px = 6, py = 6\<rparr>, \<lparr>px = 6, py = 5\<rparr>]"
    by code_simp
  have c4: "nextHead \<lparr>px = 5, py = 5\<rparr> (nextDir2 pvpTailChase) = last (snake2 pvpTailChase)"
    by code_simp
  have c5: "checkCollision (nextHead \<lparr>px = 5, py = 5\<rparr> (nextDir2 pvpTailChase)) (snake2 pvpTailChase)"
    by code_simp
  have c6: "ghostTimer pvpTailChase = 0" by code_simp
  have c7: "\<not> ghostPowerupAt (nextHead (hd (snake1 pvpTailChase)) (nextDir1 pvpTailChase)) pvpTailChase"
    by code_simp
  have d1: "tickDue 121 pvpTailChaseGhost" by code_simp
  have d2: "mode pvpTailChaseGhost = PVP" by code_simp
  have d3: "snake2 pvpTailChaseGhost = \<lparr>px = 5, py = 5\<rparr> # [\<lparr>px = 5, py = 6\<rparr>, \<lparr>px = 6, py = 6\<rparr>, \<lparr>px = 6, py = 5\<rparr>]"
    by code_simp
  have d4: "checkCollision (nextHead \<lparr>px = 5, py = 5\<rparr> (nextDir2 pvpTailChaseGhost)) (snake2 pvpTailChaseGhost)"
    by code_simp
  have d5: "1 < ghostTimer pvpTailChaseGhost" by code_simp
  have d7: "gameState pvpTailChaseGhost = Playing" by code_simp
  define r where "r = tailChase\<lparr>moveTimer := 0, dir1 := \<lparr>px = 1, py = 0\<rparr>, pacmanMoveTick := 1,
                        gameState := GameOver, gameOverReason := ''GAME OVER'',
                        shakeFrame := 20, effects := [PlaySound SndDie]\<rparr>"
  have run: "update rndA 121 tailChase = Returns r" unfolding r_def by (rule tailChase_run)
  from self_collision_no_tail_exemption [OF a1 run, where h = "\<lparr>px = 5, py = 5\<rparr>"] a2 a4 a5
  have "gameState r = GameOver \<and> snake1 r = snake1 tailChase \<and> \<not> p1Survived r" by blast
  with run have A: "\<exists>g'. update rndA 121 tailChase = Returns g'
            \<and> gameState g' = GameOver \<and> snake1 g' = snake1 tailChase \<and> \<not> p1Survived g'" by blast
  define r' where "r' = tailChaseGhost\<lparr>moveTimer := 0, dir1 := \<lparr>px = 1, py = 0\<rparr>, pacmanMoveTick := 1,
                ghostTimer := 49,
                snake1 := [\<lparr>px = 6, py = 5\<rparr>, \<lparr>px = 5, py = 5\<rparr>, \<lparr>px = 5, py = 6\<rparr>, \<lparr>px = 6, py = 6\<rparr>]\<rparr>"
  have run': "update rndA 121 tailChaseGhost = Returns r'" unfolding r'_def by (rule tailChaseGhost_run)
  from self_collision_no_tail_exemption [OF b1 run', where h = "\<lparr>px = 5, py = 5\<rparr>"]
    b2 b4 b5 b6 b7
  have "gameState r' = Playing
        \<and> (\<exists>bd. snake1 r' = nextHead \<lparr>px = 5, py = 5\<rparr> (nextDir1 tailChaseGhost) # bd)" by simp
  with run' have B: "\<exists>g'. update rndA 121 tailChaseGhost = Returns g'
            \<and> gameState g' = Playing
            \<and> (\<exists>bd. snake1 g' = nextHead \<lparr>px = 5, py = 5\<rparr> (nextDir1 tailChaseGhost) # bd)"
    by blast
  define q where "q = pvpTailChase\<lparr>moveTimer := 0, snake1 := [\<lparr>px = 22, py = 9\<rparr>],
                           dir2 := \<lparr>px = 1, py = 0\<rparr>,
                           gameState := GameOver, gameOverReason := ''GREEN WINS!'',
                           shakeFrame := 20, effects := [PlaySound SndDie]\<rparr>"
  have runq: "update rndA 121 pvpTailChase = Returns q" unfolding q_def by (rule pvpTailChase_run)
  from self_collision_no_tail_exemption [OF c1 runq, where h' = "\<lparr>px = 5, py = 5\<rparr>"]
    c2 c3 c5 c6 c7
  have "gameState q = GameOver \<and> snake2 q = snake2 pvpTailChase \<and> \<not> p2Survived q" by blast
  with runq have C: "\<exists>g'. update rndA 121 pvpTailChase = Returns g'
            \<and> gameState g' = GameOver \<and> snake2 g' = snake2 pvpTailChase \<and> \<not> p2Survived g'" by blast
  define q' where "q' = pvpTailChaseGhost\<lparr>moveTimer := 0, ghostTimer := 49,
                snake1 := [\<lparr>px = 22, py = 9\<rparr>], dir2 := \<lparr>px = 1, py = 0\<rparr>,
                snake2 := [\<lparr>px = 6, py = 5\<rparr>, \<lparr>px = 5, py = 5\<rparr>, \<lparr>px = 5, py = 6\<rparr>, \<lparr>px = 6, py = 6\<rparr>]\<rparr>"
  have runq': "update rndA 121 pvpTailChaseGhost = Returns q'"
    unfolding q'_def by (rule pvpTailChaseGhost_run)
  from self_collision_no_tail_exemption [OF d1 runq', where h' = "\<lparr>px = 5, py = 5\<rparr>"]
    d2 d3 d4 d5 d7
  have "gameState q' = Playing
        \<and> (\<exists>bd. snake2 q' = nextHead \<lparr>px = 5, py = 5\<rparr> (nextDir2 pvpTailChaseGhost) # bd)" by simp
  with runq' have D: "\<exists>g'. update rndA 121 pvpTailChaseGhost = Returns g'
            \<and> gameState g' = Playing
            \<and> (\<exists>bd. snake2 g' = nextHead \<lparr>px = 5, py = 5\<rparr> (nextDir2 pvpTailChaseGhost) # bd)"
    by blast
  from a1 a2 a3 a4 a5 A b1 b2 b4 b5 b6 B c1 c2 c3 c4 c5 c6 c7 C d1 d2 d3 d4 d5 D
  show ?thesis by blast
qed

section \<open>Head-to-head\<close>

text \<open>
  C2 (as stated, refuted). The claim says that two coinciding next heads kill both snakes
  even while the ghost timer runs. Here both snakes move onto (11,5) with the ghost
  timer at 100: nobody dies, the round goes on with both heads on the same cell.
\<close>

theorem head_to_head_under_ghost_counterexample:
  "mode headOn = PVP \<and> gameState headOn = Playing \<and> ghostTimer headOn = 100
   \<and> nextHead \<lparr>px = 12, py = 5\<rparr> (nextDir1 headOn) = \<lparr>px = 11, py = 5\<rparr>
   \<and> nextHead \<lparr>px = 10, py = 5\<rparr> (nextDir2 headOn) = \<lparr>px = 11, py = 5\<rparr>
   \<and> update rndA 121 headOn =
       Returns (headOn\<lparr>moveTimer := 0, ghostTimer := 99,
                       snake1 := [\<lparr>px = 11, py = 5\<rparr>], snake2 := [\<lparr>px = 11, py = 5\<rparr>]\<rparr>)
   \<and> gameState (headOn\<lparr>moveTimer := 0, ghostTimer := 99,
                       snake1 := [\<lparr>px = 11, py = 5\<rparr>], snake2 := [\<lparr>px = 11, py = 5\<rparr>]\<rparr>) = Playing"
proof -
  have "mode headOn = PVP" "gameState headOn = Playing" "ghostTimer headOn = 100"
    "nextHead \<lparr>px = 12, py = 5\<rparr> (nextDir1 headOn) = \<lparr>px = 11, py = 5\<rparr>"
    "nextHead \<lparr>px = 10, py = 5\<rparr> (nextDir2 headOn) = \<lparr>px = 11, py = 5\<rparr>"
    "gameState (headOn\<lparr>moveTimer := 0, ghostTimer := 99,
                       snake1 := [\<lparr>px = 11, py = 5\<rparr>], snake2 := [\<lparr>px = 11, py = 5\<rparr>]\<rparr>) = Playing"
    by code_simp+
  with headOn_run show ?thesis by blast
qed

text \<open>
  C2 (amended). The head-to-head test stands under the same ghost guard as the two body
  tests. On a two-player tick in which both next heads coincide: if the ghost timer is
  zero when player 2 is checked (it was 0 or 1 at the call, and player 1 has not just
  collected a Ghost powerup on that cell), both snakes die and the round ends in a draw;
  while the ghost timer is running, nobody dies and the round goes on.
\<close>

theorem head_to_head_under_ghost_guard:
  assumes "tickDue dt g" and "mode g = PVP"
    and "snake1 g = h1 # b1" and "snake2 g = h2 # b2"
    and "nextHead h1 (nextDir1 g) = nextHead h2 (nextDir2 g)"
    and "update rnd dt g = Returns g'"
  shows "((ghostTimer g = 0 \<or> ghostTimer g = 1) \<and> \<not> ghostPowerupAt (nextHead h1 (nextDir1 g)) g \<longrightarrow>
            gameState g' = GameOver \<and> gameOverReason g' = ''DRAW!'')
       \<and> (1 < ghostTimer g \<longrightarrow>
            gameState g' = gameState g \<and> (\<exists>bd. snake1 g' = nextHead h1 (nextDir1 g) # bd))"
proof -
  from assms(2) have nc: "\<not> chaserAt (nextHead h1 (nextDir1 g)) g" by (simp add: chaserAt_def)
  show ?thesis
    using head_to_head_draw [OF assms(1,2,3,4) _ assms(5) _ assms(6)]
      ghost_no_death [OF assms(1,3) _ nc assms(6)]
    by blast
qed

theorem head_to_head_under_ghost_guard_witness:
  "tickDue 121 headOnNoGhost \<and> mode headOnNoGhost = PVP
   \<and> snake1 headOnNoGhost = \<lparr>px = 12, py = 5\<rparr> # []
   \<and> snake2 headOnNoGhost = \<lparr>px = 10, py = 5\<rparr> # []
   \<and> nextHead \<lparr>px = 12, py = 5\<rparr> (nextDir1 headOnNoGhost)
       = nextHead \<lparr>px = 10, py = 5\<rparr> (nextDir2 headOnNoGhost)
   \<and> ghostTimer headOnNoGhost = 0
   \<and> \<not> ghostPowerupAt (nextHead \<lparr>px = 12, py = 5\<rparr> (nextDir1 headOnNoGhost)) headOnNoGhost
   \<and> (\<exists>g'. update rndA 121 headOnNoGhost = Returns g'
            \<and> gameState g' = GameOver \<and> gameOverReason g' = ''DRAW!'')
   \<and> tickDue 121 headOn \<and> mode headOn = PVP
   \<and> snake1 headOn = \<lparr>px = 12, py = 5\<rparr> # [] \<and> snake2 headOn = \<lparr>px = 10, py = 5\<rparr> # []
   \<and> nextHead \<lparr>px = 12, py = 5\<rparr> (nextDir1 headOn) = nextHead \<lparr>px = 10, py = 5\<rparr> (nextDir2 headOn)
   \<and> 1 < ghostTimer headOn
   \<and> (\<exists>g'. update rndA 121 headOn = Returns g' \<and> gameState g' = Playing)"
proof -
  have a: "tickDue 121 headOnNoGhost" "mode headOnNoGhost = PVP"
    "snake1 headOnNoGhost = \<lparr>px = 12, py = 5\<rparr> # []"
    "snake2 headOnNoGhost = \<lparr>px = 10, py = 5\<rparr> # []"
    "nextHead \<lparr>px = 12, py = 5\<rparr> (nextDir1 headOnNoGhost)
       = nextHead \<lparr>px = 10, py = 5\<rparr> (nextDir2 headOnNoGhost)"
    by code_simp+
  have a': "ghostTimer headOnNoGhost = 0"
    "\<not> ghostPowerupAt (nextHead \<lparr>px = 12, py = 5\<rparr> (nextDir1 headOnNoGhost)) headOnNoGhost"
    by code_simp+
  have b: "tickDue 121 headOn" "mode headOn = PVP"
    "snake1 headOn = \<lparr>px = 12, py = 5\<rparr> # []" "snake2 headOn = \<lparr>px = 10, py = 5\<rparr> # []"
    "nextHead \<lparr>px = 12, py = 5\<rparr> (nextDir1 headOn) = nextHead \<lparr>px = 10, py = 5\<rparr> (nextDir2 headOn)"
    by code_simp+
  have b': "1 < ghostTimer headOn" "gameState headOn = Playing" by code_simp+
  define r where "r = headOnNoGhost\<lparr>moveTimer := 0, snake1 := [\<lparr>px = 11, py = 5\<rparr>],
                            gameState := GameOver, gameOverReason := ''DRAW!'',
                            shakeFrame := 20, effects := [PlaySound SndDie]\<rparr>"
  have run: "update rndA 121 headOnNoGhost = Returns r" unfolding r_def by (rule headOnNoGhost_run)
  from head_to_head_under_ghost_guard [OF a run] a'
  have "gameState r = GameOver \<and> gameOverReason r = ''DRAW!''" by blast
  with run have A: "\<exists>g'. update rndA 121 headOnNoGhost = Returns g'
            \<and> gameState g' = GameOver \<and> gameOverReason g' = ''DRAW!''" by blast
  define r' where "r' = headOn\<lparr>moveTimer := 0, ghostTimer := 99,
                     snake1 := [\<lparr>px = 11, py = 5\<rparr>], snake2 := [\<lparr>px = 11, py = 5\<rparr>]\<rparr>"
  have run': "update rndA 121 headOn = Returns r'" unfolding r'_def by (rule headOn_run)
  from head_to_head_under_ghost_guard [OF b run'] b'
  have "gameState r' = Playing" by simp
  with run' have B: "\<exists>g'. update rndA 121 headOn = Returns g' \<and> gameState g' = Playing"
    by blast
  from a a' A b b'(1) B show ?thesis by blast
qed

section \<open>Growth accounting\<close>

text \<open>
  C3 (as stated, refuted). The claim says that every move other than eating food leaves
  the body length unchanged. Here the head moves onto a powerup, not onto the food: the
  tail is kept, the body grows from 1 to 2 segments, and the score rises by 5.
\<close>

theorem powerup_move_grows_counterexample:
  "\<not> samePoint (nextHead \<lparr>px = 15, py = 10\<rparr> (nextDir1 ghostAhead)) (food ghostAhead)
   \<and> snake1 ghostAhead = [\<lparr>px = 15, py = 10\<rparr>]
   \<and> update rndA 121 ghostAhead =
       Returns (ghostAhead\<lparr>moveTimer := 0, pacmanMoveTick := 1, scoreP1 := 5, ghostTimer := 200,
                           snake1 := [\<lparr>px = 15, py = 9\<rparr>, \<lparr>px = 15, py = 10\<rparr>],
                           powerup := None, flashFrame := 10, shakeFrame := 10,
                           effects := [PlaySound SndPowerup]\<rparr>)"
proof -
  have "\<not> samePoint (nextHead \<lparr>px = 15, py = 10\<rparr> (nextDir1 ghostAhead)) (food ghostAhead)"
    "snake1 ghostAhead = [\<lparr>px = 15, py = 10\<rparr>]"
    by code_simp+
  with ghostAhead_run show ?thesis by blast
qed

text \<open>
  C3 (amended). On a tick that a snake survives: if the new head is on the food, the body
  grows by exactly 1 and the player's score by exactly 1 (player 1 gets 5 more when the
  same move consumes the frozen chaser); if the new head is on the powerup and not on the
  food, the tail is kept and the score rises by 5, the body growing by 1 unless the
  powerup is a Shrink, which cuts the grown body to \<open>max 3 (n div 2)\<close> when it has more
  than 3 segments; a move of player 1 that consumes the frozen chaser keeps the tail and
  adds 5; every other move leaves length and score unchanged. For player 2 the food and
  the powerup are those that player 1's move has left.
\<close>

theorem growth_accounting:
  assumes "tickDue dt g" and "update rnd dt g = Returns g'" and "snake1 g = h # body"
  shows "(p1Survived g' \<longrightarrow>
           (samePoint (nextHead h (nextDir1 g)) (food g) \<longrightarrow>
              length (snake1 g') = length (snake1 g) + 1
              \<and> scoreP1 g' = scoreP1 g + 1 + (if eatsChaser (nextHead h (nextDir1 g)) g then 5 else 0))
         \<and> (\<not> samePoint (nextHead h (nextDir1 g)) (food g)
              \<and> powerupAt (nextHead h (nextDir1 g)) g = None \<longrightarrow>
              length (snake1 g') = length (snake1 g) + (if eatsChaser (nextHead h (nextDir1 g)) g then 1 else 0)
              \<and> scoreP1 g' = scoreP1 g + (if eatsChaser (nextHead h (nextDir1 g)) g then 5 else 0))
         \<and> (\<forall>pu. \<not> samePoint (nextHead h (nextDir1 g)) (food g)
                \<and> powerupAt (nextHead h (nextDir1 g)) g = Some pu \<longrightarrow>
              length (snake1 g') = lengthAfterPowerup (ptype pu) (length (snake1 g) + 1)
              \<and> scoreP1 g' = scoreP1 g + 5 + (if eatsChaser (nextHead h (nextDir1 g)) g then 5 else 0)))
       \<and> (mode g = PVP \<and> p2Survived g' \<longrightarrow>
           (\<exists>g3 head1 d1 h2 b2.
               moveP1 rnd (commitDirs (handleTimers dt g)) = Returns (g3, head1, d1)
             \<and> snake2 g = h2 # b2
             \<and> (samePoint (nextHead h2 (nextDir2 g)) (food g3) \<longrightarrow>
                   length (snake2 g') = length (snake2 g) + 1 \<and> scoreP2 g' = scoreP2 g + 1)
             \<and> (\<not> samePoint (nextHead h2 (nextDir2 g)) (food g3)
                  \<and> powerupAt (nextHead h2 (nextDir2 g)) g3 = None \<longrightarrow>
                   length (snake2 g') = length (snake2 g) \<and> scoreP2 g' = scoreP2 g)
             \<and> (\<forall>pu. \<not> samePoint (nextHead h2 (nextDir2 g)) (food g3)
                    \<and> powerupAt (nextHead h2 (nextDir2 g)) g3 = Some pu \<longrightarrow>
                   length (snake2 g') = lengthAfterPowerup (ptype pu) (length (snake2 g) + 1)
                   \<and> scoreP2 g' = scoreP2 g + 5)))"
  apply (rule conjI)
   apply (rule impI, erule growth_P1 [OF assms(1,2,3)])
  apply (rule impI, erule conjE, erule (1) growth_P2 [OF assms(1,2)])
  done

theorem growth_accounting_witness:
  "tickDue 121 foodAhead \<and> snake1 foodAhead = \<lparr>px = 15, py = 10\<rparr> # []
   \<and> samePoint (nextHead \<lparr>px = 15, py = 10\<rparr> (nextDir1 foodAhead)) (food foodAhead)
   \<and> \<not> eatsChaser (nextHead \<lparr>px = 15, py = 10\<rparr> (nextDir1 foodAhead)) foodAhead
   \<and> (\<exists>g'. update rndC 121 foodAhead = Returns g' \<and> p1Survived g'
            \<and> length (snake1 g') = length (snake1 foodAhead) + 1
            \<and> scoreP1 g' = scoreP1 foodAhead + 1)
   \<and> tickDue 121 baseGame \<and> snake1 baseGame = \<lparr>px = 15, py = 10\<rparr> # []
   \<and> \<not> samePoint (nextHead \<lparr>px = 15, py = 10\<rparr> (nextDir1 baseGame)) (food baseGame)
   \<and> powerupAt (nextHead \<lparr>px = 15, py = 10\<rparr> (nextDir1 baseGame)) baseGame = None
   \<and> \<not> eatsChaser (nextHead \<lparr>px = 15, py = 10\<rparr> (nextDir1 baseGame)) baseGame
   \<and> (\<exists>g'. update rndA 121 baseGame = Returns g' \<and> p1Survived g'
            \<and> length (snake1 g') = length (snake1 baseGame)
            \<and> scoreP1 g' = scoreP1 baseGame)
   \<and> tickDue 121 ghostAhead \<and> snake1 ghostAhead = \<lparr>px = 15, py = 10\<rparr> # []
   \<and> \<not> samePoint (nextHead \<lparr>px = 15, py = 10\<rparr> (nextDir1 ghostAhead)) (food ghostAhead)
   \<and> powerupAt (nextHead \<lparr>px = 15, py = 10\<rparr> (nextDir1 ghostAhead)) ghostAhead
        = Some \<lparr>px = 15, py = 9, ptype = Some GHOST\<rparr>
   \<and> (\<exists>g'. update rndA 121 ghostAhead = Returns g' \<and> p1Survived g'
            \<and> length (snake1 g') = lengthAfterPowerup (Some GHOST) (length (snake1 ghostAhead) + 1)
            \<and> scoreP1 g' = scoreP1 ghostAhead + 5)
   \<and> tickDue 121 pvpFood \<and> mode pvpFood = PVP
   \<and> snake1 pvpFood = \<lparr>px = 22, py = 10\<rparr> # [] \<and> snake2 pvpFood = \<lparr>px = 7, py = 10\<rparr> # []
   \<and> (\<exists>g3 head1 d1. moveP1 rndC (commitDirs (handleTimers 121 pvpFood)) = Returns (g3, head1, d1)
            \<and> samePoint (nextHead \<lparr>px = 7, py = 10\<rparr> (nextDir2 pvpFood)) (food g3))
   \<and> (\<exists>g'. update rndC 121 pvpFood = Returns g' \<and> p2Survived g'
            \<and> length (snake2 g') = length (snake2 pvpFood) + 1
            \<and> scoreP2 g' = scoreP2 pvpFood + 1)"
proof -
  let ?hA = "nextHead \<lparr>px = 15, py = 10\<rparr> (nextDir1 foodAhead)"
  have a: "tickDue 121 foodAhead" "snake1 foodAhead = \<lparr>px = 15, py = 10\<rparr> # []"
    "samePoint ?hA (food foodAhead)" "\<not> eatsChaser ?hA foodAhead"
    by code_simp+
  define rA where "rA = foodAhead\<lparr>moveTimer := 0, pacmanMoveTick := 1, scoreP1 := 1,
                        moveInterval := 119, baseMoveInterval := 119,
                        snake1 := [\<lparr>px = 15, py = 9\<rparr>, \<lparr>px = 15, py = 10\<rparr>],
                        food := \<lparr>px = 25, py = 3\<rparr>, shakeFrame := 3,
                        effects := [PlaySound SndEat, SpawnParticles 15 9 ColP1 8],
                        rngUsed := 3\<rparr>"
  have ra: "update rndC 121 foodAhead = Returns rA" unfolding rA_def by (rule foodAhead_run)
  have sa: "p1Survived rA" unfolding rA_def by code_simp
  from growth_accounting [OF a(1) ra a(2)] sa a(3,4)
  have A: "length (snake1 rA) = length (snake1 foodAhead) + 1 \<and> scoreP1 rA = scoreP1 foodAhead + 1"
    by simp
  let ?hB = "nextHead \<lparr>px = 15, py = 10\<rparr> (nextDir1 baseGame)"
  have b: "tickDue 121 baseGame" "snake1 baseGame = \<lparr>px = 15, py = 10\<rparr> # []"
    "\<not> samePoint ?hB (food baseGame)" "powerupAt ?hB baseGame = None"
    "\<not> eatsChaser ?hB baseGame"
    by code_simp+
  define rB where "rB = baseGame\<lparr>moveTimer := 0, pacmanMoveTick := 1, snake1 := [\<lparr>px = 15, py = 9\<rparr>]\<rparr>"
  have rb: "update rndA 121 baseGame = Returns rB" unfolding rB_def by (rule baseGame_run)
  have sb: "p1Survived rB" unfolding rB_def by code_simp
  from growth_accounting [OF b(1) rb b(2)] sb b(3,4,5)
  have B: "length (snake1 rB) = length (snake1 baseGame) \<and> scoreP1 rB = scoreP1 baseGame"
    by simp
  let ?hG = "nextHead \<lparr>px = 15, py = 10\<rparr> (nextDir1 ghostAhead)"
  have c: "tickDue 121 ghostAhead" "snake1 ghostAhead = \<lparr>px = 15, py = 10\<rparr> # []"
    "\<not> samePoint ?hG (food ghostAhead)"
    "powerupAt ?hG ghostAhead = Some \<lparr>px = 15, py = 9, ptype = Some GHOST\<rparr>"
    "\<not> eatsChaser ?hG ghostAhead"
    by code_simp+
  define rG where "rG = ghostAhead\<lparr>moveTimer := 0, pacmanMoveTick := 1, scoreP1 := 5, ghostTimer := 200,
                         snake1 := [\<lparr>px = 15, py = 9\<rparr>, \<lparr>px = 15, py = 10\<rparr>],
                         powerup := None, flashFrame := 10, shakeFrame := 10,
                         effects := [PlaySound SndPowerup]\<rparr>"
  have rg: "update rndA 121 ghostAhead = Returns rG" unfolding rG_def by (rule ghostAhead_run)
  have sg: "p1Survived rG" unfolding rG_def by code_simp
  from growth_accounting [OF c(1) rg c(2)] sg c(3,4,5)
  have G: "length (snake1 rG) = lengthAfterPowerup (Some GHOST) (length (snake1 ghostAhead) + 1)
           \<and> scoreP1 rG = scoreP1 ghostAhead + 5"
    by simp
  have d: "tickDue 121 pvpFood" "mode pvpFood = PVP"
    "snake1 pvpFood = \<lparr>px = 22, py = 10\<rparr> # []" "snake2 pvpFood = \<lparr>px = 7, py = 10\<rparr> # []"
    by code_simp+
  define g3 where "g3 = pvpFood\<lparr>moveTimer := 0, snake1 := [\<lparr>px = 22, py = 9\<rparr>]\<rparr>"
  have m: "moveP1 rndC (commitDirs (handleTimers 121 pvpFood)) = Returns (g3, \<lparr>px = 22, py = 9\<rparr>, False)"
    unfolding g3_def by (rule pvpFood_moveP1)
  have f3: "samePoint (nextHead \<lparr>px = 7, py = 10\<rparr> (nextDir2 pvpFood)) (food g3)"
    unfolding g3_def by code_simp
  define rP where "rP = pvpFood\<lparr>moveTimer := 0, scoreP2 := 1, moveInterval := 119, baseMoveInterval := 119,
                      snake1 := [\<lparr>px = 22, py = 9\<rparr>],
                      snake2 := [\<lparr>px = 7, py = 9\<rparr>, \<lparr>px = 7, py = 10\<rparr>],
                      food := \<lparr>px = 25, py = 3\<rparr>, shakeFrame := 3,
                      effects := [PlaySound SndEat, SpawnParticles 7 9 ColP2 8], rngUsed := 2\<rparr>"
  have rp: "update rndC 121 pvpFood = Returns rP" unfolding rP_def by (rule pvpFood_run)
  have sp: "p2Survived rP" unfolding rP_def by code_simp
  from growth_accounting [OF d(1) rp d(3)] d(2) sp m d(4) f3
  have P: "length (snake2 rP) = length (snake2 pvpFood) + 1 \<and> scoreP2 rP = scoreP2 pvpFood + 1"
    by auto
  from a ra sa A b rb sb B c(1-4) rg sg G d m f3 rp sp P show ?thesis by blast
qed

section \<open>Direction intents\<close>

lemma handleInput_keys2:
  assumes "gameState g = Playing" "mode g = PVP"
  shows "nextDir2 (handleInput ''w'' g) = (if py (dir2 g) = 0 then \<lparr>px = 0, py = - 1\<rparr> else nextDir2 g)"
    and "nextDir2 (handleInput ''s'' g) = (if py (dir2 g) = 0 then \<lparr>px = 0, py = 1\<rparr> else nextDir2 g)"
    and "nextDir2 (handleInput ''a'' g) = (if px (dir2 g) = 0 then \<lparr>px = - 1, py = 0\<rparr> else nextDir2 g)"
    and "nextDir2 (handleInput ''d'' g) = (if px (dir2 g) = 0 then \<lparr>px = 1, py = 0\<rparr> else nextDir2 g)"
  using assms by (simp_all add: handleInput_def Let_def)

text \<open>The joystick sets the pending direction of player 1 only, and a key whose test fails
  leaves the whole state as it was.\<close>

lemma handleJoystick_next:
  "handleJoystick dx dy g =
     g\<lparr>nextDir1 := (if dy \<noteq> 0 \<and> py (dir1 g) = 0 then \<lparr>px = 0, py = dy\<rparr>
                    else if dx \<noteq> 0 \<and> px (dir1 g) = 0 then \<lparr>px = dx, py = 0\<rparr>
                    else nextDir1 g)\<rparr>"
  by (simp add: handleJoystick_def Let_def)

lemma handleInput_ignored1:
  assumes "gameState g = Playing"
  shows "py (dir1 g) \<noteq> 0 \<Longrightarrow> handleInput ''arrowup'' g = g"
    and "py (dir1 g) \<noteq> 0 \<Longrightarrow> handleInput ''arrowdown'' g = g"
    and "px (dir1 g) \<noteq> 0 \<Longrightarrow> handleInput ''arrowleft'' g = g"
    and "px (dir1 g) \<noteq> 0 \<Longrightarrow> handleInput ''arrowright'' g = g"
  using assms by (simp_all add: handleInput_def Let_def)

lemma handleInput_ignored2:
  assumes "gameState g = Playing" "mode g = PVP"
  shows "py (dir2 g) \<noteq> 0 \<Longrightarrow> handleInput ''w'' g = g"
    and "py (dir2 g) \<noteq> 0 \<Longrightarrow> handleInput ''s'' g = g"
    and "px (dir2 g) \<noteq> 0 \<Longrightarrow> handleInput ''a'' g = g"
    and "px (dir2 g) \<noteq> 0 \<Longrightarrow> handleInput ''d'' g = g"
  using assms by (simp_all add: handleInput_def Let_def)

text \<open>A round starts with pending and committed directions equal (up), and a direction
  other than the zero vector is never its own opposite: the two facts that make the
  premise of the no-reversal statement below hold at the start of a round and after
  every tick.\<close>

lemma resetGame_dirs:
  assumes "resetGame rnd newMode g0 = Returns g"
  shows "dir1 g = \<lparr>px = 0, py = - 1\<rparr> \<and> nextDir1 g = dir1 g
       \<and> (newMode = PVP \<longrightarrow> dir2 g = \<lparr>px = 0, py = - 1\<rparr> \<and> nextDir2 g = dir2 g)"
  using assms unfolding resetGame_def Let_def
  by (auto simp: andThen_Returns_iff placeItemG_def split: if_splits option.splits)

lemma nonzero_not_opposite: "d \<noteq> \<lparr>px = 0, py = 0\<rparr> \<Longrightarrow> d \<noteq> opposite d"
proof
  assume nz: "d \<noteq> \<lparr>px = 0, py = 0\<rparr>" and eq: "d = opposite d"
  from eq have "px d = px (opposite d)" by (rule arg_cong)
  then have x: "px d = 0" by (simp add: opposite_def)
  from eq have "py d = py (opposite d)" by (rule arg_cong)
  then have y: "py d = 0" by (simp add: opposite_def)
  from x y have "px d = 0" "py d = 0" .
  then have "d = \<lparr>px = 0, py = 0\<rparr>" by simp
  with nz show False by simp
qed

text \<open>
  C5 (as stated, refuted). The claim says that an intent is accepted exactly when it is
  not the direct opposite of the committed direction. Here the committed direction is up
  and a left turn is pending; the intent "up" is not the opposite of the committed
  direction, and it is ignored: the pending direction stays left.
\<close>

theorem same_direction_intent_ignored_counterexample:
  "gameState turningLeft = Playing
   \<and> dir1 turningLeft = \<lparr>px = 0, py = - 1\<rparr>
   \<and> \<lparr>px = 0, py = - 1\<rparr> \<noteq> opposite (dir1 turningLeft)
   \<and> nextDir1 turningLeft = \<lparr>px = - 1, py = 0\<rparr>
   \<and> nextDir1 (handleInput ''arrowup'' turningLeft) = \<lparr>px = - 1, py = 0\<rparr>"
proof -
  have "gameState turningLeft = Playing" "dir1 turningLeft = \<lparr>px = 0, py = - 1\<rparr>"
    "\<lparr>px = 0, py = - 1\<rparr> \<noteq> opposite (dir1 turningLeft)"
    "nextDir1 turningLeft = \<lparr>px = - 1, py = 0\<rparr>"
    "nextDir1 (handleInput ''arrowup'' turningLeft) = \<lparr>px = - 1, py = 0\<rparr>"
    by code_simp+
  then show ?thesis by blast
qed

text \<open>
  C5 (amended). A direction intent, from a key while playing or from the joystick, is
  accepted exactly when it is perpendicular to the snake's committed direction (the
  committed direction has no component along the intent's axis); an intent along the
  committed axis, the opposite direction and the same direction alike, is ignored with no
  error and leaves the state as it was. The joystick steers player 1 only; of a call with
  both components set, each is tested on its own and the vertical one is applied last.
  Consequently, after any sequence of key and joystick intents followed by a tick, a
  snake's committed direction is never the exact opposite of its committed direction
  before the tick (given that its pending direction was not, as after a tick or a reset),
  and pending and committed directions agree again.
\<close>

theorem intent_accepted_iff_perpendicular:
  "(gameState g = Playing \<longrightarrow>
      nextDir1 (handleInput ''arrowup'' g) = (if py (dir1 g) = 0 then \<lparr>px = 0, py = - 1\<rparr> else nextDir1 g)
    \<and> nextDir1 (handleInput ''arrowdown'' g) = (if py (dir1 g) = 0 then \<lparr>px = 0, py = 1\<rparr> else nextDir1 g)
    \<and> nextDir1 (handleInput ''arrowleft'' g) = (if px (dir1 g) = 0 then \<lparr>px = - 1, py = 0\<rparr> else nextDir1 g)
    \<and> nextDir1 (handleInput ''arrowright'' g) = (if px (dir1 g) = 0 then \<lparr>px = 1, py = 0\<rparr> else nextDir1 g))
   \<and> (gameState g = Playing \<and> mode g = PVP \<longrightarrow>
      nextDir2 (handleInput ''w'' g) = (if py (dir2 g) = 0 then \<lparr>px = 0, py = - 1\<rparr> else nextDir2 g)
    \<and> nextDir2 (handleInput ''s'' g) = (if py (dir2 g) = 0 then \<lparr>px = 0, py = 1\<rparr> else nextDir2 g)
    \<and> nextDir2 (handleInput ''a'' g) = (if px (dir2 g) = 0 then \<lparr>px = - 1, py = 0\<rparr> else nextDir2 g)
    \<and> nextDir2 (handleInput ''d'' g) = (if px (dir2 g) = 0 then \<lparr>px = 1, py = 0\<rparr> else nextDir2 g))
   \<and> handleJoystick dx dy g =
        g\<lparr>nextDir1 := (if dy \<noteq> 0 \<and> py (dir1 g) = 0 then \<lparr>px = 0, py = dy\<rparr>
                       else if dx \<noteq> 0 \<and> px (dir1 g) = 0 then \<lparr>px = dx, py = 0\<rparr>
                       else nextDir1 g)\<rparr>
   \<and> (gameState g = Playing \<and> py (dir1 g) \<noteq> 0 \<longrightarrow>
        handleInput ''arrowup'' g = g \<and> handleInput ''arrowdown'' g = g)
   \<and> (gameState g = Playing \<and> px (dir1 g) \<noteq> 0 \<longrightarrow>
        handleInput ''arrowleft'' g = g \<and> handleInput ''arrowright'' g = g)
   \<and> (gameState g = Playing \<and> mode g = PVP \<and> py (dir2 g) \<noteq> 0 \<longrightarrow>
        handleInput ''w'' g = g \<and> handleInput ''s'' g = g)
   \<and> (gameState g = Playing \<and> mode g = PVP \<and> px (dir2 g) \<noteq> 0 \<longrightarrow>
        handleInput ''a'' g = g \<and> handleInput ''d'' g = g)
   \<and> (tickDue dt (fold applyInput ins g) \<and> update rnd dt (fold applyInput ins g) = Returns g' \<longrightarrow>
        (nextDir1 g \<noteq> opposite (dir1 g) \<longrightarrow> dir1 g' \<noteq> opposite (dir1 g))
      \<and> (mode g = PVP \<and> nextDir2 g \<noteq> opposite (dir2 g) \<longrightarrow> dir2 g' \<noteq> opposite (dir2 g))
      \<and> nextDir1 g' = dir1 g' \<and> (mode g = PVP \<longrightarrow> nextDir2 g' = dir2 g'))"
proof -
  have k1: "gameState g = Playing \<longrightarrow>
      nextDir1 (handleInput ''arrowup'' g) = (if py (dir1 g) = 0 then \<lparr>px = 0, py = - 1\<rparr> else nextDir1 g)
    \<and> nextDir1 (handleInput ''arrowdown'' g) = (if py (dir1 g) = 0 then \<lparr>px = 0, py = 1\<rparr> else nextDir1 g)
    \<and> nextDir1 (handleInput ''arrowleft'' g) = (if px (dir1 g) = 0 then \<lparr>px = - 1, py = 0\<rparr> else nextDir1 g)
    \<and> nextDir1 (handleInput ''arrowright'' g) = (if px (dir1 g) = 0 then \<lparr>px = 1, py = 0\<rparr> else nextDir1 g)"
    by (rule impI, intro conjI, (erule handleInput_keys)+)
  have k2: "gameState g = Playing \<and> mode g = PVP \<longrightarrow>
      nextDir2 (handleInput ''w'' g) = (if py (dir2 g) = 0 then \<lparr>px = 0, py = - 1\<rparr> else nextDir2 g)
    \<and> nextDir2 (handleInput ''s'' g) = (if py (dir2 g) = 0 then \<lparr>px = 0, py = 1\<rparr> else nextDir2 g)
    \<and> nextDir2 (handleInput ''a'' g) = (if px (dir2 g) = 0 then \<lparr>px = - 1, py = 0\<rparr> else nextDir2 g)
    \<and> nextDir2 (handleInput ''d'' g) = (if px (dir2 g) = 0 then \<lparr>px = 1, py = 0\<rparr> else nextDir2 g)"
    by (rule impI, erule conjE, intro conjI, (erule (1) handleInput_keys2)+)
  have i1: "gameState g = Playing \<and> py (dir1 g) \<noteq> 0 \<longrightarrow>
        handleInput ''arrowup'' g = g \<and> handleInput ''arrowdown'' g = g"
    using handleInput_ignored1(1,2) [of g] by blast
  have i2: "gameState g = Playing \<and> px (dir1 g) \<noteq> 0 \<longrightarrow>
        handleInput ''arrowleft'' g = g \<and> handleInput ''arrowright'' g = g"
    using handleInput_ignored1(3,4) [of g] by blast
  have i3: "gameState g = Playing \<and> mode g = PVP \<and> py (dir2 g) \<noteq> 0 \<longrightarrow>
        handleInput ''w'' g = g \<and> handleInput ''s'' g = g"
    using handleInput_ignored2(1,2) [of g] by blast
  have i4: "gameState g = Playing \<and> mode g = PVP \<and> px (dir2 g) \<noteq> 0 \<longrightarrow>
        handleInput ''a'' g = g \<and> handleInput ''d'' g = g"
    using handleInput_ignored2(3,4) [of g] by blast
  have nr: "tickDue dt (fold applyInput ins g) \<and> update rnd dt (fold applyInput ins g) = Returns g' \<longrightarrow>
        (nextDir1 g \<noteq> opposite (dir1 g) \<longrightarrow> dir1 g' \<noteq> opposite (dir1 g))
      \<and> (mode g = PVP \<and> nextDir2 g \<noteq> opposite (dir2 g) \<longrightarrow> dir2 g' \<noteq> opposite (dir2 g))
      \<and> nextDir1 g' = dir1 g' \<and> (mode g = PVP \<longrightarrow> nextDir2 g' = dir2 g')"
    by (rule impI, erule conjE, erule (1) no_reversal)
  from k1 k2 handleJoystick_next [of dx dy g] i1 i2 i3 i4 nr show ?thesis
    by (intro conjI)
qed

theorem intent_accepted_iff_perpendicular_witness:
  "gameState baseGame = Playing \<and> dir1 baseGame = \<lparr>px = 0, py = - 1\<rparr>
   \<and> nextDir1 (handleInput ''arrowleft'' baseGame) = \<lparr>px = - 1, py = 0\<rparr>
   \<and> nextDir1 (handleInput ''arrowdown'' baseGame) = nextDir1 baseGame
   \<and> handleInput ''arrowdown'' baseGame = baseGame
   \<and> nextDir1 (handleInput ''arrowup'' turningLeft) = nextDir1 turningLeft
   \<and> nextDir1 (handleJoystick (- 1) 0 baseGame) = \<lparr>px = - 1, py = 0\<rparr>
   \<and> handleJoystick 0 1 baseGame = baseGame
   \<and> handleJoystick 0 (- 1) turningLeft = turningLeft
   \<and> gameState pvpFood = Playing \<and> mode pvpFood = PVP \<and> dir2 pvpFood = \<lparr>px = 0, py = - 1\<rparr>
   \<and> nextDir2 (handleInput ''a'' pvpFood) = \<lparr>px = - 1, py = 0\<rparr>
   \<and> nextDir2 (handleInput ''s'' pvpFood) = nextDir2 pvpFood
   \<and> handleInput ''s'' pvpFood = pvpFood
   \<and> tickDue 121 (fold applyInput [Key ''arrowleft'', Key ''arrowdown'', Joystick 0 (- 1)] baseGame)
   \<and> nextDir1 baseGame \<noteq> opposite (dir1 baseGame)
   \<and> (\<exists>g'. update rndA 121 (fold applyInput [Key ''arrowleft'', Key ''arrowdown'', Joystick 0 (- 1)] baseGame)
              = Returns g'
            \<and> dir1 g' \<noteq> opposite (dir1 baseGame) \<and> nextDir1 g' = dir1 g')
   \<and> tickDue 121 (fold applyInput [Key ''a'', Key ''s'', Key ''arrowright''] pvpFood)
   \<and> nextDir2 pvpFood \<noteq> opposite (dir2 pvpFood)
   \<and> (\<exists>g'. update rndC 121 (fold applyInput [Key ''a'', Key ''s'', Key ''arrowright''] pvpFood)
              = Returns g'
            \<and> dir2 g' \<noteq> opposite (dir2 pvpFood) \<and> nextDir2 g' = dir2 g')"
proof -
  have a: "gameState baseGame = Playing" "dir1 baseGame = \<lparr>px = 0, py = - 1\<rparr>"
    "px (dir1 baseGame) = 0" "py (dir1 baseGame) \<noteq> 0"
    "gameState turningLeft = Playing" "py (dir1 turningLeft) \<noteq> 0"
    by code_simp+
  have b: "gameState pvpFood = Playing" "mode pvpFood = PVP" "dir2 pvpFood = \<lparr>px = 0, py = - 1\<rparr>"
    "px (dir2 pvpFood) = 0" "py (dir2 pvpFood) \<noteq> 0"
    by code_simp+
  note T = intent_accepted_iff_perpendicular [where dt = 0 and ins = "[]" and rnd = rndA and g' = baseGame]
  from T [where g = baseGame and dx = "- 1" and dy = 0] a
  have K1: "nextDir1 (handleInput ''arrowleft'' baseGame) = \<lparr>px = - 1, py = 0\<rparr>"
    "nextDir1 (handleInput ''arrowdown'' baseGame) = nextDir1 baseGame"
    "handleInput ''arrowdown'' baseGame = baseGame"
    by simp_all
  from T [where g = baseGame and dx = "- 1" and dy = 0] a(3,4)
  have "handleJoystick (- 1) 0 baseGame = baseGame\<lparr>nextDir1 := \<lparr>px = - 1, py = 0\<rparr>\<rparr>" by simp
  then have J1: "nextDir1 (handleJoystick (- 1) 0 baseGame) = \<lparr>px = - 1, py = 0\<rparr>" by simp
  from T [where g = baseGame and dx = 0 and dy = 1] a(3,4)
  have J2: "handleJoystick 0 1 baseGame = baseGame" by simp
  from T [where g = turningLeft and dx = 0 and dy = "- 1"] a
  have K2: "nextDir1 (handleInput ''arrowup'' turningLeft) = nextDir1 turningLeft"
    and J3: "handleJoystick 0 (- 1) turningLeft = turningLeft"
    by simp_all
  from T [where g = pvpFood and dx = 0 and dy = 0] b
  have K3: "nextDir2 (handleInput ''a'' pvpFood) = \<lparr>px = - 1, py = 0\<rparr>"
    "nextDir2 (handleInput ''s'' pvpFood) = nextDir2 pvpFood"
    "handleInput ''s'' pvpFood = pvpFood"
    by simp_all
  let ?i1 = "[Key ''arrowleft'', Key ''arrowdown'', Joystick 0 (- 1)]"
  have c: "tickDue 121 (fold applyInput ?i1 baseGame)" "nextDir1 baseGame \<noteq> opposite (dir1 baseGame)"
    by code_simp+
  define r where "r = baseGame\<lparr>moveTimer := 0, pacmanMoveTick := 1, snake1 := [\<lparr>px = 14, py = 10\<rparr>],
                       dir1 := \<lparr>px = - 1, py = 0\<rparr>, nextDir1 := \<lparr>px = - 1, py = 0\<rparr>\<rparr>"
  have run: "update rndA 121 (fold applyInput ?i1 baseGame) = Returns r"
    unfolding r_def by (rule inputs_run)
  from intent_accepted_iff_perpendicular
         [where g = baseGame and dt = 121 and ins = ?i1 and rnd = rndA and g' = r] c run
  have "dir1 r \<noteq> opposite (dir1 baseGame) \<and> nextDir1 r = dir1 r" by blast
  with run have T1: "\<exists>g'. update rndA 121 (fold applyInput ?i1 baseGame) = Returns g'
            \<and> dir1 g' \<noteq> opposite (dir1 baseGame) \<and> nextDir1 g' = dir1 g'" by blast
  let ?i2 = "[Key ''a'', Key ''s'', Key ''arrowright'']"
  have d: "tickDue 121 (fold applyInput ?i2 pvpFood)" "nextDir2 pvpFood \<noteq> opposite (dir2 pvpFood)"
    by code_simp+
  define r' where "r' = pvpFood\<lparr>moveTimer := 0,
                      snake1 := [\<lparr>px = 23, py = 10\<rparr>],
                      dir1 := \<lparr>px = 1, py = 0\<rparr>, nextDir1 := \<lparr>px = 1, py = 0\<rparr>,
                      snake2 := [\<lparr>px = 6, py = 10\<rparr>],
                      dir2 := \<lparr>px = - 1, py = 0\<rparr>, nextDir2 := \<lparr>px = - 1, py = 0\<rparr>\<rparr>"
  have run': "update rndC 121 (fold applyInput ?i2 pvpFood) = Returns r'"
    unfolding r'_def by (rule pvp_inputs_run)
  from intent_accepted_iff_perpendicular
         [where g = pvpFood and dt = 121 and ins = ?i2 and rnd = rndC and g' = r'] d run' b(2)
  have "dir2 r' \<noteq> opposite (dir2 pvpFood) \<and> nextDir2 r' = dir2 r'" by blast
  with run' have T2: "\<exists>g'. update rndC 121 (fold applyInput ?i2 pvpFood) = Returns g'
            \<and> dir2 g' \<noteq> opposite (dir2 pvpFood) \<and> nextDir2 g' = dir2 g'" by blast
  from a(1,2) K1 K2 J1 J2 J3 b(1,2,3) K3 c T1 d T2 show ?thesis by blast
qed

section \<open>The ghost timer\<close>

text \<open>
  C10. There is one ghost timer for both snakes. When either snake collects a Ghost
  powerup on a tick it survives, the timer is set to its full duration; and on every call
  of the update in two-player mode with the timer running (above 1, so that it is not
  zero after this call's decrement) neither snake dies, whatever its head runs into, and
  the timer goes down by one unless a Ghost powerup sets it again.
\<close>

theorem shared_ghost_timer:
  "(tickDue dt g \<and> update rnd dt g = Returns g' \<and> snake1 g = h # body \<and> p1Survived g'
      \<and> \<not> samePoint (nextHead h (nextDir1 g)) (food g)
      \<and> ghostPowerupAt (nextHead h (nextDir1 g)) g \<longrightarrow>
      ghostTimer g' = GHOST_DURATION)
   \<and> (tickDue dt g \<and> update rnd dt g = Returns g' \<and> mode g = PVP \<and> p2Survived g' \<longrightarrow>
        (\<exists>g3 head1 d1 h2 b2.
            moveP1 rnd (commitDirs (handleTimers dt g)) = Returns (g3, head1, d1)
          \<and> snake2 g = h2 # b2
          \<and> (\<not> samePoint (nextHead h2 (nextDir2 g)) (food g3)
               \<and> ghostPowerupAt (nextHead h2 (nextDir2 g)) g3 \<longrightarrow>
                ghostTimer g' = GHOST_DURATION)))
   \<and> (mode g = PVP \<and> 1 < ghostTimer g \<and> update rnd dt g = Returns g' \<longrightarrow>
        gameState g' = gameState g
        \<and> (ghostTimer g' = ghostTimer g - 1 \<or> ghostTimer g' = GHOST_DURATION))"
  apply (intro conjI)
    apply (rule impI, (erule conjE)+, erule (5) ghost_pickup_P1)
   apply (rule impI, (erule conjE)+, erule (3) ghost_pickup_P2)
  apply (rule impI, (erule conjE)+, erule (2) pvp_ghost_no_death)
  done

theorem shared_ghost_timer_witness:
  "tickDue 121 pvpGhost
   \<and> snake1 pvpGhost = \<lparr>px = 12, py = 5\<rparr> # [\<lparr>px = 12, py = 6\<rparr>, \<lparr>px = 12, py = 7\<rparr>]
   \<and> \<not> samePoint (nextHead \<lparr>px = 12, py = 5\<rparr> (nextDir1 pvpGhost)) (food pvpGhost)
   \<and> ghostPowerupAt (nextHead \<lparr>px = 12, py = 5\<rparr> (nextDir1 pvpGhost)) pvpGhost
   \<and> checkCollision (nextHead \<lparr>px = 11, py = 6\<rparr> (nextDir2 pvpGhost)) (snake1 pvpGhost)
   \<and> (\<exists>g'. update rndA 121 pvpGhost = Returns g' \<and> p1Survived g' \<and> p2Survived g'
            \<and> ghostTimer g' = GHOST_DURATION)
   \<and> tickDue 121 pvpGhost2 \<and> mode pvpGhost2 = PVP
   \<and> snake2 pvpGhost2 = \<lparr>px = 7, py = 10\<rparr> # []
   \<and> (\<exists>g3 head1 d1. moveP1 rndA (commitDirs (handleTimers 121 pvpGhost2)) = Returns (g3, head1, d1)
            \<and> \<not> samePoint (nextHead \<lparr>px = 7, py = 10\<rparr> (nextDir2 pvpGhost2)) (food g3)
            \<and> ghostPowerupAt (nextHead \<lparr>px = 7, py = 10\<rparr> (nextDir2 pvpGhost2)) g3)
   \<and> (\<exists>g'. update rndA 121 pvpGhost2 = Returns g' \<and> p2Survived g'
            \<and> ghostTimer g' = GHOST_DURATION)
   \<and> mode headOn = PVP \<and> 1 < ghostTimer headOn
   \<and> (\<exists>g'. update rndA 121 headOn = Returns g' \<and> gameState g' = gameState headOn
            \<and> ghostTimer g' = ghostTimer headOn - 1)"
proof -
  have a: "tickDue 121 pvpGhost"
    "snake1 pvpGhost = \<lparr>px = 12, py = 5\<rparr> # [\<lparr>px = 12, py = 6\<rparr>, \<lparr>px = 12, py = 7\<rparr>]"
    "\<not> samePoint (nextHead \<lparr>px = 12, py = 5\<rparr> (nextDir1 pvpGhost)) (food pvpGhost)"
    "ghostPowerupAt (nextHead \<lparr>px = 12, py = 5\<rparr> (nextDir1 pvpGhost)) pvpGhost"
    "checkCollision (nextHead \<lparr>px = 11, py = 6\<rparr> (nextDir2 pvpGhost)) (snake1 pvpGhost)"
    by code_simp+
  define r where "r = pvpGhost\<lparr>moveTimer := 0, scoreP1 := 5, ghostTimer := 200,
                snake1 := [\<lparr>px = 12, py = 4\<rparr>, \<lparr>px = 12, py = 5\<rparr>, \<lparr>px = 12, py = 6\<rparr>, \<lparr>px = 12, py = 7\<rparr>],
                snake2 := [\<lparr>px = 12, py = 6\<rparr>],
                powerup := None, flashFrame := 10, shakeFrame := 10,
                effects := [PlaySound SndPowerup]\<rparr>"
  have run: "update rndA 121 pvpGhost = Returns r" unfolding r_def by (rule pvpGhost_run)
  have s: "p1Survived r" "p2Survived r" unfolding r_def by code_simp+
  from shared_ghost_timer [of 121 pvpGhost rndA r "\<lparr>px = 12, py = 5\<rparr>"
      "[\<lparr>px = 12, py = 6\<rparr>, \<lparr>px = 12, py = 7\<rparr>]"] a run s
  have "ghostTimer r = GHOST_DURATION" by blast
  with run s have A: "\<exists>g'. update rndA 121 pvpGhost = Returns g' \<and> p1Survived g' \<and> p2Survived g'
            \<and> ghostTimer g' = GHOST_DURATION" by blast
  have b: "tickDue 121 pvpGhost2" "mode pvpGhost2 = PVP"
    "snake2 pvpGhost2 = \<lparr>px = 7, py = 10\<rparr> # []"
    by code_simp+
  define g3 where "g3 = pvpGhost2\<lparr>moveTimer := 0, snake1 := [\<lparr>px = 22, py = 9\<rparr>]\<rparr>"
  have m: "moveP1 rndA (commitDirs (handleTimers 121 pvpGhost2)) = Returns (g3, \<lparr>px = 22, py = 9\<rparr>, False)"
    unfolding g3_def by (rule pvpGhost2_moveP1)
  have f3: "\<not> samePoint (nextHead \<lparr>px = 7, py = 10\<rparr> (nextDir2 pvpGhost2)) (food g3)"
    "ghostPowerupAt (nextHead \<lparr>px = 7, py = 10\<rparr> (nextDir2 pvpGhost2)) g3"
    unfolding g3_def by code_simp+
  define r2 where "r2 = pvpGhost2\<lparr>moveTimer := 0, scoreP2 := 5, ghostTimer := 200,
                snake1 := [\<lparr>px = 22, py = 9\<rparr>],
                snake2 := [\<lparr>px = 7, py = 9\<rparr>, \<lparr>px = 7, py = 10\<rparr>],
                powerup := None, flashFrame := 10, shakeFrame := 10,
                effects := [PlaySound SndPowerup]\<rparr>"
  have run2: "update rndA 121 pvpGhost2 = Returns r2" unfolding r2_def by (rule pvpGhost2_run)
  have s2: "p2Survived r2" unfolding r2_def by code_simp
  from shared_ghost_timer [of 121 pvpGhost2 rndA r2] b run2 s2 m f3
  have "ghostTimer r2 = GHOST_DURATION" by auto
  with run2 s2 have B: "\<exists>g'. update rndA 121 pvpGhost2 = Returns g' \<and> p2Survived g'
            \<and> ghostTimer g' = GHOST_DURATION" by blast
  from m f3 have M: "\<exists>g3 head1 d1. moveP1 rndA (commitDirs (handleTimers 121 pvpGhost2)) = Returns (g3, head1, d1)
            \<and> \<not> samePoint (nextHead \<lparr>px = 7, py = 10\<rparr> (nextDir2 pvpGhost2)) (food g3)
            \<and> ghostPowerupAt (nextHead \<lparr>px = 7, py = 10\<rparr> (nextDir2 pvpGhost2)) g3" by blast
  have c: "mode headOn = PVP" "1 < ghostTimer headOn" by code_simp+
  define r3 where "r3 = headOn\<lparr>moveTimer := 0, ghostTimer := 99,
                     snake1 := [\<lparr>px = 11, py = 5\<rparr>], snake2 := [\<lparr>px = 11, py = 5\<rparr>]\<rparr>"
  have run3: "update rndA 121 headOn = Returns r3" unfolding r3_def by (rule headOn_run)
  have n3: "ghostTimer r3 \<noteq> GHOST_DURATION" unfolding r3_def by code_simp
  from shared_ghost_timer [of 121 headOn rndA r3] c run3 n3
  have "gameState r3 = gameState headOn \<and> ghostTimer r3 = ghostTimer headOn - 1" by blast
  with run3 have C: "\<exists>g'. update rndA 121 headOn = Returns g' \<and> gameState g' = gameState headOn
            \<and> ghostTimer g' = ghostTimer headOn - 1" by blast
  from a A b M B c C show ?thesis by blast
qed

section \<open>The frozen chaser\<close>

text \<open>What the encounter block does when the player's next head is on the frozen chaser:
  the death flag is left as it was, 5 points are added, the chaser is moved to a cell
  that is not on the player's body before the move, not on the food and not on the
  powerup, the freeze timer is cleared, and the sound, the particles and the shake are
  requested.\<close>

lemma pacmanEncounter_frozen:
  assumes "pacmanEncounter rnd head1 d g = Returns (g', d', e)"
    and "chaserAt head1 g" and "0 < pacmanFrozen g"
  shows "d' = d \<and> e \<and> scoreP1 g' = scoreP1 g + 5 \<and> pacmanFrozen g' = 0
       \<and> (\<exists>p. pacman g' = Some p
              \<and> \<not> checkCollision p (snake1 g @ [food g]
                    @ (case powerup g of None \<Rightarrow> [] | Some pu \<Rightarrow> [asPoint pu])))
       \<and> effects g' = effects g @ [PlaySound SndEat, SpawnParticles (px head1) (py head1) ColPacman 12]
       \<and> shakeFrame g' = 5"
proof -
  let ?g1 = "triggerShake 5
               (spawnParticles (px head1) (py head1) ColPacman 12
                  (playSound SndEat (g\<lparr>scoreP1 := scoreP1 g + 5\<rparr>)))"
  let ?ex = "snake1 g @ [food g] @ (case powerup g of None \<Rightarrow> [] | Some pu \<Rightarrow> [asPoint pu])"
  have ex: "snake1 ?g1 @ [food ?g1] @ (case powerup ?g1 of None \<Rightarrow> [] | Some pu \<Rightarrow> [asPoint pu]) = ?ex"
    by (simp add: triggerShake_def spawnParticles_def playSound_def)
  from assms obtain p g2 where
    pl: "placeItemG rnd ?ex ?g1 = Returns (p, g2)"
    and g': "g' = g2\<lparr>pacman := Some p, pacmanFrozen := 0\<rparr>" and d': "d' = d" and e: e
    unfolding pacmanEncounter_def Let_def ex
    by (auto simp: chaserAt_def andThen_Returns_iff split: option.splits)
  from placeItemG_ReturnsD [OF pl] obtain n where
    free: "\<not> checkCollision p ?ex" and g2: "g2 = ?g1\<lparr>rngUsed := n\<rparr>" by blast
  from g' g2 free d' e show ?thesis
    by (simp add: triggerShake_def spawnParticles_def playSound_def)
qed

text \<open>
  C6 (the code departs from the claim). The player's head moves right from (5,5) onto
  the frozen chaser at (6,5), with no collision. The chaser is consumed: 5 points, the
  freeze timer cleared, the tail kept. The cell drawn for the chaser's respawn is (6,5)
  again, the player's new head cell, which the exclude list (the body before the move,
  the food, the powerup) does not contain. The chaser, no longer frozen, takes its step
  on this same tick: both cells it tries, (5,5) and (6,6), are on the player's body, so it
  stays on the head cell, and the player is dead: the round is over.
\<close>

theorem frozen_chaser_consumed_player_dies:
  "mode frozenChaserAhead = PVC \<and> pacmanFrozen frozenChaserAhead = 10
   \<and> pacman frozenChaserAhead = Some (nextHead \<lparr>px = 5, py = 5\<rparr> (nextDir1 frozenChaserAhead))
   \<and> hd (snake1 frozenChaserAhead) = \<lparr>px = 5, py = 5\<rparr>
   \<and> \<not> checkCollision (nextHead \<lparr>px = 5, py = 5\<rparr> (nextDir1 frozenChaserAhead))
          (snake1 frozenChaserAhead)
   \<and> update rndA 121 frozenChaserAhead =
       Returns (frozenChaserAhead\<lparr>moveTimer := 0, dir1 := \<lparr>px = 1, py = 0\<rparr>, scoreP1 := 5,
                  snake1 := [\<lparr>px = 6, py = 5\<rparr>, \<lparr>px = 5, py = 5\<rparr>, \<lparr>px = 5, py = 6\<rparr>,
                             \<lparr>px = 6, py = 6\<rparr>, \<lparr>px = 7, py = 6\<rparr>],
                  pacman := Some \<lparr>px = 6, py = 5\<rparr>, pacmanFrozen := 0, pacmanMoveTick := 2,
                  rngUsed := 3, gameState := GameOver, gameOverReason := ''GAME OVER'',
                  shakeFrame := 20,
                  effects := [PlaySound SndEat, SpawnParticles 6 5 ColPacman 12, PlaySound SndDie]\<rparr>)"
proof -
  have "mode frozenChaserAhead = PVC" "pacmanFrozen frozenChaserAhead = 10"
    "pacman frozenChaserAhead = Some (nextHead \<lparr>px = 5, py = 5\<rparr> (nextDir1 frozenChaserAhead))"
    "hd (snake1 frozenChaserAhead) = \<lparr>px = 5, py = 5\<rparr>"
    "\<not> checkCollision (nextHead \<lparr>px = 5, py = 5\<rparr> (nextDir1 frozenChaserAhead))
          (snake1 frozenChaserAhead)"
    by code_simp+
  with frozenChaserAhead_run show ?thesis by blast
qed

section \<open>Where the food is placed\<close>

text \<open>At round start the food is placed off both snakes and off the chaser, and there is
  no powerup.\<close>

lemma resetGame_food_free:
  assumes "resetGame rnd newMode g0 = Returns g"
  shows "\<not> checkCollision (food g)
            (snake1 g @ (case pacman g of None \<Rightarrow> [] | Some pm \<Rightarrow> [pm]) @ snake2 g)
       \<and> powerup g = None"
proof -
  from assms obtain g3 p g4 where
    pl: "placeItemG rnd (snake1 g3 @ (case pacman g3 of None \<Rightarrow> [] | Some pm \<Rightarrow> [pm]) @ snake2 g3) g3
           = Returns (p, g4)"
    and g: "g = g4\<lparr>food := p, powerup := None\<rparr>"
    unfolding resetGame_def Let_def by (auto simp: andThen_Returns_iff)
  from placeItemG_ReturnsD [OF pl] obtain n where
    free: "\<not> checkCollision p (snake1 g3 @ (case pacman g3 of None \<Rightarrow> [] | Some pm \<Rightarrow> [pm]) @ snake2 g3)"
    and g4: "g4 = g3\<lparr>rngUsed := n\<rparr>" by blast
  from free show ?thesis unfolding g g4 by simp
qed

text \<open>
  C7 (the code departs from the claim). After the chaser eats the food, the exclude list
  holds the player's body only. Here the chaser steps from (3,5) onto the food at (2,5)
  and the cell drawn for the new food is (2,5): the food is placed under the chaser.
  After a snake eats the food, the exclude list holds the snakes and the powerup, not the
  chaser: the player eats at (15,9) and the new food is placed at (25,3), where the chaser
  stands.
\<close>

theorem food_respawns_on_chaser:
  "pacman chaserNextToFood = Some \<lparr>px = 3, py = 5\<rparr> \<and> food chaserNextToFood = \<lparr>px = 2, py = 5\<rparr>
   \<and> update rndB 121 chaserNextToFood =
       Returns (chaserNextToFood\<lparr>moveTimer := 0, snake1 := [\<lparr>px = 15, py = 9\<rparr>],
                  pacman := Some \<lparr>px = 2, py = 5\<rparr>, food := \<lparr>px = 2, py = 5\<rparr>,
                  scorePacman := 1, pacmanMoveTick := 2, rngUsed := 2,
                  effects := [PlaySound SndPacman]\<rparr>)
   \<and> pacman foodAhead = Some \<lparr>px = 25, py = 3\<rparr> \<and> food foodAhead = \<lparr>px = 15, py = 9\<rparr>
   \<and> update rndC 121 foodAhead =
       Returns (foodAhead\<lparr>moveTimer := 0, pacmanMoveTick := 1, scoreP1 := 1,
                  moveInterval := 119, baseMoveInterval := 119,
                  snake1 := [\<lparr>px = 15, py = 9\<rparr>, \<lparr>px = 15, py = 10\<rparr>],
                  food := \<lparr>px = 25, py = 3\<rparr>, shakeFrame := 3,
                  effects := [PlaySound SndEat, SpawnParticles 15 9 ColP1 8],
                  rngUsed := 3\<rparr>)"
proof -
  have "pacman chaserNextToFood = Some \<lparr>px = 3, py = 5\<rparr>" "food chaserNextToFood = \<lparr>px = 2, py = 5\<rparr>"
    "pacman foodAhead = Some \<lparr>px = 25, py = 3\<rparr>" "food foodAhead = \<lparr>px = 15, py = 9\<rparr>"
    by code_simp+
  with chaserNextToFood_run foodAhead_run show ?thesis by blast
qed

end
